theory Spec2Isabelle
  imports Complex_Main
begin

section \<open>Python values, exceptions and the console\<close>

text \<open>
  The program is one Python file, \<^verbatim>\<open>Stat-helper.py\<close>: eight interactive helpers, each a
  \<^verbatim>\<open>while(code > 0)\<close> loop over integer command codes. The model follows the source
  function by function.

  Python floats are modelled as real numbers with exact arithmetic (no rounding, no NaN, no
  infinities), Python ints as \<open>int\<close>. An exception is a value of \<open>py_error\<close>; none of the
  helpers catches an exception outside the input functions, so a raised exception ends the
  process and the model returns \<open>Inl\<close> of it.
\<close>

datatype py_error =
  ZeroDivisionError | ValueError | NameError | UnboundLocalError | IndexError | EOFError
  | FileNotFoundError

definition bnd :: "py_error + 'a \<Rightarrow> ('a \<Rightarrow> py_error + 'b) \<Rightarrow> py_error + 'b" where
  "bnd m f = (case m of Inl e \<Rightarrow> Inl e | Inr v \<Rightarrow> f v)"

definition py_div :: "real \<Rightarrow> real \<Rightarrow> py_error + real" where
  \<comment> \<open>\<^verbatim>\<open>a / b\<close> on floats: a zero divisor raises.\<close>
  "py_div a b = (if b = 0 then Inl ZeroDivisionError else Inr (a / b))"

definition py_sqrt :: "real \<Rightarrow> py_error + real" where
  \<comment> \<open>\<^verbatim>\<open>math.sqrt\<close>: a negative argument raises ValueError (math domain error).\<close>
  "py_sqrt a = (if a < 0 then Inl ValueError else Inr (sqrt a))"

definition py_log :: "real \<Rightarrow> py_error + real" where
  \<comment> \<open>\<^verbatim>\<open>math.log\<close>: an argument that is not positive raises ValueError.\<close>
  "py_log a = (if a \<le> 0 then Inl ValueError else Inr (ln a))"

definition py_index :: "'a list \<Rightarrow> nat \<Rightarrow> py_error + 'a" where
  \<comment> \<open>\<^verbatim>\<open>xs[k]\<close> for \<open>k \<ge> 0\<close>: out of range raises IndexError.\<close>
  "py_index xs k = (if k < length xs then Inr (xs ! k) else Inl IndexError)"

definition py_range :: "int \<Rightarrow> nat list" where
  \<comment> \<open>\<^verbatim>\<open>range(n)\<close>: empty when \<open>n \<le> 0\<close>.\<close>
  "py_range m = [0 ..< nat m]"

definition py_range2 :: "int \<Rightarrow> int \<Rightarrow> int list" where
  \<comment> \<open>\<^verbatim>\<open>range(a, b)\<close>.\<close>
  "py_range2 a b = map (\<lambda>k. a + int k) [0 ..< nat (b - a)]"

text \<open>
  A line typed at the console is its text together with what Python's \<^verbatim>\<open>int()\<close> and
  \<^verbatim>\<open>float()\<close> make of it: \<open>AsInt i\<close> when \<^verbatim>\<open>int()\<close> accepts it (then \<^verbatim>\<open>float()\<close> does too),
  \<open>AsFloat v\<close> when only \<^verbatim>\<open>float()\<close> accepts it, \<open>NotNumber\<close> when both raise ValueError.
  \<^verbatim>\<open>input()\<close> on an exhausted console raises EOFError.
\<close>

datatype parsed = NotNumber | AsInt int | AsFloat real

type_synonym line = "string \<times> parsed"

definition int_line :: "string \<Rightarrow> int \<Rightarrow> line" where
  \<comment> \<open>A typed line that \<^verbatim>\<open>int()\<close> reads as the given number.\<close>
  "int_line t i = (t, AsInt i)"

definition enter :: line where
  \<comment> \<open>The empty line: the Enter key alone.\<close>
  "enter = ([], NotNumber)"

definition word :: "string \<Rightarrow> line" where
  \<comment> \<open>A typed line that is not a number.\<close>
  "word t = (t, NotNumber)"

fun to_int :: "parsed \<Rightarrow> int option" where
  "to_int (AsInt i) = Some i"
| "to_int _ = None"

fun to_float :: "parsed \<Rightarrow> real option" where
  "to_float (AsInt i) = Some (of_int i)"
| "to_float (AsFloat v) = Some v"
| "to_float NotNumber = None"

text \<open>
  What the program prints. \<open>Say\<close> is a line of fixed text (abbreviated), \<open>Report\<close> a line
  that shows computed numbers: its label names the print statement and its list holds the
  numbers shown, before \<^verbatim>\<open>round\<close>. \<open>Menu\<close> is \<^verbatim>\<open>print_command_codes\<close>, \<open>Plot\<close> a call of
  the plot renderer. Prompts and the input functions' retry messages are not recorded.
\<close>

datatype event =
  Say string
  | Report string "real list"
  | Menu string
  | Plot "real list" "real list" "(real list \<times> real list) list"

fun get_user_float_input ::
  "real option \<Rightarrow> real option \<Rightarrow> real option \<Rightarrow> line list \<Rightarrow> py_error + (real \<times> line list)" where
  "get_user_float_input dflt least most [] = Inl EOFError"
| "get_user_float_input dflt least most ((user_input, p) # ls) =
     (if user_input = [] \<and> dflt \<noteq> None then Inr (the dflt, ls)
      else if user_input = [] then get_user_float_input dflt least most ls
      else (case to_float p of
          None \<Rightarrow> get_user_float_input dflt least most ls
        | Some v \<Rightarrow>
            if least \<noteq> None \<and> v < the least then get_user_float_input dflt least most ls
            else if most \<noteq> None \<and> v > the most then get_user_float_input dflt least most ls
            else Inr (v, ls)))"

fun get_user_int_input ::
  "int option \<Rightarrow> int option \<Rightarrow> int option \<Rightarrow> line list \<Rightarrow> py_error + (int \<times> line list)" where
  "get_user_int_input dflt least most [] = Inl EOFError"
| "get_user_int_input dflt least most ((user_input, p) # ls) =
     (if user_input = [] \<and> dflt \<noteq> None then Inr (the dflt, ls)
      else if user_input = [] then get_user_int_input dflt least most ls
      else (case to_int p of
          None \<Rightarrow> get_user_int_input dflt least most ls
        | Some v \<Rightarrow>
            if least \<noteq> None \<and> v < the least then get_user_int_input dflt least most ls
            else if most \<noteq> None \<and> v > the most then get_user_int_input dflt least most ls
            else Inr (v, ls)))"

definition is_space :: "char \<Rightarrow> bool" where
  \<comment> \<open>The characters that \<^verbatim>\<open>str.strip()\<close> removes, among those a \<open>char\<close> can hold (code
     points below 256): \<^verbatim>\<open>str.isspace\<close> is true of the space, of 0x09 to 0x0D, of 0x1C to
     0x1F, of 0x85 and of 0xA0.\<close>
  "is_space c = (c \<in> set [CHR '' '', CHR 0x09, CHR 0x0A, CHR 0x0B, CHR 0x0C, CHR 0x0D,
                           CHR 0x1C, CHR 0x1D, CHR 0x1E, CHR 0x1F, CHR 0x85, CHR 0xA0])"

definition py_strip :: "string \<Rightarrow> string" where
  "py_strip s = rev (dropWhile is_space (rev (dropWhile is_space s)))"

definition lower_char :: "char \<Rightarrow> char" where
  "lower_char c =
     (case map_of (zip ''ABCDEFGHIJKLMNOPQRSTUVWXYZ'' ''abcdefghijklmnopqrstuvwxyz'') c of
        Some d \<Rightarrow> d | None \<Rightarrow> c)"

definition upper_char :: "char \<Rightarrow> char" where
  "upper_char c =
     (case map_of (zip ''abcdefghijklmnopqrstuvwxyz'' ''ABCDEFGHIJKLMNOPQRSTUVWXYZ'') c of
        Some d \<Rightarrow> d | None \<Rightarrow> c)"

fun get_user_yes_or_no_input :: "string option \<Rightarrow> line list \<Rightarrow> py_error + (string \<times> line list)" where
  "get_user_yes_or_no_input dflt [] = Inl EOFError"
| "get_user_yes_or_no_input dflt ((raw, p) # ls) =
     (let user_input = map lower_char (py_strip raw) in
      if user_input = [] \<and> dflt \<noteq> None then Inr (map upper_char (the dflt), ls)
      else if user_input \<in> set [''y'', ''yes''] then Inr (''Y'', ls)
      else if user_input \<in> set [''n'', ''no''] then Inr (''N'', ls)
      else get_user_yes_or_no_input dflt ls)"

fun get_user_filename_input :: "string option \<Rightarrow> line list \<Rightarrow> py_error + (string \<times> line list)" where
  "get_user_filename_input dflt [] = Inl EOFError"
| "get_user_filename_input dflt ((user_input, p) # ls) =
     (if user_input = [] \<and> dflt \<noteq> None then Inr (the dflt, ls)
      else if user_input = [] then get_user_filename_input dflt ls
      else Inr (user_input, ls))"


text \<open>
  Functions of the Python library and of SciPy that the program calls and that are not part
  of the repository: \<^verbatim>\<open>str\<close> and \<^verbatim>\<open>float\<close> on the text of a file, and the distribution
  functions \<^verbatim>\<open>norm.cdf\<close>, \<^verbatim>\<open>norm.ppf\<close>, \<^verbatim>\<open>chi2.cdf\<close>, \<^verbatim>\<open>chi2.ppf\<close>. Every
  helper takes them as a parameter.
\<close>

record pylib =
  py_str :: "real \<Rightarrow> string"
  py_float :: "string \<Rightarrow> real option"
  norm_cdf :: "real \<Rightarrow> real"
  norm_ppf :: "real \<Rightarrow> real"
  chi2_cdf :: "real \<Rightarrow> real \<Rightarrow> real"
  chi2_ppf :: "real \<Rightarrow> real \<Rightarrow> real"

text \<open>The console of a helper session: the lines still to be typed, and what was printed.\<close>

record console =
  inp :: "line list"
  out :: "event list"

definition emit :: "event \<Rightarrow> 'a console_scheme \<Rightarrow> 'a console_scheme" where
  "emit e st = st\<lparr>out := out st @ [e]\<rparr>"

definition ask ::
  "(line list \<Rightarrow> py_error + ('v \<times> line list)) \<Rightarrow> ('v \<Rightarrow> 'a console_scheme \<Rightarrow> py_error + 'b)
     \<Rightarrow> 'a console_scheme \<Rightarrow> py_error + 'b" where
  \<comment> \<open>Call an input function on the console, then go on with what it returned.\<close>
  "ask rd k st = (case rd (inp st) of Inl e \<Rightarrow> Inl e | Inr (v, ls) \<Rightarrow> k v (st\<lparr>inp := ls\<rparr>))"

section \<open>The regression helper\<close>

text \<open>
  \<^verbatim>\<open>regression_helper\<close> keeps its intermediate sums and derived statistics in module-level
  globals (record \<open>stats\<close>, field \<open>g\<close> of the session state) and the point set in the lists
  \<^verbatim>\<open>xlist\<close> and \<^verbatim>\<open>ylist\<close>. The source's \<^verbatim>\<open>n\<close>, \<^verbatim>\<open>r\<close>, \<^verbatim>\<open>R\<close>, \<^verbatim>\<open>code\<close> and
  \<^verbatim>\<open>filename\<close> are the fields \<open>rg_n\<close>, \<open>rg_r\<close>, \<open>rg_R\<close>, \<open>rg_code\<close> and \<open>rg_filename\<close>.
  A global is unbound until its first assignment; every read of one in the source is
  behind \<^verbatim>\<open>data_crunched\<close> or follows an assignment in the same command, so the fields
  start at 0.
\<close>

record stats =
  totalx :: real
  totaly :: real
  totalxy :: real
  totalx2 :: real
  totaly2 :: real
  meanx :: real
  meany :: real
  rg_R :: real
  slope :: real
  intercept :: real
  SE :: real
  student_t :: real
  sx :: real
  sy :: real
  sxy :: real
  tot_normx :: real
  tot_normy :: real
  tot_normxy :: real
  tot_normx2 :: real
  tot_normy2 :: real
  var_total :: real
  var_explained :: real
  var_unexplained :: real
  xnormlist :: "real list"
  ynormlist :: "real list"

record rstate = console +
  xlist :: "real list"
  ylist :: "real list"
  rg_n :: int
  rg_r :: int
  data_crunched :: bool
  data_from_file :: bool
  rg_filename :: string
  g :: stats
  rg_code :: int
  files :: "string \<Rightarrow> string option"

fun first_pass :: "real list \<Rightarrow> real list \<Rightarrow> nat list \<Rightarrow> stats \<Rightarrow> py_error + stats" where
  \<comment> \<open>The loop \<^verbatim>\<open>for k in range(n)\<close> that accumulates the five sums.\<close>
  "first_pass xs ys [] s = Inr s"
| "first_pass xs ys (k # ks) s =
     bnd (py_index xs k) (\<lambda>xk. bnd (py_index ys k) (\<lambda>yk.
       first_pass xs ys ks
         (s\<lparr>totalx := totalx s + xk, totaly := totaly s + yk, totalxy := totalxy s + xk * yk,
            totalx2 := totalx2 s + xk ^ 2, totaly2 := totaly2 s + yk ^ 2\<rparr>)))"

fun second_pass :: "real list \<Rightarrow> real list \<Rightarrow> nat list \<Rightarrow> stats \<Rightarrow> py_error + stats" where
  \<comment> \<open>The second loop of \<^verbatim>\<open>crunch_data\<close>: centred values and variance contributions.\<close>
  "second_pass xs ys [] s = Inr s"
| "second_pass xs ys (k # ks) s =
     bnd (py_index xs k) (\<lambda>xk. bnd (py_index ys k) (\<lambda>yk.
       let x = xk - meanx s; y = yk - meany s; y_est = slope s * xk + intercept s in
       second_pass xs ys ks
         (s\<lparr>xnormlist := xnormlist s @ [x], ynormlist := ynormlist s @ [y],
            tot_normx := tot_normx s + x, tot_normy := tot_normy s + y,
            tot_normxy := tot_normxy s + x * y,
            tot_normx2 := tot_normx2 s + x ^ 2, tot_normy2 := tot_normy2 s + y ^ 2,
            var_unexplained := var_unexplained s + (yk - y_est) ^ 2,
            var_explained := var_explained s + (y_est - meany s) ^ 2\<rparr>)))"

definition formula1 :: "int \<Rightarrow> stats \<Rightarrow> py_error + real" where
  \<comment> \<open>\<^verbatim>\<open>R = (n*totalxy - totalx*totaly) / (math.sqrt(n*totalx2 - totalx**2) * math.sqrt(n*totaly2 - totaly**2))\<close>\<close>
  "formula1 m s =
     bnd (py_sqrt (of_int m * totalx2 s - totalx s ^ 2)) (\<lambda>ra.
     bnd (py_sqrt (of_int m * totaly2 s - totaly s ^ 2)) (\<lambda>rb.
       py_div (of_int m * totalxy s - totalx s * totaly s) (ra * rb)))"

definition line_intercept :: "int \<Rightarrow> stats \<Rightarrow> py_error + real" where
  \<comment> \<open>\<^verbatim>\<open>intercept = (totaly*totalx2 - totalx*totalxy)/(n*totalx2 - totalx**2)\<close>\<close>
  "line_intercept m s =
     py_div (totaly s * totalx2 s - totalx s * totalxy s) (of_int m * totalx2 s - totalx s ^ 2)"

definition line_slope :: "int \<Rightarrow> stats \<Rightarrow> py_error + real" where
  \<comment> \<open>\<^verbatim>\<open>slope = (n*totalxy - totalx*totaly)/(n*totalx2 - totalx**2)\<close>\<close>
  "line_slope m s =
     py_div (of_int m * totalxy s - totalx s * totaly s) (of_int m * totalx2 s - totalx s ^ 2)"

definition clear_sums :: "stats \<Rightarrow> stats" where
  "clear_sums s = s\<lparr>totalx := 0, totaly := 0, totalxy := 0, totalx2 := 0, totaly2 := 0\<rparr>"

definition crunch_clear :: "stats \<Rightarrow> stats" where
  \<comment> \<open>The assignments at the head of \<^verbatim>\<open>crunch_data\<close>.\<close>
  "crunch_clear s =
     (clear_sums s)\<lparr>tot_normx := 0, tot_normy := 0, tot_normxy := 0, tot_normx2 := 0,
        tot_normy2 := 0, var_total := 0, var_explained := 0, var_unexplained := 0,
        xnormlist := [], ynormlist := []\<rparr>"

definition crunch :: "real list \<Rightarrow> real list \<Rightarrow> int \<Rightarrow> stats \<Rightarrow> py_error + stats" where
  \<comment> \<open>The branch \<^verbatim>\<open>if n!=0\<close> of \<^verbatim>\<open>crunch_data\<close>, on the globals it assigns.\<close>
  "crunch xs ys m s0 =
     bnd (first_pass xs ys (py_range m) s0) (\<lambda>s1.
     let s2 = s1\<lparr>meanx := totalx s1 / of_int m, meany := totaly s1 / of_int m\<rparr> in
     bnd (formula1 m s2) (\<lambda>R.
     bnd (line_intercept m s2) (\<lambda>b.
     bnd (line_slope m s2) (\<lambda>a.
     bnd (py_sqrt ((totaly2 s2 - b * totaly s2 - a * totalxy s2) / of_int m)) (\<lambda>se.
     bnd (py_sqrt (of_int (m - 2))) (\<lambda>r2.
     bnd (py_sqrt (1 - R ^ 2)) (\<lambda>r3.
     bnd (py_div (R * r2) r3) (\<lambda>t.
     let s3 = s2\<lparr>rg_R := R, intercept := b, slope := a, SE := se, student_t := t\<rparr> in
     bnd (second_pass xs ys (py_range m) s3) (\<lambda>s4.
     bnd (py_sqrt (tot_normx2 s4 / of_int m)) (\<lambda>vx.
     bnd (py_sqrt (tot_normy2 s4 / of_int m)) (\<lambda>vy.
       Inr (s4\<lparr>var_total := tot_normy2 s4, sx := vx, sy := vy,
                sxy := tot_normxy s4 / of_int m\<rparr>))))))))))))"

definition crunch_data :: "rstate \<Rightarrow> py_error + rstate" where
  "crunch_data st =
     (if rg_n st \<noteq> 0 then
        bnd (crunch (xlist st) (ylist st) (rg_n st) (crunch_clear (g st))) (\<lambda>s.
          Inr (st\<lparr>g := s, data_crunched := True\<rparr>))
      else Inr (emit (Say ''***ERROR, no data has been entered yet'') (st\<lparr>g := crunch_clear (g st)\<rparr>)))"

fun for_each :: "'k list \<Rightarrow> ('k \<Rightarrow> 's \<Rightarrow> py_error + 's) \<Rightarrow> 's \<Rightarrow> py_error + 's" where
  \<comment> \<open>A \<^verbatim>\<open>for\<close> loop whose body may raise.\<close>
  "for_each [] body s = Inr s"
| "for_each (k # ks) body s = bnd (body k s) (for_each ks body)"

definition rg_prompt :: "rstate \<Rightarrow> py_error + rstate" where
  \<comment> \<open>The last statement of the loop: \<^verbatim>\<open>code = get_user_int_input("...", 0, 0, 11)\<close>.\<close>
  "rg_prompt st =
     ask (get_user_int_input (Some 0) (Some 0) (Some 11)) (\<lambda>c s. Inr (s\<lparr>rg_code := c\<rparr>)) st"

subsection \<open>Code 1: entering points, typed or from a CSV file\<close>

fun read_points :: "nat list \<Rightarrow> rstate \<Rightarrow> py_error + rstate" where
  "read_points [] st = Inr st"
| "read_points (k # ks) st =
     ask (get_user_float_input None None None) (\<lambda>x.
     ask (get_user_float_input None None None) (\<lambda>y s.
       read_points ks (s\<lparr>xlist := xlist s @ [x], ylist := ylist s @ [y]\<rparr>)))
     (emit (Report ''Point #'' [real (k + 1)]) st)"

definition default_csv :: string where
  \<comment> \<open>\<^verbatim>\<open>"c:\\Users\\User\\test.csv"\<close>; \<open>CHR 0x5C\<close> is the backslash.\<close>
  "default_csv = ''c:'' @ [CHR 0x5C] @ ''Users'' @ [CHR 0x5C] @ ''User'' @ [CHR 0x5C] @ ''test.csv''"

fun ask_filename :: "nat \<Rightarrow> rstate \<Rightarrow> py_error + (string \<times> rstate)" where
  \<comment> \<open>\<^verbatim>\<open>while(answer == "Y" and filename == "")\<close>; every round reads a line, so the
     length of the console bounds the rounds and the first equation is never reached with
     a line left to read.\<close>
  "ask_filename 0 st = Inl EOFError"
| "ask_filename (Suc f) st =
     ask (get_user_filename_input (Some default_csv)) (\<lambda>filename s.
       if files s filename \<noteq> None then Inr (filename, s)
       else ask (get_user_yes_or_no_input (Some ''Y'')) (\<lambda>answer s2.
              if answer = ''Y'' then ask_filename f s2 else Inr ([], s2))
            (emit (Say ''file does not exist'') s)) st"

fun file_lines_aux :: "string \<Rightarrow> string \<Rightarrow> string list" where
  \<comment> \<open>A file opened in text mode is read with universal newlines: a line ends at LF, at
     CR or at CR LF, and each of them is handed over as LF.\<close>
  "file_lines_aux cur [] = (if cur = [] then [] else [cur])"
| "file_lines_aux cur (c # cs) =
     (if c = CHR 0x0A then (cur @ [CHR 0x0A]) # file_lines_aux [] cs
      else if c = CHR 0x0D then
        (case cs of
           [] \<Rightarrow> (cur @ [CHR 0x0A]) # file_lines_aux [] cs
         | d # ds \<Rightarrow>
             if d = CHR 0x0A then (cur @ [CHR 0x0A]) # file_lines_aux [] ds
             else (cur @ [CHR 0x0A]) # file_lines_aux [] cs)
      else file_lines_aux (cur @ [c]) cs)"

definition file_lines :: "string \<Rightarrow> string list" where
  \<comment> \<open>\<^verbatim>\<open>for line in f\<close>: the lines of a text file, each with its newline.\<close>
  "file_lines s = file_lines_aux [] s"

fun read_csv :: "pylib \<Rightarrow> string list \<Rightarrow> int \<Rightarrow> rstate \<Rightarrow> py_error + (int \<times> rstate)" where
  "read_csv lib [] k st = Inr (k, st)"
| "read_csv lib (row # rows) k st =
     (if CHR '','' \<notin> set row then
        read_csv lib rows k (emit (Report ''ERROR line# has no comma'' [of_int (k + 1)]) st)
      else if k = 0 \<and> CHR ''x'' \<in> set row then
        read_csv lib rows k (emit (Say ''The file has a header line which will be ignored'') st)
      else
        (let xpart = takeWhile (\<lambda>c. c \<noteq> CHR '','') row;
             ypart = tl (dropWhile (\<lambda>c. c \<noteq> CHR '','') row)
         in case py_float lib (py_strip xpart) of
              None \<Rightarrow> Inl ValueError
            | Some x \<Rightarrow>
               (case py_float lib (py_strip ypart) of
                  None \<Rightarrow> Inl ValueError
                | Some y \<Rightarrow>
                    read_csv lib rows (k + 1) (st\<lparr>xlist := xlist st @ [x], ylist := ylist st @ [y]\<rparr>))))"

definition rg_cmd1 :: "pylib \<Rightarrow> rstate \<Rightarrow> py_error + rstate" where
  "rg_cmd1 lib st0 =
     ask (get_user_yes_or_no_input (Some ''N'')) (\<lambda>answer s.
       if answer = ''N'' then
         ask (get_user_int_input None (Some 2) None) (\<lambda>m s1.
           bnd (read_points (py_range m) (s1\<lparr>rg_n := m\<rparr>)) (\<lambda>s2.
             rg_prompt (s2\<lparr>data_from_file := False\<rparr>))) s
       else
         bnd (ask_filename (length (inp s)) s) (\<lambda>(filename, s1).
           if filename = [] then
             Inr ((emit (Say ''Will terminate operation'') s1)\<lparr>rg_filename := filename, rg_code := 11\<rparr>)
           else
             (case files s1 filename of
                None \<Rightarrow> Inl FileNotFoundError
              | Some content \<Rightarrow>
                  bnd (read_csv lib (file_lines content) 0 (s1\<lparr>rg_filename := filename\<rparr>)) (\<lambda>(k, s2).
                    rg_prompt ((emit (Report ''Have read points'' [of_int k]) s2)
                                 \<lparr>data_from_file := True, rg_n := k\<rparr>)))))
     ((emit (Say ''You will now enter a new set of X,Y data points'') st0)
        \<lparr>data_crunched := False, xlist := [], ylist := [], rg_n := 0\<rparr>)"

subsection \<open>Code 2: showing, saving and plotting the points\<close>

fun show_points :: "nat list \<Rightarrow> rstate \<Rightarrow> py_error + rstate" where
  "show_points [] st = Inr st"
| "show_points (k # ks) st =
     bnd (py_index (xlist st) k) (\<lambda>x. bnd (py_index (ylist st) k) (\<lambda>y.
       show_points ks (emit (Report ''X[k], Y[k]'' [real (k + 1), x, y]) st)))"

definition csv_header :: string where
  \<comment> \<open>\<^verbatim>\<open>'"x","y"\n'\<close>; \<open>CHR 0x22\<close> is the double quote.\<close>
  "csv_header = [CHR 0x22, CHR ''x'', CHR 0x22, CHR '','', CHR 0x22, CHR ''y'', CHR 0x22, CHR 0x0A]"

fun csv_rows :: "pylib \<Rightarrow> real list \<Rightarrow> real list \<Rightarrow> nat list \<Rightarrow> py_error + string" where
  \<comment> \<open>\<^verbatim>\<open>line = str(xlist[k])+","+str(ylist[k])+"\n"\<close> for every \<^verbatim>\<open>k in range(n)\<close>.\<close>
  "csv_rows lib xs ys [] = Inr []"
| "csv_rows lib xs ys (k # ks) =
     bnd (py_index xs k) (\<lambda>x. bnd (py_index ys k) (\<lambda>y.
     bnd (csv_rows lib xs ys ks) (\<lambda>rest.
       Inr (py_str lib x @ '','' @ py_str lib y @ [CHR 0x0A] @ rest))))"

definition append_file :: "(string \<Rightarrow> string option) \<Rightarrow> string \<Rightarrow> string \<Rightarrow> (string \<Rightarrow> string option)" where
  \<comment> \<open>\<^verbatim>\<open>open(filename, 'a')\<close> and the writes: a missing file is created.\<close>
  "append_file fs name txt =
     fs(name := Some ((case fs name of None \<Rightarrow> [] | Some old \<Rightarrow> old) @ txt))"

definition rg_cmd2 :: "pylib \<Rightarrow> rstate \<Rightarrow> py_error + rstate" where
  "rg_cmd2 lib st0 =
     ask (get_user_yes_or_no_input (Some ''Y'')) (\<lambda>answer s.
       bnd (if answer = ''Y'' then show_points (py_range (rg_n s)) s
            else ask (get_user_int_input (Some 1) (Some 1) (Some (rg_n s))) (\<lambda>start.
                 ask (get_user_int_input (Some (rg_n s)) (Some start) (Some (rg_n s))) (\<lambda>stop s2.
                   show_points (map (\<lambda>k. nat (k - 1)) (py_range2 start stop))
                     (emit (Report ''Here are the values in the range'' [of_int start, of_int stop]) s2))) s)
       (\<lambda>s3.
       bnd (if \<not> data_from_file s3 then
              ask (get_user_yes_or_no_input (Some ''N'')) (\<lambda>answer s4.
                if answer = ''Y'' then
                  ask (get_user_filename_input None) (\<lambda>filename s5.
                    bnd (csv_rows lib (xlist s5) (ylist s5) (py_range (rg_n s5))) (\<lambda>rows.
                      Inr (s5\<lparr>rg_filename := filename,
                               files := append_file (files s5) filename (csv_header @ rows)\<rparr>))) s4
                else Inr s4) s3
            else Inr s3)
       (\<lambda>s6.
         ask (get_user_yes_or_no_input (Some ''N'')) (\<lambda>answer s7.
           rg_prompt
             (if answer = ''Y'' then
                emit (Plot (xlist s7) (ylist s7)
                  (if data_crunched s7
                   then [(xlist s7, map (\<lambda>x. slope (g s7) * x + intercept (g s7)) (xlist s7))]
                   else [])) s7
              else s7)) s6)))
     (emit (Report ''You have entered x,y pairs'' [of_int (rg_n st0)]) st0)"

subsection \<open>Code 3: correcting points\<close>

definition set_x :: "nat \<Rightarrow> real \<Rightarrow> rstate \<Rightarrow> rstate" where
  \<comment> \<open>\<^verbatim>\<open>if xlist[k] != x: xlist[k] = x; data_crunched = False; data_from_file = False\<close>\<close>
  "set_x k x st =
     (if xlist st ! k \<noteq> x
      then st\<lparr>xlist := (xlist st)[k := x], data_crunched := False, data_from_file := False\<rparr>
      else st)"

definition set_y :: "nat \<Rightarrow> real \<Rightarrow> rstate \<Rightarrow> rstate" where
  \<comment> \<open>\<^verbatim>\<open>if ylist[k] != y: ylist[k] = y; data_crunched = False; data_from_file = False\<close>\<close>
  "set_y k y st =
     (if ylist st ! k \<noteq> y
      then st\<lparr>ylist := (ylist st)[k := y], data_crunched := False, data_from_file := False\<rparr>
      else st)"

definition correct_one :: "rstate \<Rightarrow> py_error + (string \<times> rstate)" where
  \<comment> \<open>One round of \<^verbatim>\<open>while(answer=="Y")\<close>. The print reads \<^verbatim>\<open>xlist[k-1]\<close> and
     \<^verbatim>\<open>ylist[k-1]\<close> first, so the index is in range when the lists are compared and assigned.\<close>
  "correct_one st =
     ask (get_user_int_input None (Some 1) (Some (rg_n st))) (\<lambda>k s.
       bnd (py_index (xlist s) (nat (k - 1))) (\<lambda>x0.
       bnd (py_index (ylist s) (nat (k - 1))) (\<lambda>y0.
         ask (get_user_float_input None None None) (\<lambda>x s1.
           ask (get_user_float_input None None None) (\<lambda>y s2.
             ask (get_user_yes_or_no_input (Some ''N'')) (\<lambda>answer s3. Inr (answer, s3))
               (set_y (nat (k - 1)) y s2))
             (set_x (nat (k - 1)) x s1))
           (emit (Report ''Currently point #k has values'' [of_int k, x0, y0]) s)))) st"

fun correct_loop :: "nat \<Rightarrow> string \<Rightarrow> int \<Rightarrow> rstate \<Rightarrow> py_error + (int \<times> rstate)" where
  \<comment> \<open>Every round reads at least four lines, so the length of the console bounds the
     rounds.\<close>
  "correct_loop 0 answer count st = (if answer = ''Y'' then Inl EOFError else Inr (count, st))"
| "correct_loop (Suc f) answer count st =
     (if answer = ''Y'' then
        bnd (correct_one st) (\<lambda>(answer', st'). correct_loop f answer' (count + 1) st')
      else Inr (count, st))"

definition rg_cmd3 :: "rstate \<Rightarrow> py_error + rstate" where
  "rg_cmd3 st =
     ask (get_user_yes_or_no_input (Some ''N'')) (\<lambda>answer s.
       bnd (correct_loop (length (inp s)) answer 0 s) (\<lambda>(count, s1).
         rg_prompt (emit (Report ''You have made changes to points'' [of_int count]) s1))) st"


subsection \<open>Codes 4 to 6: the correlation coefficient and the regression line\<close>

definition rg_redirect :: "rstate \<Rightarrow> py_error + rstate" where
  \<comment> \<open>\<^verbatim>\<open>print("There is no data entered yet, ..."); code = 1; continue\<close>\<close>
  "rg_redirect st = Inr ((emit (Say ''There is no data entered yet. Enter some points first.'') st)\<lparr>rg_code := 1\<rparr>)"

definition rg_cmd4 :: "rstate \<Rightarrow> py_error + rstate" where
  "rg_cmd4 st =
     (if data_crunched st then rg_prompt (emit (Report ''For the current data the R value is'' [rg_R (g st)]) st)
      else if rg_n st \<noteq> 0 then
        bnd (first_pass (xlist st) (ylist st) (py_range (rg_n st)) (clear_sums (g st))) (\<lambda>s1.
        bnd (formula1 (rg_n st) s1) (\<lambda>R.
        bnd (crunch_data (emit (Report ''The first formula gives an R value of'' [R])
                            (st\<lparr>g := s1\<lparr>rg_R := R\<rparr>\<rparr>))) (\<lambda>st2.
          rg_prompt (emit (Report ''The internal function gives an R value of'' [rg_R (g st2)]) st2))))
      else rg_redirect st)"

definition formula2 :: "rstate \<Rightarrow> py_error + rstate" where
  \<comment> \<open>The body of code 5 for \<^verbatim>\<open>n != 0\<close>: means, standard deviations, and
     \<^verbatim>\<open>R = totalsum / ((n-1)*sx*sy)\<close>.\<close>
  "formula2 st =
     (let m = rg_n st; xs = xlist st; ys = ylist st;
          s0 = (g st)\<lparr>totalx := 0, totaly := 0, meanx := 0, meany := 0, sx := 0, sy := 0\<rparr>
      in
      bnd (for_each (py_range m)
             (\<lambda>k s. bnd (py_index xs k) (\<lambda>xk. bnd (py_index ys k) (\<lambda>yk.
                Inr (s\<lparr>totalx := totalx s + xk, totaly := totaly s + yk\<rparr>)))) s0) (\<lambda>s1.
      let s2 = s1\<lparr>meanx := totalx s1 / of_int m, meany := totaly s1 / of_int m\<rparr> in
      bnd (for_each (py_range m)
             (\<lambda>k s. bnd (py_index xs k) (\<lambda>xk. bnd (py_index ys k) (\<lambda>yk.
                Inr (s\<lparr>sx := sx s + (xk - meanx s) ^ 2, sy := sy s + (yk - meany s) ^ 2\<rparr>)))) s2) (\<lambda>s3.
      bnd (py_sqrt (sx s3 / of_int m)) (\<lambda>vx.
      bnd (py_sqrt (sy s3 / of_int m)) (\<lambda>vy.
      let s4 = s3\<lparr>sx := vx, sy := vy\<rparr> in
      bnd (for_each (py_range m)
             (\<lambda>k t. bnd (py_index xs k) (\<lambda>xk. bnd (py_index ys k) (\<lambda>yk.
                Inr (t + (xk - meanx s4) * (yk - meany s4))))) 0) (\<lambda>totalsum.
      bnd (py_div totalsum (of_int (m - 1) * vx * vy)) (\<lambda>R.
        Inr (emit (Report ''The second formula gives an R value of'' [R])
            (emit (Report ''(n-1)*Sx*Sy'' [of_int (m - 1), vx, vy])
            (emit (Report ''totalsum'' [totalsum])
            (emit (Report ''X-mean, Y-mean, Sx, Sy'' [meanx s4, meany s4, vx, vy])
               (st\<lparr>data_crunched := False, g := s4\<lparr>rg_R := R\<rparr>\<rparr>))))))))))))"

definition rg_cmd5 :: "rstate \<Rightarrow> py_error + rstate" where
  "rg_cmd5 st = (if rg_n st \<noteq> 0 then bnd (formula2 st) rg_prompt else rg_redirect st)"

definition rg_cmd6 :: "rstate \<Rightarrow> py_error + rstate" where
  "rg_cmd6 st0 =
     (let st = emit (Say ''We are now going to calculate the linear least-square line'') st0 in
      if rg_n st \<noteq> 0 then
        bnd (if \<not> data_crunched st then
               bnd (first_pass (xlist st) (ylist st) (py_range (rg_n st)) (clear_sums (g st))) (\<lambda>s1.
               bnd (line_intercept (rg_n st) s1) (\<lambda>b.
               bnd (line_slope (rg_n st) s1) (\<lambda>a.
                 Inr (st\<lparr>g := s1\<lparr>intercept := b, slope := a\<rparr>\<rparr>))))
             else Inr (emit (Say ''The data has already been calculated by an earlier command'') st))
        (\<lambda>st1.
          let b = intercept (g st1); m = slope (g st1) in
          rg_prompt
            (emit (if m > 0 then Report ''Y = b + m*X'' [b, m] else Report ''Y = b - abs(m)*X'' [b, \<bar>m\<bar>])
            (emit (Report ''The best least-squares line has the intercept and slope'' [b, m]) st1)))
      else rg_redirect st)"

subsection \<open>Code 7: all statistics, and the reverse line\<close>

definition rev_denom :: "int \<Rightarrow> stats \<Rightarrow> real" where
  \<comment> \<open>\<^verbatim>\<open>denom = n*totaly2-totaly**2\<close>\<close>
  "rev_denom m s = of_int m * totaly2 s - totaly s ^ 2"

definition rev_intercept :: "int \<Rightarrow> stats \<Rightarrow> real" where
  \<comment> \<open>\<^verbatim>\<open>rev_intercept = (totalx*totaly**2 - totaly*totalxy)/denom\<close>\<close>
  "rev_intercept m s = (totalx s * totaly s ^ 2 - totaly s * totalxy s) / rev_denom m s"

definition rev_slope :: "int \<Rightarrow> stats \<Rightarrow> real" where
  \<comment> \<open>\<^verbatim>\<open>rev_slope = (float(n)*totalxy-totalx*totaly)/denom\<close>\<close>
  "rev_slope m s = (of_int m * totalxy s - totalx s * totaly s) / rev_denom m s"

definition reverse_line :: "rstate \<Rightarrow> py_error + (real \<times> rstate)" where
  \<comment> \<open>From \<^verbatim>\<open>denom = ...\<close> to the end of the \<^verbatim>\<open>if denom == 0 ... else\<close>; returns
     \<^verbatim>\<open>tot_xdev2\<close> with the state.\<close>
  "reverse_line st =
     (let m = rg_n st; s = g st; denom = rev_denom m s in
      if denom = 0 then Inr (0, emit (Report ''The denominator is 0, can not compute values'' [denom]) st)
      else
        (let ri = rev_intercept m s; rs = rev_slope m s;
             st1 = emit (Report ''The best fitting X on Y line has intercept and slope'' [ri, rs]) st;
             st2 = emit (if rs > 0 then Report ''X_hat = ri + rs*Y'' [ri, rs]
                         else Report ''X_hat = ri - abs(rs)*Y'' [ri, \<bar>rs\<bar>]) st1
         in
         bnd (for_each (py_range m)
                (\<lambda>k t. bnd (py_index (ylist st) k) (\<lambda>yk. bnd (py_index (xlist st) k) (\<lambda>xk.
                   Inr (t + (xk - (rs * yk + ri)) ^ 2)))) 0) (\<lambda>tot_xdev2.
         bnd (py_sqrt (tot_xdev2 / of_int m)) (\<lambda>rev_SE.
           Inr (tot_xdev2, emit (Report ''The reverse SE'' [rev_SE]) st2)))))"

definition dump_stats :: "rstate \<Rightarrow> py_error + rstate" where
  \<comment> \<open>The prints of code 7 from \<^verbatim>\<open>We have a total of ...\<close> to Fisher's Z.\<close>
  "dump_stats st =
     (let m = rg_n st; s = g st;
          st1 = emit (Report ''We have a total of points'' [of_int m]) st;
          st2 = (if data_from_file st1
                 then emit (Say (''This data was entered from a file named '' @ rg_filename st1)) st1
                 else st1);
          st3 = emit (Report ''The coefficient of linear correlation, R is'' [rg_R s]) st2;
          st4 = emit (Report ''The best fitting line has intercept and slope'' [intercept s, slope s]) st3;
          st5 = emit (if slope s > 0 then Report ''Y_hat = intercept + slope*X'' [intercept s, slope s]
                      else Report ''Y_hat = intercept - abs(slope)*X'' [intercept s, \<bar>slope s\<bar>]) st4;
          st6 = emit (Report ''The t value and degrees of freedom'' [student_t s, of_int (m - 2)]) st5;
          st7 = emit (Report ''The standard error of estimation SE is'' [SE s]) st6
      in
      bnd (py_sqrt (var_unexplained s / of_int m)) (\<lambda>alt_SE.
      bnd (py_div (of_int m) (of_int (m - 2))) (\<lambda>q.
      bnd (py_sqrt q) (\<lambda>rq.
      let st8 = emit (Report ''The modified SE is'' [SE s * rq])
                  (emit (Report ''the alternate formula gives an SE of'' [alt_SE]) st7);
          st9 = emit (Report ''total, unexplained, explained variation''
                        [var_total s, var_unexplained s, var_explained s])
                  (emit (Report ''The coefficient of covariance, Sxy'' [sxy s])
                  (emit (Report ''meanX, sx, meanY, sy'' [meanx s, sx s, meany s, sy s]) st8))
      in
      bnd (py_div (1 + rg_R s) (1 - rg_R s)) (\<lambda>q2.
      bnd (py_log q2) (\<lambda>lg.
        Inr (emit (Report ''Fishers Z statistic'' [0.5 * lg]) st9)))))))"

definition rg_cmd7 :: "rstate \<Rightarrow> py_error + rstate" where
  "rg_cmd7 st0 =
     bnd (if \<not> data_crunched st0 \<and> rg_n st0 \<noteq> 0 then crunch_data st0 else Inr st0) (\<lambda>st.
       if rg_n st = 0 then rg_redirect st
       else
         bnd (dump_stats st) (\<lambda>st1.
         bnd (reverse_line st1) (\<lambda>(tot_xdev2, st2).
           ask (get_user_yes_or_no_input (Some ''N'')) (\<lambda>answer s3.
             rg_prompt
               (if answer = ''Y'' then
                  emit (Plot (xlist s3) (ylist s3)
                    ((xlist s3, map (\<lambda>x. slope (g s3) * x + intercept (g s3)) (xlist s3)) #
                     (if tot_xdev2 \<noteq> 0
                      then [(map (\<lambda>y. rev_slope (rg_n s3) (g s3) * y + rev_intercept (rg_n s3) (g s3)) (ylist s3),
                             ylist s3)]
                      else [])))
                  (emit (Say ''The usual regression line is red, the reverse line green'') s3)
                else s3)) st2)))"

subsection \<open>Codes 8 to 11, and the command loop\<close>

fun residual_loop :: "nat \<Rightarrow> real \<Rightarrow> real \<Rightarrow> bool \<Rightarrow> string \<Rightarrow> rstate \<Rightarrow> py_error + rstate" where
  \<comment> \<open>\<^verbatim>\<open>while (answer == "Y")\<close> of code 8; every round reads at least three lines.\<close>
  "residual_loop 0 b m using_data answer st = (if answer = ''Y'' then Inl EOFError else Inr st)"
| "residual_loop (Suc f) b m using_data answer st =
     (if answer = ''Y'' then
        ask (get_user_float_input None None None) (\<lambda>y.
        ask (get_user_float_input None None None) (\<lambda>x s.
          let yhat = b + m * x;
              s1 = emit (Report ''The predicted y-hat and the residual'' [yhat, yhat - y]) s
          in
          bnd (if using_data
               then bnd (py_div \<bar>y - yhat\<bar> (SE (g s1))) (\<lambda>d.
                      Inr (emit (Report ''standard errors away from the predicted y-hat'' [d]) s1))
               else Inr s1) (\<lambda>s2.
          ask (get_user_yes_or_no_input (Some ''Y'')) (\<lambda>answer'. residual_loop f b m using_data answer') s2))) st
      else Inr st)"

definition rg_cmd8 :: "rstate \<Rightarrow> py_error + rstate" where
  "rg_cmd8 st =
     bnd (if rg_n st = 0 then
            ask (get_user_float_input None None None) (\<lambda>b.
            ask (get_user_float_input None None None) (\<lambda>m s. Inr (b, m, False, s))) st
          else
            ask (get_user_yes_or_no_input (Some ''Y'')) (\<lambda>answer s.
              if answer = ''Y'' then
                bnd (if \<not> data_crunched s then crunch_data s else Inr s) (\<lambda>s1.
                  Inr (intercept (g s1), slope (g s1), True, s1))
              else
                ask (get_user_float_input None None None) (\<lambda>b.
                ask (get_user_float_input None None None) (\<lambda>m s1. Inr (b, m, False, s1))) s) st)
     (\<lambda>(b, m, using_data, s2).
        bnd (residual_loop (length (inp s2)) b m using_data ''Y'' s2) rg_prompt)"

definition rg_cmd9 :: "rstate \<Rightarrow> py_error + rstate" where
  \<comment> \<open>\<^verbatim>\<open>stats.linregress\<close> is SciPy's; its printed results are one \<open>Say\<close>.\<close>
  "rg_cmd9 st =
     (if rg_n st \<noteq> 0 then
        bnd (if \<not> data_crunched st then crunch_data (emit (Say ''We will call the SciPy library'') st)
             else Inr (emit (Say ''We will call the SciPy library'') st)) (\<lambda>s1.
          rg_prompt
            (emit (Say ''SciPy says: ...'')
            (emit (Report ''Our function calculated slope, intercept, R, SE''
                     [slope (g s1), intercept (g s1), rg_R (g s1), SE (g s1)]) s1)))
      else rg_redirect st)"

definition regression_body :: "pylib \<Rightarrow> rstate \<Rightarrow> py_error + rstate" where
  \<comment> \<open>One round of \<^verbatim>\<open>while(code > 0)\<close> in \<^verbatim>\<open>regression_helper\<close>.\<close>
  "regression_body lib st =
     (let c = rg_code st in
      if c = 1 then rg_cmd1 lib st
      else if c = 2 then rg_cmd2 lib st
      else if c = 3 then rg_cmd3 st
      else if c = 4 then rg_cmd4 st
      else if c = 5 then rg_cmd5 st
      else if c = 6 then rg_cmd6 st
      else if c = 7 then rg_cmd7 st
      else if c = 8 then rg_cmd8 st
      else if c = 9 then rg_cmd9 st
      else if c = 10 then
        ask (get_user_int_input (Some 4) (Some 1) (Some 9)) (\<lambda>v s. rg_prompt (s\<lparr>rg_r := v\<rparr>)) st
      else if c = 11 then rg_prompt (emit (Menu ''regression'') st)
      else if c = 0 then Inr st
      else rg_prompt (emit (Menu ''regression'') (emit (Report ''invalid code'' [of_int c]) st)))"

fun regression_loop :: "nat \<Rightarrow> pylib \<Rightarrow> rstate \<Rightarrow> (py_error + rstate) option" where
  \<comment> \<open>\<^verbatim>\<open>while(code > 0)\<close> for at most the given number of rounds; \<open>None\<close> when the
     rounds are used up before the loop ends.\<close>
  "regression_loop 0 lib st = (if rg_code st > 0 then None else Some (Inr st))"
| "regression_loop (Suc f) lib st =
     (if rg_code st > 0 then
        (case regression_body lib st of Inl e \<Rightarrow> Some (Inl e) | Inr st' \<Rightarrow> regression_loop f lib st')
      else Some (Inr st))"

definition stats0 :: stats where
  "stats0 = \<lparr>totalx = 0, totaly = 0, totalxy = 0, totalx2 = 0, totaly2 = 0, meanx = 0, meany = 0,
     rg_R = 0, slope = 0, intercept = 0, SE = 0, student_t = 0, sx = 0, sy = 0, sxy = 0,
     tot_normx = 0, tot_normy = 0, tot_normxy = 0, tot_normx2 = 0, tot_normy2 = 0,
     var_total = 0, var_explained = 0, var_unexplained = 0, xnormlist = [0], ynormlist = [0]\<rparr>"

definition regression_start :: "line list \<Rightarrow> (string \<Rightarrow> string option) \<Rightarrow> py_error + rstate" where
  \<comment> \<open>\<^verbatim>\<open>regression_helper\<close> up to its loop.\<close>
  "regression_start lines fs =
     ask (get_user_int_input (Some 4) (Some 1) (Some 9)) (\<lambda>v s.
       ask (get_user_int_input (Some 1) (Some 0) (Some 11)) (\<lambda>c s1. Inr (s1\<lparr>rg_code := c\<rparr>))
         (emit (Menu ''regression'') (s\<lparr>rg_r := v, rg_n := 0\<rparr>)))
     \<lparr>inp = lines, out = [Say ''Python Chapter 8 helper for regression''],
      xlist = [0], ylist = [0], rg_n = 0, rg_r = 0, data_crunched = False, data_from_file = False,
      rg_filename = [], g = stats0, rg_code = 0, files = fs\<rparr>"

definition regression_helper ::
  "nat \<Rightarrow> pylib \<Rightarrow> line list \<Rightarrow> (string \<Rightarrow> string option) \<Rightarrow> (py_error + rstate) option" where
  "regression_helper fuel lib lines fs =
     (case regression_start lines fs of Inl e \<Rightarrow> Some (Inl e) | Inr st \<Rightarrow> regression_loop fuel lib st)"


definition pts3 :: rstate where
  \<comment> \<open>A session that holds the points (1,2), (2,1), (3,3), typed in with code 1.\<close>
  "pts3 = \<lparr>inp = [], out = [], xlist = [1, 2, 3], ylist = [2, 1, 3], rg_n = 3, rg_r = 4,
     data_crunched = False, data_from_file = False, rg_filename = [], g = stats0, rg_code = 0,
     files = Map.empty\<rparr>"

definition crunched3 :: rstate where
  \<comment> \<open>The session \<open>pts3\<close> once \<^verbatim>\<open>crunch_data\<close> has run.\<close>
  "crunched3 = (case crunch_data pts3 of Inr st \<Rightarrow> st | Inl e \<Rightarrow> pts3)"

definition from_points :: "rstate \<Rightarrow> py_error + stats" where
  \<comment> \<open>What \<^verbatim>\<open>crunch_data\<close> computes from the points of a session, in a process that has
     computed nothing before.\<close>
  "from_points st = crunch (xlist st) (ylist st) (rg_n st) (crunch_clear stats0)"

definition cache_ok :: "rstate \<Rightarrow> bool" where
  \<comment> \<open>The cached statistics are those of the points: when \<^verbatim>\<open>data_crunched\<close> is set,
     running \<^verbatim>\<open>crunch_data\<close> again changes nothing.\<close>
  "cache_ok st = (data_crunched st \<longrightarrow> crunch_data st = Inr st)"

definition rg_kept :: "rstate \<Rightarrow> rstate \<Rightarrow> bool" where
  \<comment> \<open>The points, the statistics and the flag are as they were.\<close>
  "rg_kept st st' =
     (xlist st' = xlist st \<and> ylist st' = ylist st \<and> rg_n st' = rg_n st \<and> g st' = g st
      \<and> data_crunched st' = data_crunched st)"

section \<open>The normal distribution helper\<close>

text \<open>
  \<^verbatim>\<open>normal_helper\<close>. Its locals \<^verbatim>\<open>mean\<close> and \<^verbatim>\<open>sdev\<close> are unbound until code 2 assigns them
  (\<open>None\<close>); reading an unbound local raises UnboundLocalError. The source's \<^verbatim>\<open>r\<close>,
  \<^verbatim>\<open>code\<close> and \<^verbatim>\<open>future_code\<close> are the fields \<open>nm_r\<close>, \<open>nm_code\<close> and \<open>nm_future_code\<close>.
\<close>

record nstate = console +
  nm_r :: int
  mean_set :: bool
  nm_mean :: "real option"
  nm_sdev :: "real option"
  nm_future_code :: int
  nm_code :: int

definition local_var :: "real option \<Rightarrow> py_error + real" where
  \<comment> \<open>Reading a local variable.\<close>
  "local_var v = (case v of None \<Rightarrow> Inl UnboundLocalError | Some a \<Rightarrow> Inr a)"

definition nm_prompt :: "nstate \<Rightarrow> py_error + nstate" where
  \<comment> \<open>\<^verbatim>\<open>code = get_user_int_input("Enter the command code (0, or 1-17) :",2,0,17)\<close>\<close>
  "nm_prompt st =
     ask (get_user_int_input (Some 2) (Some 0) (Some 17)) (\<lambda>c s. Inr (s\<lparr>nm_code := c\<rparr>)) st"

definition nm_defer :: "int \<Rightarrow> nstate \<Rightarrow> py_error + nstate" where
  \<comment> \<open>\<^verbatim>\<open>print("You must first use command code 2 ..."); code = 2; future_code = c; continue\<close>\<close>
  "nm_defer c st =
     Inr ((emit (Say ''You must first use command code 2 to set the mean and std. dev'') st)
            \<lparr>nm_code := 2, nm_future_code := c\<rparr>)"

definition z_of :: "real \<Rightarrow> nstate \<Rightarrow> py_error + real" where
  \<comment> \<open>\<^verbatim>\<open>z = (x - mean)/sdev\<close>\<close>
  "z_of x st = bnd (local_var (nm_mean st)) (\<lambda>m. bnd (local_var (nm_sdev st)) (\<lambda>sd. py_div (x - m) sd))"

definition nm_cmd2 :: "nstate \<Rightarrow> py_error + nstate" where
  "nm_cmd2 st =
     ask (get_user_float_input None None None) (\<lambda>u.
     ask (get_user_float_input None (Some (1 / 10 ^ 7)) None) (\<lambda>s st1.
       let st2 = (emit (Report ''Mean, Variance, Standard Deviation'' [u, s * s, s])
                 (emit (Report ''Normal distribution with an average and sdev'' [u, s]) st1))
                 \<lparr>nm_mean := Some u, nm_sdev := Some s, mean_set := True\<rparr>
       in if nm_future_code st2 > 0
          then Inr (st2\<lparr>nm_code := nm_future_code st2, nm_future_code := 0\<rparr>)
          else nm_prompt st2)) st"

definition nm_cmd12 :: "pylib \<Rightarrow> nstate \<Rightarrow> py_error + nstate" where
  \<comment> \<open>\<^verbatim>\<open>alpha = get_user_float_input("...",NONE,0.00001,0.4)\<close>: the name \<^verbatim>\<open>NONE\<close> is not
     defined, so evaluating the arguments raises NameError before anything is read.\<close>
  "nm_cmd12 lib st0 =
     (let st = emit (Say ''Given an X value and a significance level alpha [1 tail]'') st0 in
      if \<not> mean_set st then nm_defer 12 st else Inl NameError)"

definition nm_cmd13 :: "pylib \<Rightarrow> nstate \<Rightarrow> py_error + nstate" where
  "nm_cmd13 lib st0 =
     (let st = emit (Say ''Given an X value and a significance level alpha [two tails]'') st0 in
      if \<not> mean_set st then nm_defer 13 st
      else
        ask (get_user_float_input None (Some 0) (Some (4 / 10))) (\<lambda>alpha.
        ask (get_user_float_input None None None) (\<lambda>x s.
          let zlow = norm_ppf lib (alpha / 2); zhigh = - zlow in
          bnd (z_of x s) (\<lambda>z.
            nm_prompt
              (emit (if z < zlow \<or> z > zhigh then Report ''outside of the bounds: SIGNIFICANT'' [x]
                     else Report ''within the bounds: NOT significant'' [x])
              (emit (Report ''The confidence interval and the Z-code of X'' [zlow, zhigh, z]) s))))) st)"

definition normal_body :: "pylib \<Rightarrow> nstate \<Rightarrow> py_error + nstate" where
  \<comment> \<open>One round of \<^verbatim>\<open>while(code > 0)\<close> in \<^verbatim>\<open>normal_helper\<close>.\<close>
  "normal_body lib st =
     (let c = nm_code st in
      if c = 1 then
        ask (get_user_int_input (Some 4) (Some 1) (Some 9)) (\<lambda>v s.
          nm_prompt (emit (Report ''Will use decimal places'' [of_int v]) (s\<lparr>nm_r := v\<rparr>))) st
      else if c = 2 then nm_cmd2 st
      else if c = 3 then
        bnd (local_var (nm_mean st)) (\<lambda>m. bnd (local_var (nm_sdev st)) (\<lambda>sd.
          nm_prompt (emit (Report ''rounded to decimal places'' [of_int (nm_r st)])
                    (emit (Report ''The current distribution has mean and standard deviation'' [m, sd]) st))))
      else if c = 4 then
        ask (get_user_float_input None None None) (\<lambda>z s.
          nm_prompt (emit (Report ''Probability (everything < z)'' [z, norm_cdf lib z]) s)) st
      else if c = 5 then
        ask (get_user_float_input None None None) (\<lambda>z s.
          nm_prompt (emit (Report ''Probability (everything > z)'' [z, 1 - norm_cdf lib z]) s)) st
      else if c = 6 then
        (let st1 = emit (Say ''calculate chance that X <= upper'') st in
         if \<not> mean_set st1 then nm_defer 6 st1
         else ask (get_user_float_input None None None) (\<lambda>upper s.
                bnd (z_of upper s) (\<lambda>z.
                  nm_prompt (emit (Report ''Prob for X <= upper'' [upper, norm_cdf lib z]) s))) st1)
      else if c = 7 then
        (let st1 = emit (Say ''Calculate chance that X > lower'') st in
         if \<not> mean_set st1 then nm_defer 7 st1
         else ask (get_user_float_input None None None) (\<lambda>lower s.
                bnd (z_of lower s) (\<lambda>z.
                  nm_prompt (emit (Report ''Prob for X > lower'' [lower, 1 - norm_cdf lib z]) s))) st1)
      else if c = 8 then
        \<comment> \<open>\<^verbatim>\<open>lower = get_user_float_inputinput(...)\<close>: the name is not defined.\<close>
        (let st1 = emit (Say ''Calculate the prob. of falling in the interval lower < X < upper'') st in
         if \<not> mean_set st1 then nm_defer 8 st1 else Inl NameError)
      else if c = 9 then
        (let st1 = emit (Say ''Find Z (normalized Z-code) given an X value'') st in
         if \<not> mean_set st1 then Inr ((emit (Say ''You must first use command code 2 to set the mean and std. dev'') st1)
                                        \<lparr>nm_future_code := c, nm_code := 2\<rparr>)
         else ask (get_user_float_input None None None) (\<lambda>x s.
                bnd (z_of x s) (\<lambda>z.
                  nm_prompt (emit (Report ''X corresponds to a Z value'' [x, z]) s))) st1)
      else if c = 10 then
        (let st1 = emit (Say ''Find X given the corresponding Z'') st in
         if \<not> mean_set st1 then Inr ((emit (Say ''You must first use command code 2 to set the mean and std. dev'') st1)
                                        \<lparr>nm_future_code := c, nm_code := 2\<rparr>)
         else ask (get_user_float_input None None None) (\<lambda>z s.
                bnd (local_var (nm_sdev s)) (\<lambda>sd. bnd (local_var (nm_mean s)) (\<lambda>m.
                  nm_prompt (emit (Report ''A Z value gives an X value'' [z, z * sd + m]) s)))) st1)
      else if c = 11 then
        (let st1 = emit (Say ''find X for given prob. (reverse of cum. dist. function)'') st in
         if \<not> mean_set st1 then Inr ((emit (Say ''You must first use command code 2 to set the mean and std. dev'') st1)
                                        \<lparr>nm_future_code := c, nm_code := 2\<rparr>)
         else ask (get_user_float_input None (Some (1 / 10 ^ 6)) (Some (999999 / 10 ^ 6))) (\<lambda>p s.
                bnd (local_var (nm_sdev s)) (\<lambda>sd. bnd (local_var (nm_mean s)) (\<lambda>m.
                  nm_prompt (emit (Report ''For a probability the z value and the X value''
                                     [p, norm_ppf lib p, norm_ppf lib p * sd + m]) s)))) st1)
      else if c = 12 then nm_cmd12 lib st
      else if c = 13 then nm_cmd13 lib st
      else if c = 14 then
        \<comment> \<open>In the call that reads \<^verbatim>\<open>z_high\<close> the argument \<^verbatim>\<open>Z_low\<close> is a name that is
           not defined (\<^verbatim>\<open>z_low\<close> was read).\<close>
        ask (get_user_float_input None None None) (\<lambda>z_low s. Inl NameError)
          (emit (Say ''Given two Z values (interval) find the probability'') st)
      else if c = 15 then
        ask (get_user_float_input None (Some (1 / 10 ^ 5)) (Some (99999 / 10 ^ 5))) (\<lambda>prob s.
          nm_prompt (emit (Report ''P(Z < z_low) = prob and P(Z > z_high) = prob''
                             [norm_ppf lib prob, norm_ppf lib (1 - prob), prob]) s))
          (emit (Say ''Given a probability, p, find the Z-value to the right and to the left'') st)
      else if c = 16 then
        ask (get_user_float_input None (Some (1 / 10 ^ 5)) (Some (99999 / 10 ^ 5))) (\<lambda>prob s.
          nm_prompt
            (emit (Report ''For a probability OUTSIDE the interval we need an interval of''
                     [prob, norm_ppf lib (prob / 2), - norm_ppf lib (prob / 2)])
            (emit (Report ''For a probability we need an interval of''
                     [prob, norm_ppf lib ((1 - prob) / 2), - norm_ppf lib ((1 - prob) / 2)]) s)))
          (emit (Say ''Given a probability, p, find the Z-values for the symmetric interval'') st)
      else if c = 17 then nm_prompt (emit (Menu ''normal'') st)
      else if c = 0 then Inr st
      else nm_prompt (emit (Menu ''normal'') (emit (Report ''invalid code'' [of_int c]) st)))"

fun normal_loop :: "nat \<Rightarrow> pylib \<Rightarrow> nstate \<Rightarrow> (py_error + nstate) option" where
  \<comment> \<open>\<^verbatim>\<open>while(code > 0)\<close> for at most the given number of rounds.\<close>
  "normal_loop 0 lib st = (if nm_code st > 0 then None else Some (Inr st))"
| "normal_loop (Suc f) lib st =
     (if nm_code st > 0 then
        (case normal_body lib st of Inl e \<Rightarrow> Some (Inl e) | Inr st' \<Rightarrow> normal_loop f lib st')
      else Some (Inr st))"

definition normal_start :: "line list \<Rightarrow> py_error + nstate" where
  \<comment> \<open>\<^verbatim>\<open>normal_helper\<close> up to its loop.\<close>
  "normal_start lines =
     ask (get_user_int_input (Some 1) (Some 0) (Some 17)) (\<lambda>c s. Inr (s\<lparr>nm_code := c\<rparr>))
       \<lparr>inp = lines, out = [Say ''Python Normal Distribution helper'', Menu ''normal''],
        nm_r = 4, mean_set = False, nm_mean = None, nm_sdev = None, nm_future_code = 0,
        nm_code = 0\<rparr>"

definition normal_helper :: "nat \<Rightarrow> pylib \<Rightarrow> line list \<Rightarrow> (py_error + nstate) option" where
  "normal_helper fuel lib lines =
     (case normal_start lines of Inl e \<Rightarrow> Some (Inl e) | Inr st \<Rightarrow> normal_loop fuel lib st)"

section \<open>The difference of proportions helper\<close>

text \<open>
  \<^verbatim>\<open>diff_prop_helper\<close>. Its locals \<^verbatim>\<open>d\<close> and \<^verbatim>\<open>sdev\<close> are unbound until code 3 or 4
  assigns them. \<^verbatim>\<open>int(p1 * n1)\<close> truncates a positive product, which is its floor.
\<close>

record dstate = console +
  dp_r :: int
  parms_set :: bool
  dp_d :: "real option"
  dp_sdev :: "real option"
  dp_future_code :: int
  dp_code :: int

definition dp_prompt :: "dstate \<Rightarrow> py_error + dstate" where
  \<comment> \<open>\<^verbatim>\<open>code = get_user_int_input("Enter the command code (0, or 1-9) :",0,0,9)\<close>\<close>
  "dp_prompt st =
     ask (get_user_int_input (Some 0) (Some 0) (Some 9)) (\<lambda>c s. Inr (s\<lparr>dp_code := c\<rparr>)) st"

definition dp_defer :: "dstate \<Rightarrow> py_error + dstate" where
  \<comment> \<open>\<^verbatim>\<open>print("You must first use command code 3 or 4 ..."); future_code = code;
     code = get_user_int_input("... preferably 3 or 4) :",4,0,8); continue\<close>\<close>
  "dp_defer st =
     ask (get_user_int_input (Some 4) (Some 0) (Some 8)) (\<lambda>c s. Inr (s\<lparr>dp_code := c\<rparr>))
       ((emit (Say ''You must first use command code 3 or 4'') st)\<lparr>dp_future_code := dp_code st\<rparr>)"

definition dp_resume :: "dstate \<Rightarrow> py_error + dstate" where
  \<comment> \<open>\<^verbatim>\<open>if future_code>0: code=future_code; future_code=0; continue\<close>, else the prompt at
     the end of the loop.\<close>
  "dp_resume st =
     (if dp_future_code st > 0 then Inr (st\<lparr>dp_code := dp_future_code st, dp_future_code := 0\<rparr>)
      else dp_prompt st)"

definition dp_params ::
  "real \<Rightarrow> int \<Rightarrow> int \<Rightarrow> real \<Rightarrow> int \<Rightarrow> int \<Rightarrow> bool \<Rightarrow> dstate \<Rightarrow> py_error + dstate" where
  \<comment> \<open>The common tail of codes 3 and 4, from \<^verbatim>\<open>d = p1 - p2\<close> on; code 4 also prints an
     alternate standard error.\<close>
  "dp_params p1 k1 n1 p2 k2 n2 alt st =
     (let d = p1 - p2 in
      bnd (py_sqrt (p1 * (1 - p1) / of_int n1 + p2 * (1 - p2) / of_int n2)) (\<lambda>sdev.
      let st1 = (emit (Report ''The point estimate (d-hat) and the standard Error'' [d, sdev]) st)
                  \<lparr>dp_d := Some d, dp_sdev := Some sdev, parms_set := True\<rparr> in
      bnd (py_div (of_int (k1 + k2)) (of_int (n1 + n2))) (\<lambda>pbar.
      bnd (py_sqrt ((pbar * (1 - pbar)) * (1 / of_int n1 + 1 / of_int n2))) (\<lambda>rt.
      bnd (py_div d rt) (\<lambda>tstat.
      let st2 = emit (Report ''pbar and the test statistic'' [pbar, tstat]) st1 in
      dp_resume (if alt then emit (Report ''The alternate Standard Error is'' [rt]) st2 else st2))))))"

definition dp_cmd3 :: "dstate \<Rightarrow> py_error + dstate" where
  "dp_cmd3 st =
     ask (get_user_int_input None (Some 2) None) (\<lambda>n1.
     ask (get_user_float_input None (Some (1 / 10 ^ 6)) (Some (999999 / 10 ^ 6))) (\<lambda>p1 s1.
       let k1 = \<lfloor>p1 * of_int n1\<rfloor> in
       ask (get_user_int_input None (Some 2) None) (\<lambda>n2.
       ask (get_user_float_input None (Some (1 / 10 ^ 6)) (Some (999999 / 10 ^ 6))) (\<lambda>p2 s2.
         let k2 = \<lfloor>p2 * of_int n2\<rfloor> in
         dp_params p1 k1 n1 p2 k2 n2 False
           (emit (Report ''We have N2 trials with p2 (k2/n2)'' [of_int n2, p2, of_int k2]) s2)))
       (emit (Report ''We have N1 trials with p1 (k1/n1)'' [of_int n1, p1, of_int k1]) s1)))
     (emit (Say ''Enter a new set of n1,p1 and n2,p2 values'') st)"

definition dp_cmd4 :: "dstate \<Rightarrow> py_error + dstate" where
  "dp_cmd4 st =
     ask (get_user_int_input None (Some 2) None) (\<lambda>n1.
     ask (get_user_int_input None (Some 1) (Some n1)) (\<lambda>k1 s1.
       bnd (py_div (of_int k1) (of_int n1)) (\<lambda>p1.
       ask (get_user_int_input None (Some 2) None) (\<lambda>n2.
       ask (get_user_int_input None (Some 1) (Some n2)) (\<lambda>k2 s2.
         bnd (py_div (of_int k2) (of_int n2)) (\<lambda>p2.
         dp_params p1 k1 n1 p2 k2 n2 True
           (emit (Report ''and N2 trials with p2 (k2/n2)'' [of_int n2, p2, of_int k2]) s2))))
       (emit (Report ''We have N1 trials with p1 (k1/n1)'' [of_int n1, p1, of_int k1]) s1))))
     (emit (Say ''enter a new set of n1 trials, k1 successes, and n2, k2'') st)"

definition dp_cmd1 :: "pylib \<Rightarrow> dstate \<Rightarrow> py_error + dstate" where
  "dp_cmd1 lib st0 =
     (let st = emit (Say ''Calculate one sided (1-tail) chance for a certain difference'') st0 in
      if \<not> parms_set st then dp_defer st
      else
        ask (get_user_float_input None None None) (\<lambda>new_d s.
          bnd (local_var (dp_d s)) (\<lambda>d. bnd (local_var (dp_sdev s)) (\<lambda>sdev.
          bnd (py_div (new_d - d) sdev) (\<lambda>z.
          let chance = (if z > 0 then 1 - norm_cdf lib z else norm_cdf lib z) in
          ask (get_user_float_input None (Some (1 / 10 ^ 5)) (Some (5 / 10))) (\<lambda>alpha s1.
            dp_prompt
              (emit (if alpha > chance then Report ''SIGNIFICANT'' [chance, alpha]
                     else Report ''NOT significant'' [chance, alpha])
              (emit (Report ''The chance of getting a sample with a difference of'' [new_d, chance]) s1)))
            (emit (Report ''The Z-score for this diff'' [new_d, z]) s))))) st)"

definition dp_cmd2 :: "pylib \<Rightarrow> dstate \<Rightarrow> py_error + dstate" where
  "dp_cmd2 lib st0 =
     (let st = emit (Say ''Calculate the confidence interval for a given confidence level'') st0 in
      if \<not> parms_set st then dp_defer st
      else
        ask (get_user_float_input None (Some (1 / 100)) (Some (99999 / 10 ^ 5))) (\<lambda>confidence s.
          let tail = (1 - confidence) / 2; zstar = \<bar>norm_ppf lib tail\<bar> in
          bnd (local_var (dp_sdev s)) (\<lambda>sdev. bnd (local_var (dp_d s)) (\<lambda>d.
          let me = \<bar>zstar * sdev\<bar> in
          dp_prompt
            (emit (Report ''The interval can be given as lower < p1 - p2 < upper'' [d - me, d + me])
            (emit (Report ''confidence, Z* and the Margin of Error'' [confidence, zstar, me])
            (emit (Report ''Only things that have a chance of less than'' [tail]) s)))))) st)"

definition dp_cmd5 :: "dstate \<Rightarrow> py_error + dstate" where
  "dp_cmd5 st0 =
     (let st = emit (Say ''Calculate d-hat given Z'') st0 in
      if \<not> parms_set st then dp_defer st
      else
        ask (get_user_float_input None (Some (- 5)) (Some 5)) (\<lambda>z s.
          bnd (local_var (dp_sdev s)) (\<lambda>sdev. bnd (local_var (dp_d s)) (\<lambda>d.
            dp_prompt (emit (Report ''A Z value gives a d-hat value'' [z, z * sdev + d]) s)))) st)"

definition diff_prop_body :: "pylib \<Rightarrow> dstate \<Rightarrow> py_error + dstate" where
  \<comment> \<open>One round of \<^verbatim>\<open>while(code > 0)\<close> in \<^verbatim>\<open>diff_prop_helper\<close>.\<close>
  "diff_prop_body lib st =
     (let c = dp_code st in
      if c = 1 then dp_cmd1 lib st
      else if c = 2 then dp_cmd2 lib st
      else if c = 3 then dp_cmd3 st
      else if c = 4 then dp_cmd4 st
      else if c = 5 then dp_cmd5 st
      else if c = 6 then
        ask (get_user_int_input (Some 3) (Some 1) (Some 9)) (\<lambda>v.
        ask (get_user_float_input None (Some (1 / 10 ^ 4)) (Some (9998 / 10 ^ 4))) (\<lambda>lower.
        ask (get_user_float_input None (Some (2 / 10 ^ 4)) (Some (9999 / 10 ^ 4))) (\<lambda>upper s.
          let mid = (upper + lower) / 2 in
          dp_prompt (emit (Report ''For the interval the point estimate and the margin of error''
                             [lower, upper, mid, upper - mid]) (s\<lparr>dp_r := v\<rparr>)))))
          (emit (Say ''given a confidence interval find the point estimate and margin of error'') st)
      else if c = 7 then
        ask (get_user_int_input (Some 4) (Some 1) (Some 9)) (\<lambda>v s. dp_prompt (s\<lparr>dp_r := v\<rparr>)) st
      else if c = 8 then
        ask (get_user_float_input None None None) (\<lambda>dhat s.
          bnd (local_var (dp_d s)) (\<lambda>d. bnd (local_var (dp_sdev s)) (\<lambda>sdev.
          bnd (py_div (dhat - d) sdev) (\<lambda>z.
            dp_prompt (emit (Report ''A d-hat value corresponds to a Z value'' [dhat, z]) s)))))
          (emit (Say ''Calculate a Z-value given a d-hat value'') st)
      else if c = 9 then dp_prompt (emit (Menu ''diff of proportions'') st)
      else if c = 0 then Inr st
      else dp_prompt (emit (Menu ''diff of proportions'') (emit (Report ''invalid code'' [of_int c]) st)))"

fun diff_prop_loop :: "nat \<Rightarrow> pylib \<Rightarrow> dstate \<Rightarrow> (py_error + dstate) option" where
  "diff_prop_loop 0 lib st = (if dp_code st > 0 then None else Some (Inr st))"
| "diff_prop_loop (Suc f) lib st =
     (if dp_code st > 0 then
        (case diff_prop_body lib st of Inl e \<Rightarrow> Some (Inl e) | Inr st' \<Rightarrow> diff_prop_loop f lib st')
      else Some (Inr st))"

definition diff_prop_start :: "line list \<Rightarrow> py_error + dstate" where
  \<comment> \<open>\<^verbatim>\<open>diff_prop_helper\<close> up to its loop.\<close>
  "diff_prop_start lines =
     ask (get_user_int_input (Some 4) (Some 1) (Some 9)) (\<lambda>v s.
       ask (get_user_int_input (Some 1) (Some 0) (Some 9)) (\<lambda>c s1. Inr (s1\<lparr>dp_code := c\<rparr>))
         (emit (Menu ''diff of proportions'') (s\<lparr>dp_r := v\<rparr>)))
       \<lparr>inp = lines, out = [Say ''Python difference in proportions helper''],
        dp_r = 0, parms_set = False, dp_d = None, dp_sdev = None, dp_future_code = 0, dp_code = 0\<rparr>"

definition diff_prop_helper :: "nat \<Rightarrow> pylib \<Rightarrow> line list \<Rightarrow> (py_error + dstate) option" where
  "diff_prop_helper fuel lib lines =
     (case diff_prop_start lines of Inl e \<Rightarrow> Some (Inl e) | Inr st \<Rightarrow> diff_prop_loop fuel lib st)"

section \<open>The chi-square helper\<close>

text \<open>
  \<^verbatim>\<open>chi2_helper\<close>. The source's \<^verbatim>\<open>N\<close>, \<^verbatim>\<open>v\<close>, \<^verbatim>\<open>r\<close>, \<^verbatim>\<open>code\<close> and \<^verbatim>\<open>future_code\<close> are the
  fields \<open>ch_N\<close>, \<open>ch_v\<close>, \<open>ch_r\<close>, \<open>ch_code\<close> and \<open>ch_future_code\<close>.
\<close>

record cstate = console +
  ch_r :: int
  ch_future_code :: int
  data_entered :: bool
  ch_N :: int
  ch_v :: int
  total :: int
  chi_squared :: real
  Yates :: real
  chance :: "real list"
  observed :: "int list"
  expected :: "real list"
  z2 :: "real list"
  ch_code :: int

definition py_set :: "'a list \<Rightarrow> nat \<Rightarrow> 'a \<Rightarrow> py_error + 'a list" where
  \<comment> \<open>\<^verbatim>\<open>xs[k] = v\<close>: out of range raises IndexError.\<close>
  "py_set xs k v = (if k < length xs then Inr (xs[k := v]) else Inl IndexError)"

definition ch_prompt :: "cstate \<Rightarrow> py_error + cstate" where
  \<comment> \<open>\<^verbatim>\<open>code = get_user_int_input("Enter the command code (0, or 1-8) :",0,0,8)\<close>\<close>
  "ch_prompt st =
     ask (get_user_int_input (Some 0) (Some 0) (Some 8)) (\<lambda>c s. Inr (s\<lparr>ch_code := c\<rparr>)) st"

definition ch_defer :: "cstate \<Rightarrow> py_error + cstate" where
  \<comment> \<open>\<^verbatim>\<open>print("You have not entered any observations ..."); future_code = code; code = 1;
     continue\<close>\<close>
  "ch_defer st =
     Inr ((emit (Say ''You have not entered any observations (code 1)'') st)
            \<lparr>ch_future_code := ch_code st, ch_code := 1\<rparr>)"

definition chi_terms :: "nat \<Rightarrow> cstate \<Rightarrow> py_error + cstate" where
  \<comment> \<open>The statements that end the loop body of codes 2, 3 and 4, from
     \<^verbatim>\<open>chi = ((observed[i]-expected[i])**2) / expected[i]\<close> to \<^verbatim>\<open>Yates = Yates + chi\<close>.\<close>
  "chi_terms i st =
     bnd (py_index (observed st) i) (\<lambda>ob.
     bnd (py_index (expected st) i) (\<lambda>ex.
     bnd (py_div ((of_int ob - ex) ^ 2) ex) (\<lambda>chi.
     bnd (py_set (z2 st) i chi) (\<lambda>zs.
     bnd (py_div ((\<bar>of_int ob - ex\<bar> - 1 / 2) ^ 2) ex) (\<lambda>chiy.
       Inr (st\<lparr>z2 := zs, chi_squared := chi_squared st + chi, Yates := Yates st + chiy\<rparr>))))))"

definition warn_low :: "real \<Rightarrow> cstate \<Rightarrow> cstate" where
  \<comment> \<open>The warning for an expected frequency below 5.\<close>
  "warn_low e st = (if e < 5 then emit (Say ''*** Warning ! The expected frequency is less than 5'') st else st)"

definition ch_result :: "pylib \<Rightarrow> cstate \<Rightarrow> cstate" where
  \<comment> \<open>The three prints of the test statistic, and \<^verbatim>\<open>data_entered = True\<close>.\<close>
  "ch_result lib st =
     (let p = chi2_cdf lib (chi_squared st) (of_int (ch_v st)) in
      (emit (Report ''the continuity-corrected (Yates) Chi-square is'' [Yates st])
      (emit (Report ''The chance of being up to this value (or less) is'' [p])
      (emit (Report ''The test statistic Chi-square and the probability p of this (or more)''
               [chi_squared st, 1 - p]) st)))\<lparr>data_entered := True\<rparr>)"

definition ch_cmd1 :: "cstate \<Rightarrow> py_error + cstate" where
  "ch_cmd1 st0 =
     ask (get_user_int_input None (Some 2) (Some 26)) (\<lambda>m s.
       bnd (for_each (py_range m)
              (\<lambda>i. ask (get_user_int_input None (Some 0) None) (\<lambda>v s1.
                 Inr (s1\<lparr>total := total s1 + v, observed := observed s1 @ [v],
                          expected := expected s1 @ [0], chance := chance s1 @ [0],
                          z2 := z2 s1 @ [0]\<rparr>)))
              (s\<lparr>ch_N := m, ch_v := m - 1, total := 0, observed := [], expected := [],
                 z2 := [], chance := []\<rparr>)) (\<lambda>s2.
       ask (get_user_yes_or_no_input (Some ''N'')) (\<lambda>has_total s3.
         bnd (if has_total = ''Y'' then
                ask (get_user_int_input None (Some 1) None) (\<lambda>m2 s4.
                  Inr (if m2 \<noteq> total s4
                       then emit (Report ''Your total value does not match the entered data frequencies''
                                    [of_int m2, of_int (total s4)]) s4
                       else s4)) s3
              else Inr s3) (\<lambda>s5.
         let s6 = emit (Report ''categories and degrees of freedom'' [of_int (ch_N s5), of_int (ch_v s5)])
                  (emit (Report ''The total number of observations is'' [of_int (total s5)]) s5) in
         \<comment> \<open>\<^verbatim>\<open>if future_code != 0: code = future_code; future_code = 0\<close>, with no
            \<^verbatim>\<open>continue\<close>: the prompt at the end of the loop follows.\<close>
         ch_prompt (if ch_future_code s6 \<noteq> 0
                    then s6\<lparr>ch_code := ch_future_code s6, ch_future_code := 0\<rparr> else s6))) s2))
     (emit (Say ''We must know how many different categories there are'') st0)"

definition ch_cmd2 :: "pylib \<Rightarrow> cstate \<Rightarrow> py_error + cstate" where
  "ch_cmd2 lib st =
     (if total st = 0 then ch_defer st
      else
        bnd (py_div (of_int (total st)) (of_int (ch_N st))) (\<lambda>p.
        bnd (for_each (py_range (ch_N st))
               (\<lambda>i s. bnd (py_set (expected s) i p) (\<lambda>es. chi_terms i (s\<lparr>expected := es\<rparr>)))
               ((warn_low p
                  (emit (Report ''Each category has the same expected frequency of'' [p])
                  (emit (Say ''Will calculate expected frequencies, all the same'') st)))
                  \<lparr>chi_squared := 0, Yates := 0\<rparr>)) (\<lambda>s1.
          ch_prompt (ch_result lib s1))))"

definition ch3_step :: "string \<Rightarrow> nat \<Rightarrow> real \<times> cstate \<Rightarrow> py_error + real \<times> cstate" where
  \<comment> \<open>The body of the loop \<^verbatim>\<open>for i in range(N)\<close> of code 3, on \<^verbatim>\<open>total_p\<close> and the
     state.\<close>
  "ch3_step as_fractions i acc =
     (case acc of (total_p, s1) \<Rightarrow>
        bnd (if as_fractions = ''Y'' then
               ask (get_user_int_input None (Some 1) None) (\<lambda>num.
               ask (get_user_int_input None (Some (num + 1)) None) (\<lambda>denom s2.
                 bnd (py_div (of_int num) (of_int denom)) (\<lambda>p. Inr (p, s2)))) s1
             else
               ask (get_user_float_input None (Some (1 / 10 ^ 6)) (Some (999999 / 10 ^ 6)))
                 (\<lambda>p s2. Inr (p, s2)) s1)
        (\<lambda>(p, s3).
           bnd (py_set (chance s3) i p) (\<lambda>cs.
           bnd (py_set (expected s3) i (p * of_int (total s3))) (\<lambda>es.
           bnd (chi_terms i
                  (warn_low (p * of_int (total s3))
                    (emit (Report ''For category # the expected value is''
                             [real (i + 1), p * of_int (total s3)])
                    (s3\<lparr>chance := cs, expected := es\<rparr>)))) (\<lambda>s4.
             Inr (total_p + p, s4))))))"

definition ch_cmd3 :: "pylib \<Rightarrow> cstate \<Rightarrow> py_error + cstate" where
  "ch_cmd3 lib st =
     (if total st = 0 then ch_defer st
      else
        ask (get_user_yes_or_no_input (Some ''N'')) (\<lambda>as_fractions s.
          bnd (for_each (py_range (ch_N s)) (ch3_step as_fractions)
                 (0, s\<lparr>chi_squared := 0, Yates := 0\<rparr>)) (\<lambda>(total_p, s5).
            ch_prompt
              (if total_p > 1001 / 1000 \<or> total_p < 999 / 1000
               then emit (Say ''Use code 5 to check what you entered, or use code 3 again'')
                      (emit (Report ''The total probability for all categories is'' [total_p]) s5)
               else ch_result lib s5)))
        (emit (Say ''Enter the expected probability for each of the categories'') st))"

definition ch4_step :: "nat \<Rightarrow> real \<times> cstate \<Rightarrow> py_error + real \<times> cstate" where
  \<comment> \<open>The body of the loop of code 4, on \<^verbatim>\<open>total_e\<close> and the state.\<close>
  "ch4_step i acc =
     (case acc of (total_e, s1) \<Rightarrow>
        ask (get_user_float_input None (Some (1 / 10 ^ 6)) (Some (of_int (total s1)))) (\<lambda>f s2.
          bnd (py_set (expected s2) i f) (\<lambda>es.
          bnd (chi_terms i (warn_low f (s2\<lparr>expected := es\<rparr>))) (\<lambda>s3.
            Inr (total_e + f, s3)))) s1)"

definition ch_cmd4 :: "pylib \<Rightarrow> cstate \<Rightarrow> py_error + cstate" where
  "ch_cmd4 lib st =
     (if total st = 0 then ch_defer st
      else
        bnd (for_each (py_range (ch_N st)) ch4_step
               (0, (emit (Say ''Enter the actual expected frequency for each of the categories'') st)
                     \<lparr>chi_squared := 0, Yates := 0\<rparr>)) (\<lambda>(total_e, s4).
          ch_prompt
            (if \<bar>total_e - of_int (total s4)\<bar> > 1 / 1000
             then emit (Say ''Use code 5 to check what you entered, and use code 4 again'')
                    (emit (Report ''The total expected frequencies for all categories is''
                             [total_e, of_int (total s4)]) s4)
             else ch_result lib s4)))"

definition ch_kept :: "cstate \<Rightarrow> cstate \<Rightarrow> bool" where
  \<comment> \<open>What entering expected values leaves as it was, accepted or not.\<close>
  "ch_kept st st' =
     (ch_N st' = ch_N st \<and> ch_v st' = ch_v st \<and> total st' = total st \<and> observed st' = observed st
      \<and> ch_r st' = ch_r st \<and> ch_future_code st' = ch_future_code st)"

definition ch_cmd5 :: "pylib \<Rightarrow> cstate \<Rightarrow> py_error + cstate" where
  "ch_cmd5 lib st0 =
     (let st = emit (Say ''Will print the currently existing data being used'') st0 in
      if total st = 0 then ch_defer st
      else
        bnd (py_index (chance st) 0) (\<lambda>c0.
        bnd (if c0 = 0 then
               for_each (py_range (ch_N st))
                 (\<lambda>i (totals_p, totals_e, totals_x, s).
                    bnd (py_index (observed s) i) (\<lambda>ob.
                    bnd (py_index (expected s) i) (\<lambda>ex. bnd (py_index (z2 s) i) (\<lambda>zz.
                      Inr (totals_p, totals_e + ex, totals_x + zz,
                           emit (Report ''Cat #, Observed, Expected, X-squared''
                                   [real (i + 1), of_int ob, ex, zz]) s)))))
                 (0, 0, 0, st)
             else
               for_each (py_range (ch_N st))
                 (\<lambda>i (totals_p, totals_e, totals_x, s).
                    bnd (py_index (observed s) i) (\<lambda>ob. bnd (py_index (chance s) i) (\<lambda>ch.
                    bnd (py_index (expected s) i) (\<lambda>ex. bnd (py_index (z2 s) i) (\<lambda>zz.
                      Inr (totals_p + ch, totals_e + ex, totals_x + zz,
                           emit (Report ''Cat #, Observed, Prob., Expected, X-squared''
                                   [real (i + 1), of_int ob, ch, ex, zz]) s))))))
                 (0, 0, 0, st))
        (\<lambda>(totals_p, totals_e, totals_x, s1).
          let p = chi2_cdf lib (chi_squared s1) (of_int (ch_v s1)) in
          ch_prompt
            (emit (Report ''the continuity-corrected (Yates) Chi-square is'' [Yates s1])
            (emit (Report ''The total number of observations is'' [of_int (total s1)])
            (emit (Report ''The probability p of this (or more), and of up to this value'' [1 - p, p])
            (emit (Report ''categories, degrees of freedom, Chi-square''
                     [of_int (ch_N s1), of_int (ch_v s1), chi_squared s1])
            (emit (if c0 = 0
                   then Report ''Totals'' [of_int (total s1), totals_e, totals_x]
                   else Report ''Totals'' [of_int (total s1), totals_p, totals_e, totals_x]) s1))))))))"

definition ch_cmd6 :: "pylib \<Rightarrow> cstate \<Rightarrow> py_error + cstate" where
  "ch_cmd6 lib st0 =
     (let st = emit (Say ''Given a significance level we will test the Null hypothesis'') st0 in
      if \<not> data_entered st then
        Inr ((emit (Say ''You do not have a complete set of data yet'') st)
               \<lparr>ch_future_code := ch_code st, ch_code := 5\<rparr>)
      else
        ask (get_user_int_input (Some 4) (Some 1) (Some 9)) (\<lambda>v.
        ask (get_user_float_input (Some (5 / 100)) (Some (1 / 10 ^ 5)) (Some (4999 / 10 ^ 4))) (\<lambda>alpha s.
          let upper = 1 - alpha;
              p_left = chi2_cdf lib (chi_squared s) (of_int (ch_v s));
              p = 1 - p_left;
              chi_critical = chi2_ppf lib upper (of_int (ch_v s)) in
          ch_prompt
            (emit (Report ''using the Yates continuity corrected value''
                     [Yates s, chi2_cdf lib (Yates s) (of_int (ch_v s)), p, chi_critical])
            (emit (if chi_critical < chi_squared s then Report ''critical value: MUST reject'' [chi_critical]
                   else Report ''critical value: CAN NOT reject'' [chi_critical])
            (emit (if p_left > upper then Report ''cumulative probability: MUST reject'' [p_left, upper]
                   else Report ''cumulative probability: CAN NOT reject'' [p_left, upper])
            (emit (if p < alpha then Report ''p is less than alpha: MUST reject'' [p, alpha]
                   else Report ''p is greater than alpha: CAN NOT reject'' [p, alpha])
            (emit (Report ''The probability p for a Chi-square of (or more) is'' [chi_squared s, p])
               (s\<lparr>ch_r := v\<rparr>)))))))) st)"

definition chi2_body :: "pylib \<Rightarrow> cstate \<Rightarrow> py_error + cstate" where
  \<comment> \<open>One round of \<^verbatim>\<open>while(code > 0)\<close> in \<^verbatim>\<open>chi2_helper\<close>.\<close>
  "chi2_body lib st =
     (let c = ch_code st in
      if c = 1 then ch_cmd1 st
      else if c = 2 then ch_cmd2 lib st
      else if c = 3 then ch_cmd3 lib st
      else if c = 4 then ch_cmd4 lib st
      else if c = 5 then ch_cmd5 lib st
      else if c = 6 then ch_cmd6 lib st
      else if c = 7 then
        ask (get_user_int_input (Some 4) (Some 1) (Some 9)) (\<lambda>v s. ch_prompt (s\<lparr>ch_r := v\<rparr>)) st
      else if c = 8 then ch_prompt (emit (Menu ''chi2'') st)
      else if c = 0 then Inr st
      else ch_prompt (emit (Menu ''chi2'') (emit (Report ''invalid code'' [of_int c]) st)))"

fun chi2_loop :: "nat \<Rightarrow> pylib \<Rightarrow> cstate \<Rightarrow> (py_error + cstate) option" where
  "chi2_loop 0 lib st = (if ch_code st > 0 then None else Some (Inr st))"
| "chi2_loop (Suc f) lib st =
     (if ch_code st > 0 then
        (case chi2_body lib st of Inl e \<Rightarrow> Some (Inl e) | Inr st' \<Rightarrow> chi2_loop f lib st')
      else Some (Inr st))"

definition chi2_start :: "line list \<Rightarrow> py_error + cstate" where
  \<comment> \<open>\<^verbatim>\<open>chi2_helper\<close> up to its loop.\<close>
  "chi2_start lines =
     ask (get_user_int_input (Some 4) (Some 1) (Some 9)) (\<lambda>v s.
       ask (get_user_int_input (Some 1) (Some 0) (Some 8)) (\<lambda>c s1. Inr (s1\<lparr>ch_code := c\<rparr>))
         (emit (Menu ''chi2'') (s\<lparr>ch_r := v\<rparr>)))
       \<lparr>inp = lines, out = [Say ''Python Chi-squared and goodness of fit helper''],
        ch_r = 0, ch_future_code = 0, data_entered = False, ch_N = 0, ch_v = 0, total = 0,
        chi_squared = 0, Yates = 0, chance = [0], observed = [0], expected = [0], z2 = [0],
        ch_code = 0\<rparr>"

definition chi2_helper :: "nat \<Rightarrow> pylib \<Rightarrow> line list \<Rightarrow> (py_error + cstate) option" where
  "chi2_helper fuel lib lines =
     (case chi2_start lines of Inl e \<Rightarrow> Some (Inl e) | Inr st \<Rightarrow> chi2_loop fuel lib st)"

section \<open>The linear distribution helper\<close>

text \<open>
  \<^verbatim>\<open>linear_helper\<close>. All its locals but \<^verbatim>\<open>r\<close> and \<^verbatim>\<open>code\<close> are unbound until code 2 assigns
  them, and \<^verbatim>\<open>slope\<close> until code 2 accepts a distribution that is not flat.
\<close>

record lstate = console +
  li_r :: int
  li_left :: "real option"
  li_pl :: "real option"
  li_right :: "real option"
  li_pr :: "real option"
  li_l :: "real option"
  li_u :: "real option"
  li_p :: "real option"
  li_slope :: "real option"
  li_code :: int











definition nm_label :: "int \<Rightarrow> string" where
  \<comment> \<open>The label of the line that prints the answer of a command of the normal helper that
     needs the mean and the standard deviation.\<close>
  "nm_label c =
     (if c = 6 then ''Prob for X <= upper''
      else if c = 7 then ''Prob for X > lower''
      else if c = 9 then ''X corresponds to a Z value''
      else if c = 10 then ''A Z value gives an X value''
      else if c = 11 then ''For a probability the z value and the X value''
      else ''The confidence interval and the Z-code of X'')"

definition dp_label :: "int \<Rightarrow> string" where
  \<comment> \<open>The same for the commands 1, 2 and 5 of the difference of proportions helper.\<close>
  "dp_label c =
     (if c = 1 then ''The chance of getting a sample with a difference of''
      else if c = 2 then ''The interval can be given as lower < p1 - p2 < upper''
      else ''A Z value gives a d-hat value'')"

definition nm_demo :: nstate where
  \<comment> \<open>A session of the normal helper in which the user has typed 6 at the first prompt and
     goes on to type the mean 0, the standard deviation 1, the value 1 and the code 0.\<close>
  "nm_demo = \<lparr>inp = [int_line ''0'' 0, int_line ''1'' 1, int_line ''1'' 1, int_line ''0'' 0],
     out = [Say ''Python Normal Distribution helper'', Menu ''normal''],
     nm_r = 4, mean_set = False, nm_mean = None, nm_sdev = None, nm_future_code = 0, nm_code = 6\<rparr>"

definition dp_demo :: dstate where
  \<comment> \<open>A session of the difference of proportions helper in which the user has typed 5 at
     the first prompt and goes on to type 4, the samples 5 of 10 and 4 of 10, the Z value 1
     and the code 0.\<close>
  "dp_demo = \<lparr>inp = [int_line ''4'' 4, int_line ''10'' 10, int_line ''5'' 5, int_line ''10'' 10,
                     int_line ''4'' 4, int_line ''1'' 1, int_line ''0'' 0],
     out = [Say ''Python difference in proportions helper'', Menu ''diff of proportions''],
     dp_r = 4, parms_set = False, dp_d = None, dp_sdev = None, dp_future_code = 0, dp_code = 5\<rparr>"

definition ch_demo :: cstate where
  \<comment> \<open>A session of the chi-square helper before any data is entered, with code 3 typed.\<close>
  "ch_demo = \<lparr>inp = [], out = [Say ''Python Chi-squared and goodness of fit helper'', Menu ''chi2''],
     ch_r = 4, ch_future_code = 0, data_entered = False, ch_N = 0, ch_v = 0, total = 0,
     chi_squared = 0, Yates = 0, chance = [0], observed = [0], expected = [0], z2 = [0],
     ch_code = 3\<rparr>"

definition float_chars :: string where
  \<comment> \<open>The characters of \<^verbatim>\<open>str(v)\<close> for a Python float \<^verbatim>\<open>v\<close>: digits, sign, point and
     exponent, and the letters of \<^verbatim>\<open>inf\<close> and \<^verbatim>\<open>nan\<close>.\<close>
  "float_chars = ''0123456789.-+einfa''"

definition repr_ok :: "pylib \<Rightarrow> real \<Rightarrow> bool" where
  \<comment> \<open>What Python guarantees for a float: \<^verbatim>\<open>float(str(v)) == v\<close>, and \<^verbatim>\<open>str(v)\<close> is made
     of \<open>float_chars\<close>.\<close>
  "repr_ok lib v = (py_float lib (py_str lib v) = Some v \<and> list_all (\<lambda>c. c \<in> set float_chars) (py_str lib v))"

definition small_lib :: pylib where
  \<comment> \<open>A library for running examples: it prints and reads the numbers 0 to 5 as Python
     does; the distribution functions are constant.\<close>
  "small_lib = \<lparr>
     py_str = (\<lambda>v. if v = 1 then ''1.0'' else if v = 2 then ''2.0'' else if v = 3 then ''3.0''
                   else if v = 4 then ''4.0'' else if v = 5 then ''5.0'' else ''0.0''),
     py_float = map_of [(''0.0'', 0), (''1.0'', 1), (''2.0'', 2), (''3.0'', 3), (''4.0'', 4), (''5.0'', 5),
                        (''0'', 0), (''1'', 1), (''2'', 2), (''3'', 3), (''4'', 4), (''5'', 5)],
     norm_cdf = (\<lambda>z. 1 / 2), norm_ppf = (\<lambda>p. 0),
     chi2_cdf = (\<lambda>x v. 1 / 2), chi2_ppf = (\<lambda>p v. 0)\<rparr>"

definition csv_row :: "pylib \<Rightarrow> real \<times> real \<Rightarrow> string" where
  \<comment> \<open>The line that code 2 writes for one point.\<close>
  "csv_row lib p = py_str lib (fst p) @ '','' @ py_str lib (snd p) @ [CHR 0x0A]"

definition reports_of :: "string \<Rightarrow> event list \<Rightarrow> real list list" where
  \<comment> \<open>The numbers of every printed line with the given label, in the order printed.\<close>
  "reports_of l es = concat (map (\<lambda>e. case e of Report l' vs \<Rightarrow> (if l' = l then [vs] else []) | _ \<Rightarrow> []) es)"

definition ch_ready :: "cstate \<Rightarrow> bool" where
  \<comment> \<open>What code 1 leaves: a list entry for each of the \<^verbatim>\<open>N\<close> categories.\<close>
  "ch_ready st =
     (length (observed st) = nat (ch_N st) \<and> length (expected st) = nat (ch_N st)
      \<and> length (chance st) = nat (ch_N st) \<and> length (z2 st) = nat (ch_N st))"



section \<open>Properties\<close>

subsection \<open>Evaluation rules\<close>

lemma bnd_simps [simp]: "bnd (Inl e) f = Inl e" "bnd (Inr v) f = f v"
  by (simp_all add: bnd_def)

lemma emit_sel [simp]:
  "inp (emit e st) = inp st" "out (emit e st) = out st @ [e]"
  by (simp_all add: emit_def)

lemma emit_rsel [simp]:
  "xlist (emit e st) = xlist st" "ylist (emit e st) = ylist st" "rg_n (emit e st) = rg_n st"
  "rg_r (emit e st) = rg_r st" "data_crunched (emit e st) = data_crunched st"
  "data_from_file (emit e st) = data_from_file st" "rg_filename (emit e st) = rg_filename st"
  "g (emit e st) = g st" "rg_code (emit e st) = rg_code st" "files (emit e st) = files st"
  by (simp_all add: emit_def)

lemma py_range_num: "py_range 3 = [0, 1, 2]" "py_range 2 = [0, 1]"
  by (simp_all add: py_range_def upt_rec)

lemma sqrt_self3 [simp]: "x * sqrt a * sqrt a = x * \<bar>a\<bar>"
  by (simp add: mult.assoc)

lemmas lines_defs = int_line_def enter_def word_def

lemmas text_defs = py_strip_def is_space_def upper_char_def lower_char_def

lemmas rg_defs = regression_helper_def regression_start_def regression_body_def rg_prompt_def
  rg_cmd1_def rg_cmd2_def rg_cmd3_def rg_cmd4_def rg_cmd5_def rg_cmd6_def rg_cmd7_def rg_cmd8_def
  rg_cmd9_def rg_redirect_def ask_def lines_defs py_range_num py_index_def text_defs

lemmas arith_defs = py_div_def py_sqrt_def py_log_def line_intercept_def line_slope_def
  formula1_def clear_sums_def crunch_clear_def stats0_def

subsection \<open>The regression engine on degenerate and on ordinary data\<close>

text \<open>
  C2. The claim: a point set whose x values are all identical makes the forward line and the
  correlation fail with a reported degenerate-data condition, not with a division by zero.
  The code has no such guard. In the session below the user accepts the defaults, types the
  two points (1,2) and (1,3) and asks for the regression line (code 6): the denominator
  \<open>n\<Sigma>x\<^sup>2 - (\<Sigma>x)\<^sup>2\<close> is 0 and the division raises ZeroDivisionError, which nothing
  catches. The same points make code 4 (the correlation) raise the same exception.
\<close>

theorem forward_line_identical_x_raises:
  "regression_helper (Suc (Suc 0)) lib
     [enter, enter, enter, int_line ''2'' 2, int_line ''1'' 1, int_line ''2'' 2,
      int_line ''1'' 1, int_line ''3'' 3, int_line ''6'' 6] Map.empty
     = Some (Inl ZeroDivisionError)
   \<and> regression_helper (Suc (Suc 0)) lib
     [enter, enter, enter, int_line ''2'' 2, int_line ''1'' 1, int_line ''2'' 2,
      int_line ''1'' 1, int_line ''3'' 3, int_line ''4'' 4] Map.empty
     = Some (Inl ZeroDivisionError)"
  by (simp add: rg_defs arith_defs emit_def power2_eq_square)

text \<open>
  C3. The claim: the correlation coefficient of the first formula (code 4) and of the second
  formula (code 5) agree on every valid point set. They do not: code 5 divides the sum of
  products by \<open>(n-1)\<cdot>sx\<cdot>sy\<close> with \<open>sx\<close>, \<open>sy\<close> computed by dividing by \<open>n\<close>. For the
  points (1,2), (2,1), (3,3), which are not collinear, code 4 prints 1/2 and code 5 prints
  3/4.
\<close>

theorem second_formula_differs:
  "(case regression_helper (Suc (Suc (Suc 0))) lib
       [enter, enter, enter, int_line ''3'' 3, int_line ''1'' 1, int_line ''2'' 2,
        int_line ''2'' 2, int_line ''1'' 1, int_line ''3'' 3, int_line ''3'' 3,
        int_line ''4'' 4, int_line ''5'' 5, int_line ''0'' 0] Map.empty of
      Some (Inr st) \<Rightarrow>
        reports_of ''The first formula gives an R value of'' (out st) = [[1 / 2]] \<and>
        reports_of ''The second formula gives an R value of'' (out st) = [[3 / 4]]
    | _ \<Rightarrow> False)"
  by (simp add: rg_defs arith_defs emit_def crunch_data_def crunch_def formula2_def Let_def
       reports_of_def power2_eq_square)

text \<open>
  C4. The claim: the reverse line is the forward line's formulas with x and y exchanged, so
  its intercept is \<open>(\<Sigma>x\<Sigma>y\<^sup>2 - \<Sigma>y\<Sigma>xy) / (n\<Sigma>y\<^sup>2 - (\<Sigma>y)\<^sup>2)\<close>. The code writes
  \<^verbatim>\<open>totalx*totaly**2\<close>, the square of the sum, where the exchanged formula has
  \<^verbatim>\<open>totaly2\<close>, the sum of the squares. For the points (1,2), (2,1), (3,3) code 7 prints the
  reverse intercept 23; the forward formulas on the exchanged points (2,1), (1,2), (3,3)
  (code 6 in the second session) give the intercept 1. The slope, 1/2, is the same.
\<close>

theorem reverse_intercept_not_swapped:
  "(case regression_helper (Suc (Suc 0)) lib
       [enter, enter, enter, int_line ''3'' 3, int_line ''1'' 1, int_line ''2'' 2,
        int_line ''2'' 2, int_line ''1'' 1, int_line ''3'' 3, int_line ''3'' 3,
        int_line ''7'' 7, enter, int_line ''0'' 0] Map.empty of
      Some (Inr st) \<Rightarrow>
        reports_of ''The best fitting X on Y line has intercept and slope'' (out st) = [[23, 1 / 2]]
    | _ \<Rightarrow> False)
   \<and> (case regression_helper (Suc (Suc 0)) lib
       [enter, enter, enter, int_line ''3'' 3, int_line ''2'' 2, int_line ''1'' 1,
        int_line ''1'' 1, int_line ''2'' 2, int_line ''3'' 3, int_line ''3'' 3,
        int_line ''6'' 6, int_line ''0'' 0] Map.empty of
      Some (Inr st) \<Rightarrow>
        reports_of ''The best least-squares line has the intercept and slope'' (out st) = [[1, 1 / 2]]
    | _ \<Rightarrow> False)"
  by (simp add: rg_defs arith_defs emit_def crunch_data_def crunch_def dump_stats_def
       reverse_line_def rev_denom_def rev_intercept_def rev_slope_def Let_def reports_of_def
       power2_eq_square)

subsection \<open>Exporting the points and reading them back\<close>

lemma dropWhile_none: "\<forall>c \<in> set s. \<not> P c \<Longrightarrow> dropWhile P s = s"
  by (cases s) auto

lemma strip_clean: "\<forall>c \<in> set s. \<not> is_space c \<Longrightarrow> py_strip s = s"
  by (simp add: py_strip_def dropWhile_none)

lemma strip_clean_nl:
  assumes "\<forall>c \<in> set s. \<not> is_space c"
  shows "py_strip (s @ [CHR 0x0A]) = s"
proof (cases s)
  case Nil
  then show ?thesis by (simp add: py_strip_def is_space_def)
next
  case (Cons a t)
  with assms have "dropWhile is_space (s @ [CHR 0x0A]) = s @ [CHR 0x0A]" by simp
  moreover have "dropWhile is_space (rev s) = rev s" using assms by (simp add: dropWhile_none)
  ultimately show ?thesis by (simp add: py_strip_def is_space_def)
qed

lemma file_lines_aux_line:
  "CHR 0x0A \<notin> set l \<Longrightarrow> CHR 0x0D \<notin> set l \<Longrightarrow>
   file_lines_aux cur (l @ CHR 0x0A # rest) = (cur @ l @ [CHR 0x0A]) # file_lines_aux [] rest"
  by (induction l arbitrary: cur) auto

lemma csv_rows_closed:
  "\<forall>k \<in> set ks. k < length xs \<and> k < length ys \<Longrightarrow>
   csv_rows lib xs ys ks = Inr (concat (map (\<lambda>k. csv_row lib (xs ! k, ys ! k)) ks))"
  by (induction ks) (auto simp: py_index_def csv_row_def)

lemma map_nth_zip: "length ys = length xs \<Longrightarrow> map (\<lambda>k. f (xs ! k, ys ! k)) [0..<length xs] = map f (zip xs ys)"
  by (rule nth_equalityI) auto

lemma float_chars_excl:
  "c \<in> set float_chars \<Longrightarrow>
     c \<noteq> CHR '','' \<and> c \<noteq> CHR ''x'' \<and> c \<noteq> CHR 0x0A \<and> c \<noteq> CHR 0x0D \<and> \<not> is_space c"
  apply (simp add: float_chars_def is_space_def)
  apply (elim disjE; simp)
  done

lemma float_chars_facts:
  assumes "list_all (\<lambda>c. c \<in> set float_chars) s"
  shows "CHR '','' \<notin> set s" "CHR ''x'' \<notin> set s" "CHR 0x0A \<notin> set s" "\<forall>c \<in> set s. \<not> is_space c"
    "CHR 0x0D \<notin> set s"
  using assms float_chars_excl by (auto simp: list_all_iff)

lemma read_csv_rows:
  assumes "\<forall>p \<in> set pts. repr_ok lib (fst p) \<and> repr_ok lib (snd p)"
  shows "read_csv lib (file_lines_aux [] (concat (map (csv_row lib) pts))) k st
       = Inr (k + int (length pts), st\<lparr>xlist := xlist st @ map fst pts, ylist := ylist st @ map snd pts\<rparr>)"
  using assms
proof (induction pts arbitrary: k st)
  case Nil
  then show ?case by simp
next
  case (Cons p pts)
  obtain x y where p: "p = (x, y)" by (cases p)
  from Cons.prems p have ok: "repr_ok lib x" "repr_ok lib y" by auto
  then have cx: "list_all (\<lambda>c. c \<in> set float_chars) (py_str lib x)"
    and cy: "list_all (\<lambda>c. c \<in> set float_chars) (py_str lib y)"
    and fx: "py_float lib (py_str lib x) = Some x" and fy: "py_float lib (py_str lib y) = Some y"
    by (auto simp: repr_ok_def)
  have nl: "CHR 0x0A \<notin> set (py_str lib x @ '','' @ py_str lib y)"
    using float_chars_facts(3)[OF cx] float_chars_facts(3)[OF cy] by simp
  have cr: "CHR 0x0D \<notin> set (py_str lib x @ '','' @ py_str lib y)"
    using float_chars_facts(5)[OF cx] float_chars_facts(5)[OF cy] by simp
  have split: "file_lines_aux [] (concat (map (csv_row lib) (p # pts)))
      = (py_str lib x @ '','' @ py_str lib y @ [CHR 0x0A]) # file_lines_aux [] (concat (map (csv_row lib) pts))"
    using file_lines_aux_line[OF nl cr, of "[]" "concat (map (csv_row lib) pts)"]
    by (simp add: p csv_row_def)
  have tw: "takeWhile (\<lambda>c. c \<noteq> CHR '','') (py_str lib x @ CHR '','' # py_str lib y @ [CHR 0x0A]) = py_str lib x"
    using float_chars_facts(1)[OF cx] by (simp add: takeWhile_append)
  have dw: "dropWhile (\<lambda>c. c \<noteq> CHR '','') (py_str lib x @ CHR '','' # py_str lib y @ [CHR 0x0A])
       = CHR '','' # py_str lib y @ [CHR 0x0A]"
    using float_chars_facts(1)[OF cx] by (simp add: dropWhile_append)
  have nox: "CHR ''x'' \<notin> set (py_str lib x @ '','' @ py_str lib y @ [CHR 0x0A])"
    using float_chars_facts(2)[OF cx] float_chars_facts(2)[OF cy] by simp
  have IH: "read_csv lib (file_lines_aux [] (concat (map (csv_row lib) pts))) (k + 1)
               (st\<lparr>xlist := xlist st @ [x], ylist := ylist st @ [y]\<rparr>)
       = Inr (k + 1 + int (length pts),
              st\<lparr>xlist := xlist st @ [x], ylist := ylist st @ [y]\<rparr>
                \<lparr>xlist := xlist (st\<lparr>xlist := xlist st @ [x], ylist := ylist st @ [y]\<rparr>) @ map fst pts,
                 ylist := ylist (st\<lparr>xlist := xlist st @ [x], ylist := ylist st @ [y]\<rparr>) @ map snd pts\<rparr>)"
    using Cons.prems by (intro Cons.IH) simp
  show ?case
    unfolding split
    using nox
    by (simp add: tw dw Let_def strip_clean[OF float_chars_facts(4)[OF cx]]
        strip_clean_nl[OF float_chars_facts(4)[OF cy]] fx fy IH p)
qed

lemma show_points_closed:
  "\<forall>k \<in> set ks. k < length (xlist st) \<and> k < length (ylist st) \<Longrightarrow>
   show_points ks st = Inr (st\<lparr>out := out st @ map (\<lambda>k. Report ''X[k], Y[k]'' [real (k + 1), xlist st ! k, ylist st ! k]) ks\<rparr>)"
  by (induction ks arbitrary: st) (auto simp: py_index_def emit_def)

lemma py_range_int [simp]: "py_range (int m) = [0..<m]"
  by (simp add: py_range_def)

lemma file_lines_header: "file_lines (csv_header @ rows) = csv_header # file_lines_aux [] rows"
  using file_lines_aux_line[of "[CHR 0x22, CHR ''x'', CHR 0x22, CHR '','', CHR 0x22, CHR ''y'', CHR 0x22]" "[]" rows]
  by (simp add: file_lines_def csv_header_def)

lemma csv_rows_export:
  assumes "length ys = length xs"
  shows "csv_rows lib xs ys [0..<length xs] = Inr (concat (map (csv_row lib) (zip xs ys)))"
  using assms by (simp add: csv_rows_closed map_nth_zip)

lemma read_csv_export:
  assumes "length ys = length xs"
    and "\<forall>v \<in> set xs \<union> set ys. repr_ok lib v"
  shows "read_csv lib (file_lines (csv_header @ concat (map (csv_row lib) (zip xs ys)))) 0 st
       = Inr (int (length xs),
              (emit (Say ''The file has a header line which will be ignored'') st)
                \<lparr>xlist := xlist st @ xs, ylist := ylist st @ ys\<rparr>)"
proof -
  have ok: "\<forall>p \<in> set (zip xs ys). repr_ok lib (fst p) \<and> repr_ok lib (snd p)"
    using assms(2) by (auto dest: set_zip_leftD set_zip_rightD)
  have hd: "CHR '','' \<in> set csv_header" "CHR ''x'' \<in> set csv_header"
    by (simp_all add: csv_header_def)
  show ?thesis
    using assms(1) hd
    by (simp add: file_lines_header read_csv_rows[OF ok] emit_def map_fst_zip map_snd_zip)
qed

lemma reports_of_append [simp]: "reports_of l (es @ fs) = reports_of l es @ reports_of l fs"
  by (simp add: reports_of_def)

lemma reports_of_simps [simp]:
  "reports_of l [] = []"
  "reports_of l (Say t # es) = reports_of l es"
  "reports_of l (Menu t # es) = reports_of l es"
  "reports_of l (Plot a b c # es) = reports_of l es"
  "reports_of l (Report l' vs # es) = (if l' = l then [vs] else []) @ reports_of l es"
  by (simp_all add: reports_of_def)

text \<open>
  C9. A session holds any points whose numbers Python prints and reads back (\<open>repr_ok\<close>),
  typed in and not read from a file. The user shows them (code 2) and saves them to a file
  that does not exist yet: the file then holds the header line and one line \<^verbatim>\<open>x,y\<close> for each
  point, in order. Any session that finds this content under the file's name, whatever
  points it held before, and reads the file with code 1 ends with the exported \<^verbatim>\<open>xlist\<close>,
  \<^verbatim>\<open>ylist\<close> and \<^verbatim>\<open>n\<close>: the header line is skipped, no line is reported as malformed, and
  the number of points read is \<^verbatim>\<open>n\<close>.
\<close>

theorem csv_export_import_round_trip:
  assumes n: "rg_n st = int (length (xlist st))" "length (ylist st) = length (xlist st)"
    and rt: "\<forall>v \<in> set (xlist st) \<union> set (ylist st). repr_ok lib v"
    and nf: "\<not> data_from_file st" and c2: "rg_code st = 2"
    and fresh: "files st name = None" and nm: "name \<noteq> []"
    and lines: "inp st = enter # word ''y'' # (name, p) # enter # (tc, AsInt c) # rest"
    and nxt: "tc \<noteq> []" "0 \<le> c" "c \<le> 11"
  shows "\<exists>st1. regression_body lib st = Inr st1
     \<and> files st1 name = Some (csv_header @ concat (map (csv_row lib) (zip (xlist st) (ylist st))))
     \<and> xlist st1 = xlist st \<and> ylist st1 = ylist st \<and> rg_n st1 = rg_n st
     \<and> (\<forall>s. rg_code s = 1 \<and> files s name = files st1 name
            \<and> (\<exists>p' td d rest'. inp s = word ''y'' # (name, p') # (td, AsInt d) # rest'
                  \<and> td \<noteq> [] \<and> 0 \<le> d \<and> d \<le> 11)
          \<longrightarrow> (\<exists>s2. regression_body lib s = Inr s2
                 \<and> xlist s2 = xlist st \<and> ylist s2 = ylist st \<and> rg_n s2 = rg_n st
                 \<and> data_from_file s2 \<and> \<not> data_crunched s2
                 \<and> reports_of ''ERROR line# has no comma'' (out s2)
                     = reports_of ''ERROR line# has no comma'' (out s)
                 \<and> reports_of ''Have read points'' (out s2)
                     = reports_of ''Have read points'' (out s) @ [[of_int (rg_n st)]]))"
proof -
  define rows where "rows = concat (map (csv_row lib) (zip (xlist st) (ylist st)))"
  have rows: "csv_rows lib (xlist st) (ylist st) [0..<length (xlist st)] = Inr rows"
    unfolding rows_def by (rule csv_rows_export[OF n(2)])
  have rd: "\<And>s. read_csv lib (file_lines (csv_header @ rows)) 0 s
       = Inr (int (length (xlist st)),
              (emit (Say ''The file has a header line which will be ignored'') s)
                \<lparr>xlist := xlist s @ xlist st, ylist := ylist s @ ylist st\<rparr>)"
    unfolding rows_def by (rule read_csv_export[OF n(2) rt])
  have sp: "\<And>s. xlist s = xlist st \<Longrightarrow> ylist s = ylist st \<Longrightarrow> show_points [0..<length (xlist st)] s
     = Inr (s\<lparr>out := out s @ map (\<lambda>k. Report ''X[k], Y[k]'' [real (k + 1), xlist s ! k, ylist s ! k]) [0..<length (xlist st)]\<rparr>)"
    using n(2) by (intro show_points_closed) simp
  define st1 where "st1 = st\<lparr>inp := rest,
      out := out st @ Report ''You have entered x,y pairs'' [of_int (rg_n st)]
               # map (\<lambda>k. Report ''X[k], Y[k]'' [real (k + 1), xlist st ! k, ylist st ! k]) [0..<length (xlist st)],
      rg_filename := name, files := append_file (files st) name (csv_header @ rows), rg_code := c\<rparr>"
  have r1: "regression_body lib st = Inr st1"
    using lines nf nm c2 n nxt
    by (simp add: regression_body_def rg_cmd2_def ask_def lines_defs text_defs sp rows rg_prompt_def st1_def emit_def)
  have f1: "files st1 name = Some (csv_header @ rows)"
    using fresh by (simp add: st1_def append_file_def)
  have imp: "\<exists>s2. regression_body lib s = Inr s2
                 \<and> xlist s2 = xlist st \<and> ylist s2 = ylist st \<and> rg_n s2 = rg_n st
                 \<and> data_from_file s2 \<and> \<not> data_crunched s2
                 \<and> reports_of ''ERROR line# has no comma'' (out s2)
                     = reports_of ''ERROR line# has no comma'' (out s)
                 \<and> reports_of ''Have read points'' (out s2)
                     = reports_of ''Have read points'' (out s) @ [[of_int (rg_n st)]]"
    if c1: "rg_code s = 1" and fs: "files s name = files st1 name"
      and ln: "inp s = word ''y'' # (name, p') # (td, AsInt d) # rest'" and d: "td \<noteq> []" "0 \<le> d" "d \<le> 11"
    for s p' td d rest'
    using c1 fs ln d nm n(1) f1
    by (simp add: regression_body_def rg_cmd1_def ask_def lines_defs text_defs rg_prompt_def
        rd emit_def reports_of_def)
  from r1 f1 imp show ?thesis
    unfolding rows_def[symmetric] by (intro exI[of _ st1]) (auto simp: st1_def)
qed

theorem csv_export_import_round_trip_witness:
  "(case regression_body small_lib (pts3\<lparr>rg_code := 2,
        inp := [enter, word ''y'', word ''pts.csv'', enter, int_line ''0'' 0]\<rparr>) of
      Inr st1 \<Rightarrow>
        files st1 ''pts.csv''
          = Some (csv_header @ ''1.0,2.0'' @ [CHR 0x0A] @ ''2.0,1.0'' @ [CHR 0x0A] @ ''3.0,3.0'' @ [CHR 0x0A])
        \<and> (case regression_body small_lib
              (pts3\<lparr>xlist := [4, 5], ylist := [0, 0], rg_n := 2, rg_code := 1, files := files st1,
                    inp := [word ''y'', word ''pts.csv'', int_line ''0'' 0]\<rparr>) of
             Inr s2 \<Rightarrow> xlist s2 = [1, 2, 3] \<and> ylist s2 = [2, 1, 3] \<and> rg_n s2 = 3 \<and> data_from_file s2
           | Inl e \<Rightarrow> False)
    | Inl e \<Rightarrow> False)"
proof -
  let ?st = "pts3\<lparr>rg_code := 2,
        inp := [enter, word ''y'', word ''pts.csv'', enter, int_line ''0'' 0]\<rparr>"
  have ok: "\<forall>v \<in> set (xlist ?st) \<union> set (ylist ?st). repr_ok small_lib v"
    by (simp add: pts3_def repr_ok_def small_lib_def float_chars_def)
  have ln: "inp ?st = enter # word ''y'' # (''pts.csv'', NotNumber) # enter # (''0'', AsInt 0) # []"
    by (simp add: lines_defs)
  have side: "rg_n ?st = int (length (xlist ?st))" "length (ylist ?st) = length (xlist ?st)"
    "\<not> data_from_file ?st" "rg_code ?st = 2" "files ?st ''pts.csv'' = None" "''pts.csv'' \<noteq> []"
    "''0'' \<noteq> []" "(0::int) \<le> 0" "(0::int) \<le> 11"
    by (simp_all add: pts3_def)
  from csv_export_import_round_trip [OF side(1,2) ok side(3,4,5,6) ln side(7,8,9)]
  obtain st1 where r1: "regression_body small_lib ?st = Inr st1"
    and f1: "files st1 ''pts.csv''
       = Some (csv_header @ concat (map (csv_row small_lib) (zip (xlist ?st) (ylist ?st))))"
    and im: "\<forall>s. rg_code s = 1 \<and> files s ''pts.csv'' = files st1 ''pts.csv''
            \<and> (\<exists>p' td d rest'. inp s = word ''y'' # (''pts.csv'', p') # (td, AsInt d) # rest'
                  \<and> td \<noteq> [] \<and> 0 \<le> d \<and> d \<le> 11)
          \<longrightarrow> (\<exists>s2. regression_body small_lib s = Inr s2
                 \<and> xlist s2 = xlist ?st \<and> ylist s2 = ylist ?st \<and> rg_n s2 = rg_n ?st
                 \<and> data_from_file s2 \<and> \<not> data_crunched s2
                 \<and> reports_of ''ERROR line# has no comma'' (out s2)
                     = reports_of ''ERROR line# has no comma'' (out s)
                 \<and> reports_of ''Have read points'' (out s2)
                     = reports_of ''Have read points'' (out s) @ [[of_int (rg_n ?st)]])"
    by blast
  let ?s = "pts3\<lparr>xlist := [4, 5], ylist := [0, 0], rg_n := 2, rg_code := 1, files := files st1,
                    inp := [word ''y'', word ''pts.csv'', int_line ''0'' 0]\<rparr>"
  have "rg_code ?s = 1 \<and> files ?s ''pts.csv'' = files st1 ''pts.csv''
            \<and> (\<exists>p' td d rest'. inp ?s = word ''y'' # (''pts.csv'', p') # (td, AsInt d) # rest'
                  \<and> td \<noteq> [] \<and> 0 \<le> d \<and> d \<le> 11)"
    by (simp add: lines_defs)
  with im[rule_format, of ?s] obtain s2 where "regression_body small_lib ?s = Inr s2"
    "xlist s2 = xlist ?st" "ylist s2 = ylist ?st" "rg_n s2 = rg_n ?st" "data_from_file s2" by blast
  with r1 f1 show ?thesis
    by (simp add: pts3_def csv_row_def small_lib_def)
qed

subsection \<open>Correcting a point\<close>




subsection \<open>The command loops\<close>

lemma emit_nsel [simp]:
  "nm_r (emit e st) = nm_r st" "mean_set (emit e st) = mean_set st" "nm_mean (emit e st) = nm_mean st"
  "nm_sdev (emit e st) = nm_sdev st" "nm_future_code (emit e st) = nm_future_code st"
  "nm_code (emit e st) = nm_code st"
  by (simp_all add: emit_def)

lemma emit_dsel [simp]:
  "dp_r (emit e st) = dp_r st" "parms_set (emit e st) = parms_set st" "dp_d (emit e st) = dp_d st"
  "dp_sdev (emit e st) = dp_sdev st" "dp_future_code (emit e st) = dp_future_code st"
  "dp_code (emit e st) = dp_code st"
  by (simp_all add: emit_def)

lemma emit_csel [simp]:
  "ch_r (emit e st) = ch_r st" "ch_future_code (emit e st) = ch_future_code st"
  "data_entered (emit e st) = data_entered st" "ch_N (emit e st) = ch_N st" "ch_v (emit e st) = ch_v st"
  "total (emit e st) = total st" "chi_squared (emit e st) = chi_squared st" "Yates (emit e st) = Yates st"
  "chance (emit e st) = chance st" "observed (emit e st) = observed st" "expected (emit e st) = expected st"
  "z2 (emit e st) = z2 st" "ch_code (emit e st) = ch_code st"
  by (simp_all add: emit_def)

lemmas nm_defs = normal_helper_def normal_start_def normal_body_def nm_prompt_def nm_defer_def nm_cmd2_def
  nm_cmd12_def nm_cmd13_def z_of_def local_var_def ask_def lines_defs text_defs py_div_def

text \<open>
  C5. The claim: no command of any helper, on any validated input, ends the process with an
  unhandled exception. In the normal helper three commands name things that do not exist:
  code 14 reads \<^verbatim>\<open>z_low\<close> and then passes \<^verbatim>\<open>Z_low\<close>, code 8 calls
  \<^verbatim>\<open>get_user_float_inputinput\<close>, code 12 passes \<^verbatim>\<open>NONE\<close>. Each raises NameError, which
  nothing catches. Code 3 before code 2 reads the unbound local \<^verbatim>\<open>mean\<close>.
\<close>

theorem normal_helper_name_errors:
  "normal_helper (Suc 0) lib [int_line ''14'' 14, int_line ''1'' 1] = Some (Inl NameError)
   \<and> normal_helper (Suc (Suc 0)) lib [int_line ''2'' 2, int_line ''0'' 0, int_line ''1'' 1, int_line ''8'' 8]
       = Some (Inl NameError)
   \<and> normal_helper (Suc (Suc 0)) lib [int_line ''2'' 2, int_line ''0'' 0, int_line ''1'' 1, int_line ''12'' 12]
       = Some (Inl NameError)
   \<and> normal_helper (Suc 0) lib [int_line ''3'' 3] = Some (Inl UnboundLocalError)"
  by (simp add: nm_defs Let_def)

lemmas dp_defs = diff_prop_helper_def diff_prop_start_def diff_prop_body_def dp_prompt_def dp_defer_def
  dp_resume_def dp_params_def dp_cmd1_def dp_cmd2_def dp_cmd3_def dp_cmd4_def dp_cmd5_def
  local_var_def ask_def lines_defs text_defs py_div_def py_sqrt_def

text \<open>
  C7, as stated, fails in the difference of proportions helper: a command that finds the
  parameters unset records its code and then asks the user for the next code (default 4,
  range 0 to 8). Here the user asked for code 1 and answers the prompt with 7: the next
  code is 7, read from the console.
\<close>

theorem diff_prop_prompts_after_failure:
  "(case bnd (diff_prop_start [enter, int_line ''1'' 1, int_line ''7'' 7]) (diff_prop_body small_lib) of
      Inr st \<Rightarrow> dp_future_code st = 1 \<and> dp_code st = 7 \<and> inp st = []
    | Inl e \<Rightarrow> False)"
  by (simp add: dp_defs Let_def)

lemma nm_redirect:
  assumes "\<not> mean_set ns" and "nm_code ns \<in> {6, 7, 8, 9, 10, 11, 12, 13}"
  shows "\<exists>st'. normal_body lib ns = Inr st' \<and> nm_code st' = 2 \<and> nm_future_code st' = nm_code ns
           \<and> inp st' = inp ns"
proof -
  from assms(2) consider "nm_code ns = 6" | "nm_code ns = 7" | "nm_code ns = 8" | "nm_code ns = 9"
    | "nm_code ns = 10" | "nm_code ns = 11" | "nm_code ns = 12" | "nm_code ns = 13" by auto
  then show ?thesis
    using assms(1)
    by cases (simp_all add: normal_body_def nm_defer_def nm_cmd12_def nm_cmd13_def Let_def)
qed

lemma ch_redirect:
  assumes "total cs = 0" and "ch_code cs \<in> {2, 3, 4, 5}"
  shows "\<exists>st'. chi2_body lib cs = Inr st' \<and> ch_code st' = 1 \<and> ch_future_code st' = ch_code cs
           \<and> inp st' = inp cs"
proof -
  from assms(2) consider "ch_code cs = 2" | "ch_code cs = 3" | "ch_code cs = 4" | "ch_code cs = 5" by auto
  then show ?thesis
    using assms(1)
    by cases (simp_all add: chi2_body_def ch_defer_def ch_cmd2_def ch_cmd3_def ch_cmd4_def ch_cmd5_def Let_def)
qed

lemma ch_redirect6:
  assumes "\<not> data_entered cs" and "ch_code cs = 6"
  shows "\<exists>st'. chi2_body lib cs = Inr st' \<and> ch_code st' = 5 \<and> ch_future_code st' = 6 \<and> inp st' = inp cs"
  using assms by (simp add: chi2_body_def ch_cmd6_def Let_def)

lemma dp_redirect:
  assumes "\<not> parms_set ds" and "dp_code ds \<in> {1, 2, 5}"
  shows "case get_user_int_input (Some 4) (Some 0) (Some 8) (inp ds) of
           Inl e \<Rightarrow> diff_prop_body lib ds = Inl e
         | Inr (k, rest) \<Rightarrow>
             (\<exists>st'. diff_prop_body lib ds = Inr st' \<and> dp_code st' = k \<and> dp_future_code st' = dp_code ds
                \<and> inp st' = rest)"
proof -
  from assms(2) consider "dp_code ds = 1" | "dp_code ds = 2" | "dp_code ds = 5" by auto
  then show ?thesis
    using assms(1)
    by cases (simp_all add: diff_prop_body_def dp_defer_def dp_cmd1_def dp_cmd2_def dp_cmd5_def Let_def ask_def
        split: sum.splits)
qed

subsection \<open>Deferred commands\<close>

lemma float_input_err: "get_user_float_input d l m ls = Inl e \<Longrightarrow> e = EOFError"
  by (induction d l m ls rule: get_user_float_input.induct) (auto split: if_splits option.splits)

lemma int_input_err: "get_user_int_input d l m ls = Inl e \<Longrightarrow> e = EOFError"
  by (induction d l m ls rule: get_user_int_input.induct) (auto split: if_splits option.splits)

lemma nm_prompt_err: "nm_prompt st = Inl e \<Longrightarrow> e = EOFError"
  by (auto simp: nm_prompt_def ask_def split: sum.splits dest: int_input_err)

lemma nm_prompt_ok:
  "nm_prompt st = Inr st' \<Longrightarrow> out st' = out st \<and> nm_future_code st' = nm_future_code st"
  by (auto simp: nm_prompt_def ask_def split: sum.splits)

lemma nm_op_runs:
  assumes "c \<in> {6, 7, 9, 10, 11, 13}" and "mean_set st" and "nm_code st = c"
    and "nm_mean st = Some m" and "nm_sdev st = Some sd" and "sd \<noteq> 0"
  shows "(\<forall>e. normal_body lib st = Inl e \<longrightarrow> e = EOFError)
       \<and> (\<forall>st'. normal_body lib st = Inr st' \<longrightarrow>
             length (reports_of (nm_label c) (out st')) = Suc (length (reports_of (nm_label c) (out st)))
             \<and> nm_future_code st' = nm_future_code st)"
proof -
  from assms(1) consider "c = 6" | "c = 7" | "c = 9" | "c = 10" | "c = 11" | "c = 13" by auto
  then show ?thesis
  proof cases
    case 1
    with assms show ?thesis
      by (auto simp: normal_body_def Let_def ask_def z_of_def local_var_def py_div_def nm_label_def
          split: sum.splits dest: float_input_err nm_prompt_err nm_prompt_ok)
  next
    case 2
    with assms show ?thesis
      by (auto simp: normal_body_def Let_def ask_def z_of_def local_var_def py_div_def nm_label_def
          split: sum.splits dest: float_input_err nm_prompt_err nm_prompt_ok)
  next
    case 3
    with assms show ?thesis
      by (auto simp: normal_body_def Let_def ask_def z_of_def local_var_def py_div_def nm_label_def
          split: sum.splits dest: float_input_err nm_prompt_err nm_prompt_ok)
  next
    case 4
    with assms show ?thesis
      by (auto simp: normal_body_def Let_def ask_def z_of_def local_var_def py_div_def nm_label_def
          split: sum.splits dest: float_input_err nm_prompt_err nm_prompt_ok)
  next
    case 5
    with assms show ?thesis
      by (auto simp: normal_body_def Let_def ask_def z_of_def local_var_def py_div_def nm_label_def
          split: sum.splits dest: float_input_err nm_prompt_err nm_prompt_ok)
  next
    case 6
    with assms show ?thesis
      by (auto simp: normal_body_def nm_cmd13_def Let_def ask_def z_of_def local_var_def py_div_def nm_label_def
          split: sum.splits dest: float_input_err nm_prompt_err nm_prompt_ok)
  qed
qed

lemma nm_resume:
  assumes c: "c \<in> {6, 7, 9, 10, 11, 13}" and ms: "\<not> mean_set st" and code: "nm_code st = c"
    and lines: "inp st = (tu, pu) # (ts, ps) # rest" and ne: "tu \<noteq> []" "ts \<noteq> []"
    and vals: "to_float pu = Some u" "to_float ps = Some s" and pos: "1 / 10 ^ 7 \<le> s"
  shows "\<exists>st1 st2. normal_body lib st = Inr st1 \<and> nm_code st1 = 2 \<and> nm_future_code st1 = c
           \<and> inp st1 = inp st
           \<and> normal_body lib st1 = Inr st2 \<and> nm_code st2 = c \<and> nm_future_code st2 = 0 \<and> mean_set st2
           \<and> inp st2 = rest
           \<and> reports_of (nm_label c) (out st2) = reports_of (nm_label c) (out st)
           \<and> (\<forall>e. normal_body lib st2 = Inl e \<longrightarrow> e = EOFError)
           \<and> (\<forall>st3. normal_body lib st2 = Inr st3 \<longrightarrow>
                 length (reports_of (nm_label c) (out st3)) = Suc (length (reports_of (nm_label c) (out st)))
                 \<and> nm_future_code st3 = 0)"
proof -
  from c have c': "nm_code st \<in> {6, 7, 8, 9, 10, 11, 12, 13}" using code by auto
  from nm_redirect[OF ms c', of lib] code obtain st1 where
    r1: "normal_body lib st = Inr st1" "nm_code st1 = 2" "nm_future_code st1 = c" "inp st1 = inp st"
    by auto
  have pos0: "0 < c" using c by auto
  have keep: "reports_of (nm_label c) (out st1) = reports_of (nm_label c) (out st)"
  proof -
    from c consider "c = 6" | "c = 7" | "c = 9" | "c = 10" | "c = 11" | "c = 13" by auto
    then show ?thesis
      using r1(1) ms code
      by cases (auto simp: normal_body_def nm_defer_def nm_cmd13_def Let_def)
  qed
  have "\<not> s < 1 / 10 ^ 7" using pos by simp
  then obtain st2 where r2: "normal_body lib st1 = Inr st2" "nm_code st2 = c" "nm_future_code st2 = 0"
      "mean_set st2" "inp st2 = rest" "nm_mean st2 = Some u" "nm_sdev st2 = Some s"
      "reports_of (nm_label c) (out st2) = reports_of (nm_label c) (out st1)"
    using r1 lines ne vals pos0
    by (simp add: normal_body_def nm_cmd2_def ask_def Let_def nm_label_def)
  have "s \<noteq> 0" using pos by auto
  from nm_op_runs[OF c r2(4) r2(2) r2(6) r2(7) this, of lib] r1 r2 keep
  show ?thesis by auto
qed

lemma float_input_range:
  "get_user_float_input None (Some lo) (Some hi) ls = Inr (v, rest) \<Longrightarrow> lo \<le> v \<and> v \<le> hi"
  by (induction "None :: real option" "Some lo" "Some hi" ls rule: get_user_float_input.induct)
     (auto split: if_splits option.splits)

lemma int_input_lo:
  "get_user_int_input None (Some lo) hi ls = Inr (v, rest) \<Longrightarrow> lo \<le> v"
  by (induction "None :: int option" "Some lo" hi ls rule: get_user_int_input.induct)
     (auto split: if_splits option.splits)

lemma int_input_range:
  "get_user_int_input None (Some lo) (Some hi) ls = Inr (v, rest) \<Longrightarrow> lo \<le> v \<and> v \<le> hi"
  by (induction "None :: int option" "Some lo" "Some hi" ls rule: get_user_int_input.induct)
     (auto split: if_splits option.splits)

lemma dp_prompt_err: "dp_prompt st = Inl e \<Longrightarrow> e = EOFError"
  by (auto simp: dp_prompt_def ask_def split: sum.splits dest: int_input_err)

lemma dp_prompt_ok:
  "dp_prompt st = Inr st' \<Longrightarrow> out st' = out st \<and> dp_future_code st' = dp_future_code st"
  by (auto simp: dp_prompt_def ask_def split: sum.splits)

lemma dp_params_ok:
  assumes "dp_params p1 k1 n1 p2 k2 n2 alt st = Inr st'" and "dp_future_code st = c" and "0 < c"
  shows "dp_code st' = c \<and> dp_future_code st' = 0 \<and> parms_set st' \<and> inp st' = inp st
       \<and> dp_d st' = Some (p1 - p2)
       \<and> dp_sdev st' = Some (sqrt (p1 * (1 - p1) / of_int n1 + p2 * (1 - p2) / of_int n2))
       \<and> reports_of (dp_label c) (out st') = reports_of (dp_label c) (out st)
       \<and> 0 \<le> p1 * (1 - p1) / of_int n1 + p2 * (1 - p2) / of_int n2
       \<and> k1 + k2 \<noteq> n1 + n2"
  using assms
  by (auto simp: dp_params_def dp_resume_def py_sqrt_def py_div_def Let_def dp_label_def
      split: if_splits)

lemma ask_InrE:
  assumes "ask rd k st = Inr r"
  obtains v ls where "rd (inp st) = Inr (v, ls)" and "k v (st\<lparr>inp := ls\<rparr>) = Inr r"
  using assms by (auto simp: ask_def split: sum.splits)

lemma sdev_pos3:
  fixes p1 p2 :: real and n1 n2 :: int
  assumes "1 / 10 ^ 6 \<le> p1" "p1 \<le> 999999 / 10 ^ 6" "2 \<le> n1" "1 / 10 ^ 6 \<le> p2" "p2 \<le> 999999 / 10 ^ 6" "2 \<le> n2"
  shows "p1 * (1 - p1) / of_int n1 + p2 * (1 - p2) / of_int n2 \<noteq> 0"
proof -
  have "0 < p1 * (1 - p1) / of_int n1" using assms by (intro divide_pos_pos mult_pos_pos) auto
  moreover have "0 < p2 * (1 - p2) / of_int n2" using assms by (intro divide_pos_pos mult_pos_pos) auto
  ultimately show ?thesis by auto
qed

lemma dp_setup3:
  assumes "dp_code st = 3" and "dp_future_code st = c" and "0 < c"
    and "diff_prop_body lib st = Inr st'"
  shows "dp_code st' = c \<and> dp_future_code st' = 0 \<and> parms_set st'
       \<and> (\<exists>d sd. dp_d st' = Some d \<and> dp_sdev st' = Some sd \<and> sd \<noteq> 0)
       \<and> reports_of (dp_label c) (out st') = reports_of (dp_label c) (out st)"
  using assms unfolding diff_prop_body_def dp_cmd3_def
  apply (simp add: Let_def)
  apply (elim ask_InrE)
  apply (simp add: Let_def)
  apply (frule dp_params_ok[where c = c])
  apply simp
  apply simp
  apply (drule float_input_range)+
  apply (drule int_input_lo)+
  apply (simp add: dp_label_def sdev_pos3)
  done

lemma sdev_pos4:
  fixes k1 n1 k2 n2 :: int
  assumes "1 \<le> k1" "k1 \<le> n1" "2 \<le> n1" "1 \<le> k2" "k2 \<le> n2" "2 \<le> n2" "k1 + k2 \<noteq> n1 + n2"
  shows "(of_int k1 / of_int n1) * (1 - of_int k1 / of_int n1) / of_int n1
       + (of_int k2 / of_int n2) * (1 - of_int k2 / of_int n2) / (of_int n2 :: real) \<noteq> 0"
proof -
  let ?p1 = "of_int k1 / of_int n1 :: real" and ?p2 = "of_int k2 / of_int n2 :: real"
  have p1: "0 < ?p1" "?p1 \<le> 1" and p2: "0 < ?p2" "?p2 \<le> 1" using assms by auto
  have a: "0 \<le> ?p1 * (1 - ?p1) / of_int n1" using p1 assms by (intro divide_nonneg_nonneg mult_nonneg_nonneg) auto
  have b: "0 \<le> ?p2 * (1 - ?p2) / of_int n2" using p2 assms by (intro divide_nonneg_nonneg mult_nonneg_nonneg) auto
  from assms have "k1 < n1 \<or> k2 < n2" by auto
  then show ?thesis
  proof
    assume "k1 < n1"
    then have "?p1 < 1" using assms by auto
    then have "0 < ?p1 * (1 - ?p1) / of_int n1" using p1 assms by (intro divide_pos_pos mult_pos_pos) auto
    with b show ?thesis by auto
  next
    assume "k2 < n2"
    then have "?p2 < 1" using assms by auto
    then have "0 < ?p2 * (1 - ?p2) / of_int n2" using p2 assms by (intro divide_pos_pos mult_pos_pos) auto
    with a show ?thesis by auto
  qed
qed

lemma bnd_InrE:
  assumes "bnd m f = Inr r"
  obtains v where "m = Inr v" and "f v = Inr r"
  using assms by (cases m) (auto simp: bnd_def)

lemma dp_setup4:
  assumes "dp_code st = 4" and "dp_future_code st = c" and "0 < c"
    and "diff_prop_body lib st = Inr st'"
  shows "dp_code st' = c \<and> dp_future_code st' = 0 \<and> parms_set st'
       \<and> (\<exists>d sd. dp_d st' = Some d \<and> dp_sdev st' = Some sd \<and> sd \<noteq> 0)
       \<and> reports_of (dp_label c) (out st') = reports_of (dp_label c) (out st)"
  using assms unfolding diff_prop_body_def dp_cmd4_def
  apply (simp add: Let_def)
  apply (elim ask_InrE bnd_InrE)
  apply (simp add: Let_def py_div_def split: if_splits)
  apply (frule dp_params_ok[where c = c])
  apply simp
  apply simp
  apply (drule int_input_range)+
  apply (drule int_input_lo)+
  apply clarify
  apply (frule (6) sdev_pos4)
  apply (simp add: dp_label_def)
  done

lemma dp_op_runs:
  assumes "c \<in> {1, 2, 5}" and "parms_set st" and "dp_code st = c"
    and "dp_d st = Some d" and "dp_sdev st = Some sd" and "sd \<noteq> 0"
  shows "(\<forall>e. diff_prop_body lib st = Inl e \<longrightarrow> e = EOFError)
       \<and> (\<forall>st'. diff_prop_body lib st = Inr st' \<longrightarrow>
             length (reports_of (dp_label c) (out st')) = Suc (length (reports_of (dp_label c) (out st)))
             \<and> dp_future_code st' = dp_future_code st)"
proof -
  from assms(1) consider "c = 1" | "c = 2" | "c = 5" by auto
  then show ?thesis
  proof cases
    case 1
    with assms show ?thesis
      by (auto simp: diff_prop_body_def dp_cmd1_def Let_def ask_def local_var_def py_div_def dp_label_def
          split: sum.splits dest: float_input_err dp_prompt_err dp_prompt_ok)
  next
    case 2
    with assms show ?thesis
      by (auto simp: diff_prop_body_def dp_cmd2_def Let_def ask_def local_var_def py_div_def dp_label_def
          split: sum.splits dest: float_input_err dp_prompt_err dp_prompt_ok)
  next
    case 3
    with assms show ?thesis
      by (auto simp: diff_prop_body_def dp_cmd5_def Let_def ask_def local_var_def py_div_def dp_label_def
          split: sum.splits dest: float_input_err dp_prompt_err dp_prompt_ok)
  qed
qed

lemma dp_resume_session:
  assumes c: "c \<in> {1, 2, 5}" and ps: "\<not> parms_set st" and code: "dp_code st = c"
    and lines: "inp st = (tk, AsInt k) # rest" and ne: "tk \<noteq> []" and k: "k = 3 \<or> k = 4"
  shows "\<exists>st1. diff_prop_body lib st = Inr st1 \<and> dp_code st1 = k \<and> dp_future_code st1 = c
           \<and> inp st1 = rest
           \<and> reports_of (dp_label c) (out st1) = reports_of (dp_label c) (out st)
           \<and> (\<forall>st2. diff_prop_body lib st1 = Inr st2 \<longrightarrow>
                 dp_code st2 = c \<and> dp_future_code st2 = 0 \<and> parms_set st2
                 \<and> reports_of (dp_label c) (out st2) = reports_of (dp_label c) (out st)
                 \<and> (\<forall>e. diff_prop_body lib st2 = Inl e \<longrightarrow> e = EOFError)
                 \<and> (\<forall>st3. diff_prop_body lib st2 = Inr st3 \<longrightarrow>
                       length (reports_of (dp_label c) (out st3))
                         = Suc (length (reports_of (dp_label c) (out st)))
                       \<and> dp_future_code st3 = 0))"
proof -
  have pos: "0 < c" using c by auto
  have "\<exists>st1. diff_prop_body lib st = Inr st1 \<and> dp_code st1 = k \<and> dp_future_code st1 = c
           \<and> inp st1 = rest \<and> reports_of (dp_label c) (out st1) = reports_of (dp_label c) (out st)"
  proof -
    from c consider "c = 1" | "c = 2" | "c = 5" by auto
    then show ?thesis
      using ps code lines ne k
      by cases (auto simp: diff_prop_body_def dp_cmd1_def dp_cmd2_def dp_cmd5_def dp_defer_def ask_def Let_def
          dp_label_def)
  qed
  then obtain st1 where r1: "diff_prop_body lib st = Inr st1" "dp_code st1 = k" "dp_future_code st1 = c"
      "inp st1 = rest" "reports_of (dp_label c) (out st1) = reports_of (dp_label c) (out st)"
    by blast
  have prep: "\<And>st2. diff_prop_body lib st1 = Inr st2 \<Longrightarrow>
          dp_code st2 = c \<and> dp_future_code st2 = 0 \<and> parms_set st2
          \<and> (\<exists>d sd. dp_d st2 = Some d \<and> dp_sdev st2 = Some sd \<and> sd \<noteq> 0)
          \<and> reports_of (dp_label c) (out st2) = reports_of (dp_label c) (out st1)"
    using k r1(2,3) pos dp_setup3[of st1 c lib] dp_setup4[of st1 c lib] by blast
  have third: "dp_code st2 = c \<and> dp_future_code st2 = 0 \<and> parms_set st2
      \<and> reports_of (dp_label c) (out st2) = reports_of (dp_label c) (out st)
      \<and> (\<forall>e. diff_prop_body lib st2 = Inl e \<longrightarrow> e = EOFError)
      \<and> (\<forall>st3. diff_prop_body lib st2 = Inr st3 \<longrightarrow>
            length (reports_of (dp_label c) (out st3)) = Suc (length (reports_of (dp_label c) (out st)))
            \<and> dp_future_code st3 = 0)"
    if b2: "diff_prop_body lib st1 = Inr st2" for st2
  proof -
    from prep[OF b2] obtain d sd where f: "dp_code st2 = c" "dp_future_code st2 = 0" "parms_set st2"
        "dp_d st2 = Some d" "dp_sdev st2 = Some sd" "sd \<noteq> 0"
        "reports_of (dp_label c) (out st2) = reports_of (dp_label c) (out st1)"
      by blast
    from dp_op_runs[OF c f(3) f(1) f(4) f(5) f(6), of lib] f r1(5)
    show ?thesis by simp
  qed
  from r1 third show ?thesis by blast
qed

text \<open>
  C1, amended. In the normal helper, for a command 6, 7, 9, 10, 11 or 13 asked for while the
  mean is not set: the first round records the code and goes to code 2 without reading the
  console; the second round reads the mean and the standard deviation, clears the recorded
  code and goes back to the command without a prompt for a command code; the third round
  runs the command, which can fail only for want of console input and, when it returns,
  has printed its answer exactly once, with nothing left recorded. In the difference of
  proportions helper, for a command 1, 2 or 5 asked for while the parameters are not set,
  the same holds once the user answers the first round's prompt with 3 or 4 and that entry
  returns.
\<close>

theorem deferred_operation_resumes_once:
  "(nc \<in> {6, 7, 9, 10, 11, 13} \<and> \<not> mean_set ns \<and> nm_code ns = nc
      \<and> inp ns = (tu, pu) # (ts, ps) # nrest \<and> tu \<noteq> [] \<and> ts \<noteq> []
      \<and> to_float pu = Some u \<and> to_float ps = Some s \<and> 1 / 10 ^ 7 \<le> s \<longrightarrow>
    (\<exists>st1 st2. normal_body lib ns = Inr st1 \<and> nm_code st1 = 2 \<and> nm_future_code st1 = nc
           \<and> inp st1 = inp ns
           \<and> normal_body lib st1 = Inr st2 \<and> nm_code st2 = nc \<and> nm_future_code st2 = 0 \<and> mean_set st2
           \<and> inp st2 = nrest
           \<and> reports_of (nm_label nc) (out st2) = reports_of (nm_label nc) (out ns)
           \<and> (\<forall>e. normal_body lib st2 = Inl e \<longrightarrow> e = EOFError)
           \<and> (\<forall>st3. normal_body lib st2 = Inr st3 \<longrightarrow>
                 length (reports_of (nm_label nc) (out st3)) = Suc (length (reports_of (nm_label nc) (out ns)))
                 \<and> nm_future_code st3 = 0)))
   \<and> (dc \<in> {1, 2, 5} \<and> \<not> parms_set ds \<and> dp_code ds = dc
      \<and> inp ds = (tk, AsInt k) # drest \<and> tk \<noteq> [] \<and> (k = 3 \<or> k = 4) \<longrightarrow>
    (\<exists>st1. diff_prop_body lib ds = Inr st1 \<and> dp_code st1 = k \<and> dp_future_code st1 = dc
           \<and> inp st1 = drest
           \<and> reports_of (dp_label dc) (out st1) = reports_of (dp_label dc) (out ds)
           \<and> (\<forall>st2. diff_prop_body lib st1 = Inr st2 \<longrightarrow>
                 dp_code st2 = dc \<and> dp_future_code st2 = 0 \<and> parms_set st2
                 \<and> reports_of (dp_label dc) (out st2) = reports_of (dp_label dc) (out ds)
                 \<and> (\<forall>e. diff_prop_body lib st2 = Inl e \<longrightarrow> e = EOFError)
                 \<and> (\<forall>st3. diff_prop_body lib st2 = Inr st3 \<longrightarrow>
                       length (reports_of (dp_label dc) (out st3))
                         = Suc (length (reports_of (dp_label dc) (out ds)))
                       \<and> dp_future_code st3 = 0))))"
proof (intro conjI impI)
  assume h: "nc \<in> {6, 7, 9, 10, 11, 13} \<and> \<not> mean_set ns \<and> nm_code ns = nc
      \<and> inp ns = (tu, pu) # (ts, ps) # nrest \<and> tu \<noteq> [] \<and> ts \<noteq> []
      \<and> to_float pu = Some u \<and> to_float ps = Some s \<and> 1 / 10 ^ 7 \<le> s"
  then show "\<exists>st1 st2. normal_body lib ns = Inr st1 \<and> nm_code st1 = 2 \<and> nm_future_code st1 = nc
           \<and> inp st1 = inp ns
           \<and> normal_body lib st1 = Inr st2 \<and> nm_code st2 = nc \<and> nm_future_code st2 = 0 \<and> mean_set st2
           \<and> inp st2 = nrest
           \<and> reports_of (nm_label nc) (out st2) = reports_of (nm_label nc) (out ns)
           \<and> (\<forall>e. normal_body lib st2 = Inl e \<longrightarrow> e = EOFError)
           \<and> (\<forall>st3. normal_body lib st2 = Inr st3 \<longrightarrow>
                 length (reports_of (nm_label nc) (out st3)) = Suc (length (reports_of (nm_label nc) (out ns)))
                 \<and> nm_future_code st3 = 0)"
    by (elim conjE) (rule nm_resume)
next
  assume h: "dc \<in> {1, 2, 5} \<and> \<not> parms_set ds \<and> dp_code ds = dc
      \<and> inp ds = (tk, AsInt k) # drest \<and> tk \<noteq> [] \<and> (k = 3 \<or> k = 4)"
  then show "\<exists>st1. diff_prop_body lib ds = Inr st1 \<and> dp_code st1 = k \<and> dp_future_code st1 = dc
           \<and> inp st1 = drest
           \<and> reports_of (dp_label dc) (out st1) = reports_of (dp_label dc) (out ds)
           \<and> (\<forall>st2. diff_prop_body lib st1 = Inr st2 \<longrightarrow>
                 dp_code st2 = dc \<and> dp_future_code st2 = 0 \<and> parms_set st2
                 \<and> reports_of (dp_label dc) (out st2) = reports_of (dp_label dc) (out ds)
                 \<and> (\<forall>e. diff_prop_body lib st2 = Inl e \<longrightarrow> e = EOFError)
                 \<and> (\<forall>st3. diff_prop_body lib st2 = Inr st3 \<longrightarrow>
                       length (reports_of (dp_label dc) (out st3))
                         = Suc (length (reports_of (dp_label dc) (out ds)))
                       \<and> dp_future_code st3 = 0))"
    by (elim conjE) (rule dp_resume_session)
qed

theorem deferred_operation_resumes_once_witness:
  "\<not> mean_set nm_demo \<and> nm_code nm_demo = 6
   \<and> (case normal_body small_lib nm_demo of
        Inr st1 \<Rightarrow>
          nm_code st1 = 2 \<and> nm_future_code st1 = 6 \<and>
          (case normal_body small_lib st1 of
             Inr st2 \<Rightarrow>
               nm_code st2 = 6 \<and> nm_future_code st2 = 0 \<and>
               (case normal_body small_lib st2 of
                  Inr st3 \<Rightarrow> reports_of (nm_label 6) (out st3) = [[1, 1 / 2]] \<and> nm_code st3 = 0
                | Inl e \<Rightarrow> False)
           | Inl e \<Rightarrow> False)
      | Inl e \<Rightarrow> False)
   \<and> \<not> parms_set dp_demo \<and> dp_code dp_demo = 5
   \<and> (case diff_prop_body small_lib dp_demo of
        Inr st1 \<Rightarrow>
          dp_code st1 = 4 \<and> dp_future_code st1 = 5 \<and>
          (case diff_prop_body small_lib st1 of
             Inr st2 \<Rightarrow>
               dp_code st2 = 5 \<and> dp_future_code st2 = 0 \<and>
               (case diff_prop_body small_lib st2 of
                  Inr st3 \<Rightarrow> length (reports_of (dp_label 5) (out st3)) = 1 \<and> dp_code st3 = 0
                | Inl e \<Rightarrow> False)
           | Inl e \<Rightarrow> False)
      | Inl e \<Rightarrow> False)"
  using deferred_operation_resumes_once [of 6 nm_demo "''0''" "AsInt 0" "''1''" "AsInt 1"
      "[int_line ''1'' 1, int_line ''0'' 0]" 0 1 small_lib 5 dp_demo "''4''" 4
      "[int_line ''10'' 10, int_line ''5'' 5, int_line ''10'' 10, int_line ''4'' 4, int_line ''1'' 1,
        int_line ''0'' 0]"]
  by (simp add: nm_demo_def dp_demo_def nm_defs dp_defs Let_def nm_label_def dp_label_def small_lib_def)

lemmas ch_defs = ch3_step_def ch4_step_def chi2_helper_def chi2_start_def chi2_body_def ch_prompt_def ch_defer_def ch_cmd1_def
  ch_cmd2_def ch_cmd3_def ch_cmd4_def ch_cmd5_def ch_cmd6_def chi_terms_def warn_low_def ch_result_def
  py_set_def py_index_def ask_def lines_defs text_defs py_div_def

text \<open>
  C1, as stated for every helper, fails in the regression helper, which has no deferred
  slot: a command that finds no data goes to code 1 and nothing brings it back. Here the
  user asks for R (code 4) with no data and types three points; the helper then prompts for
  a code (the user types 0) and R was never printed.
\<close>

theorem regression_redirect_does_not_resume:
  "(case regression_helper (Suc (Suc 0)) small_lib
       [enter, int_line ''4'' 4, enter, int_line ''3'' 3, int_line ''1'' 1, int_line ''2'' 2,
        int_line ''2'' 2, int_line ''1'' 1, int_line ''3'' 3, int_line ''3'' 3, int_line ''0'' 0]
       Map.empty of
      Some (Inr st) \<Rightarrow>
        rg_code st = 0 \<and> inp st = [] \<and> xlist st = [1, 2, 3] \<and> ylist st = [2, 1, 3]
        \<and> reports_of ''The first formula gives an R value of'' (out st) = []
        \<and> reports_of ''The internal function gives an R value of'' (out st) = []
        \<and> reports_of ''For the current data the R value is'' (out st) = []
    | _ \<Rightarrow> False)"
  by (simp add: rg_defs emit_def)

text \<open>
  In the chi-square helper the resumption is lost: code 1 assigns \<^verbatim>\<open>code = future_code\<close> and
  falls through to the prompt at the end of the loop, which assigns \<^verbatim>\<open>code\<close> again. In the
  session below code 3 is deferred, the observations are entered, and the next code is the
  one the user types (0): code 3 never runs.
\<close>

lemma chi2_deferred_code_overwritten:
  "(case chi2_helper (Suc (Suc 0)) lib
       [enter, int_line ''3'' 3, int_line ''2'' 2, int_line ''10'' 10, int_line ''10'' 10, enter,
        int_line ''0'' 0] of
      Some (Inr st) \<Rightarrow>
        ch_code st = 0 \<and> ch_future_code st = 0 \<and> total st = 20 \<and> inp st = []
        \<and> reports_of ''The total probability for all categories is'' (out st) = []
        \<and> reports_of ''The test statistic Chi-square and the probability p of this (or more)'' (out st) = []
    | _ \<Rightarrow> False)"
  by (simp add: ch_defs emit_def py_range_num Let_def)

text \<open>
  C7, amended. In the normal helper a command 6 to 13 that finds the mean unset records its
  code and sets the next code to 2; in the chi-square helper a command 2 to 5 that finds no
  observations records its code and sets the next code to 1, and command 6 without
  complete data records 6 and sets the next code to 5; in each the console is not read. In
  the difference of proportions helper a command 1, 2 or 5 that finds the parameters unset
  records its code, and the next code is what \<^verbatim>\<open>get_user_int_input\<close> (default 4, range 0
  to 8) reads from the console.
\<close>

theorem precondition_failure_redirects:
  "(\<not> mean_set ns \<and> nm_code ns \<in> {6, 7, 8, 9, 10, 11, 12, 13} \<longrightarrow>
      (\<exists>st'. normal_body lib ns = Inr st' \<and> nm_code st' = 2 \<and> nm_future_code st' = nm_code ns
           \<and> inp st' = inp ns))
   \<and> (total cs = 0 \<and> ch_code cs \<in> {2, 3, 4, 5} \<longrightarrow>
      (\<exists>st'. chi2_body lib cs = Inr st' \<and> ch_code st' = 1 \<and> ch_future_code st' = ch_code cs
           \<and> inp st' = inp cs))
   \<and> (\<not> data_entered cs \<and> ch_code cs = 6 \<longrightarrow>
      (\<exists>st'. chi2_body lib cs = Inr st' \<and> ch_code st' = 5 \<and> ch_future_code st' = 6 \<and> inp st' = inp cs))
   \<and> (\<not> parms_set ds \<and> dp_code ds \<in> {1, 2, 5} \<longrightarrow>
      (case get_user_int_input (Some 4) (Some 0) (Some 8) (inp ds) of
           Inl e \<Rightarrow> diff_prop_body lib ds = Inl e
         | Inr (k, rest) \<Rightarrow>
             (\<exists>st'. diff_prop_body lib ds = Inr st' \<and> dp_code st' = k \<and> dp_future_code st' = dp_code ds
                \<and> inp st' = rest)))"
  using nm_redirect[of ns lib] ch_redirect[of cs lib] ch_redirect6[of cs lib] dp_redirect[of ds lib]
  by blast

theorem precondition_failure_redirects_witness:
  "\<not> mean_set nm_demo \<and> nm_code nm_demo = 6
   \<and> (case normal_body small_lib nm_demo of
        Inr st' \<Rightarrow> nm_code st' = 2 \<and> nm_future_code st' = 6 \<and> inp st' = inp nm_demo | Inl e \<Rightarrow> False)
   \<and> total ch_demo = 0 \<and> ch_code ch_demo = 3
   \<and> (case chi2_body small_lib ch_demo of
        Inr st' \<Rightarrow> ch_code st' = 1 \<and> ch_future_code st' = 3 \<and> inp st' = inp ch_demo | Inl e \<Rightarrow> False)
   \<and> \<not> data_entered (ch_demo\<lparr>ch_code := 6\<rparr>)
   \<and> (case chi2_body small_lib (ch_demo\<lparr>ch_code := 6\<rparr>) of
        Inr st' \<Rightarrow> ch_code st' = 5 \<and> ch_future_code st' = 6 \<and> inp st' = inp ch_demo | Inl e \<Rightarrow> False)
   \<and> \<not> parms_set dp_demo \<and> dp_code dp_demo = 5
   \<and> (case diff_prop_body small_lib dp_demo of
        Inr st' \<Rightarrow> dp_code st' = 4 \<and> dp_future_code st' = 5 \<and> inp st' = tl (inp dp_demo)
      | Inl e \<Rightarrow> False)"
  using precondition_failure_redirects [of nm_demo small_lib ch_demo dp_demo]
    precondition_failure_redirects [of nm_demo small_lib "ch_demo\<lparr>ch_code := 6\<rparr>" dp_demo]
  by (simp add: nm_demo_def ch_demo_def dp_demo_def nm_defs ch_defs dp_defs Let_def)

subsection \<open>Entries that are rejected\<close>



lemma emit_lsel [simp]:
  "li_r (emit e st) = li_r st" "li_left (emit e st) = li_left st" "li_pl (emit e st) = li_pl st"
  "li_right (emit e st) = li_right st" "li_pr (emit e st) = li_pr st" "li_l (emit e st) = li_l st"
  "li_u (emit e st) = li_u st" "li_p (emit e st) = li_p st" "li_slope (emit e st) = li_slope st"
  "li_code (emit e st) = li_code st"
  by (simp_all add: emit_def)

lemma ch_kept_refl [simp]: "ch_kept st st"
  by (simp add: ch_kept_def)

lemma ch_kept_trans: "ch_kept a b \<Longrightarrow> ch_kept b c \<Longrightarrow> ch_kept a c"
  by (simp add: ch_kept_def)


lemma warn_low_sel [simp]:
  "ch_r (warn_low e st) = ch_r st" "ch_future_code (warn_low e st) = ch_future_code st"
  "data_entered (warn_low e st) = data_entered st" "ch_N (warn_low e st) = ch_N st"
  "ch_v (warn_low e st) = ch_v st" "total (warn_low e st) = total st"
  "chi_squared (warn_low e st) = chi_squared st" "Yates (warn_low e st) = Yates st"
  "chance (warn_low e st) = chance st" "observed (warn_low e st) = observed st"
  "expected (warn_low e st) = expected st" "z2 (warn_low e st) = z2 st"
  "ch_code (warn_low e st) = ch_code st" "inp (warn_low e st) = inp st"
  "reports_of l (out (warn_low e st)) = reports_of l (out st)"
  by (simp_all add: warn_low_def)











lemma ch_ready_emit [simp]: "ch_ready (emit e st) = ch_ready st"
  by (simp add: ch_ready_def)

lemma ch_ready_warn [simp]: "ch_ready (warn_low e st) = ch_ready st"
  by (simp add: ch_ready_def)



















subsection \<open>The cached statistics of the regression helper\<close>


lemma first_pass_upd:
  "first_pass xs ys ks
     (t\<lparr>totalx := totalx s, totaly := totaly s, totalxy := totalxy s, totalx2 := totalx2 s,
        totaly2 := totaly2 s\<rparr>)
   = map_sum id (\<lambda>s1. t\<lparr>totalx := totalx s1, totaly := totaly s1, totalxy := totalxy s1,
                          totalx2 := totalx2 s1, totaly2 := totaly2 s1\<rparr>)
       (first_pass xs ys ks s)"
proof (induction ks arbitrary: s)
  case Nil
  show ?case by simp
next
  case (Cons k ks)
  show ?case
    using Cons.IH[of "s\<lparr>totalx := totalx s + xs ! k, totaly := totaly s + ys ! k,
            totalxy := totalxy s + xs ! k * ys ! k,
            totalx2 := totalx2 s + (xs ! k) ^ 2, totaly2 := totaly2 s + (ys ! k) ^ 2\<rparr>"]
    by (simp add: py_index_def)
qed

lemma second_pass_upd:
  assumes "meanx t = meanx s" "meany t = meany s" "slope t = slope s" "intercept t = intercept s"
  shows "second_pass xs ys ks
     (t\<lparr>xnormlist := xnormlist s, ynormlist := ynormlist s, tot_normx := tot_normx s,
        tot_normy := tot_normy s, tot_normxy := tot_normxy s, tot_normx2 := tot_normx2 s,
        tot_normy2 := tot_normy2 s, var_unexplained := var_unexplained s,
        var_explained := var_explained s\<rparr>)
   = map_sum id (\<lambda>s1. t\<lparr>xnormlist := xnormlist s1, ynormlist := ynormlist s1, tot_normx := tot_normx s1,
        tot_normy := tot_normy s1, tot_normxy := tot_normxy s1, tot_normx2 := tot_normx2 s1,
        tot_normy2 := tot_normy2 s1, var_unexplained := var_unexplained s1,
        var_explained := var_explained s1\<rparr>)
       (second_pass xs ys ks s)"
  using assms
proof (induction ks arbitrary: s)
  case Nil
  show ?case by simp
next
  case (Cons k ks)
  let ?x = "xs ! k - meanx s" and ?y = "ys ! k - meany s" and ?e = "slope s * xs ! k + intercept s"
  show ?case
    using Cons.IH[of "s\<lparr>xnormlist := xnormlist s @ [?x], ynormlist := ynormlist s @ [?y],
            tot_normx := tot_normx s + ?x, tot_normy := tot_normy s + ?y,
            tot_normxy := tot_normxy s + ?x * ?y,
            tot_normx2 := tot_normx2 s + ?x ^ 2, tot_normy2 := tot_normy2 s + ?y ^ 2,
            var_unexplained := var_unexplained s + (ys ! k - ?e) ^ 2,
            var_explained := var_explained s + (?e - meany s) ^ 2\<rparr>"] Cons.prems
    by (simp add: py_index_def Let_def)
qed

lemma first_pass_sel:
  "first_pass xs ys ks s = Inr s1 \<Longrightarrow>
     meanx s1 = meanx s \<and> meany s1 = meany s \<and> rg_R s1 = rg_R s \<and> slope s1 = slope s
     \<and> intercept s1 = intercept s \<and> SE s1 = SE s \<and> student_t s1 = student_t s \<and> sx s1 = sx s
     \<and> sy s1 = sy s \<and> sxy s1 = sxy s \<and> tot_normx s1 = tot_normx s \<and> tot_normy s1 = tot_normy s
     \<and> tot_normxy s1 = tot_normxy s \<and> tot_normx2 s1 = tot_normx2 s \<and> tot_normy2 s1 = tot_normy2 s
     \<and> var_total s1 = var_total s \<and> var_explained s1 = var_explained s
     \<and> var_unexplained s1 = var_unexplained s \<and> xnormlist s1 = xnormlist s \<and> ynormlist s1 = ynormlist s"
proof (induction ks arbitrary: s)
  case Nil
  then show ?case by simp
next
  case (Cons k ks)
  from Cons.prems Cons.IH[of "s\<lparr>totalx := totalx s + xs ! k, totaly := totaly s + ys ! k,
            totalxy := totalxy s + xs ! k * ys ! k,
            totalx2 := totalx2 s + (xs ! k) ^ 2, totaly2 := totaly2 s + (ys ! k) ^ 2\<rparr>"]
  show ?case by (simp add: py_index_def split: if_splits)
qed

lemma second_pass_sel:
  "second_pass xs ys ks s = Inr s1 \<Longrightarrow>
     totalx s1 = totalx s \<and> totaly s1 = totaly s \<and> totalxy s1 = totalxy s \<and> totalx2 s1 = totalx2 s
     \<and> totaly2 s1 = totaly2 s \<and> meanx s1 = meanx s \<and> meany s1 = meany s \<and> rg_R s1 = rg_R s
     \<and> slope s1 = slope s \<and> intercept s1 = intercept s \<and> SE s1 = SE s \<and> student_t s1 = student_t s
     \<and> sx s1 = sx s \<and> sy s1 = sy s \<and> sxy s1 = sxy s \<and> var_total s1 = var_total s"
proof (induction ks arbitrary: s)
  case Nil
  then show ?case by simp
next
  case (Cons k ks)
  let ?x = "xs ! k - meanx s" and ?y = "ys ! k - meany s" and ?e = "slope s * xs ! k + intercept s"
  from Cons.prems Cons.IH[of "s\<lparr>xnormlist := xnormlist s @ [?x], ynormlist := ynormlist s @ [?y],
            tot_normx := tot_normx s + ?x, tot_normy := tot_normy s + ?y,
            tot_normxy := tot_normxy s + ?x * ?y,
            tot_normx2 := tot_normx2 s + ?x ^ 2, tot_normy2 := tot_normy2 s + ?y ^ 2,
            var_unexplained := var_unexplained s + (ys ! k - ?e) ^ 2,
            var_explained := var_explained s + (?e - meany s) ^ 2\<rparr>"]
  show ?case by (simp add: py_index_def Let_def split: if_splits)
qed

lemma bnd_cong: "(\<And>v. m = Inr v \<Longrightarrow> f v = f' v) \<Longrightarrow> bnd m f = bnd m f'"
  by (cases m) simp_all

lemma bnd_map_sum: "bnd (map_sum id h m) f = bnd m (\<lambda>v. f (h v))"
  by (cases m) simp_all

lemma second_pass_indep:
  assumes "meanx t = meanx s" "meany t = meany s" "slope t = slope s" "intercept t = intercept s"
    and "xnormlist t = xnormlist s" "ynormlist t = ynormlist s" "tot_normx t = tot_normx s"
    and "tot_normy t = tot_normy s" "tot_normxy t = tot_normxy s" "tot_normx2 t = tot_normx2 s"
    and "tot_normy2 t = tot_normy2 s" "var_unexplained t = var_unexplained s"
    and "var_explained t = var_explained s"
  shows "second_pass xs ys ks t
   = map_sum id (\<lambda>s1. t\<lparr>xnormlist := xnormlist s1, ynormlist := ynormlist s1, tot_normx := tot_normx s1,
        tot_normy := tot_normy s1, tot_normxy := tot_normxy s1, tot_normx2 := tot_normx2 s1,
        tot_normy2 := tot_normy2 s1, var_unexplained := var_unexplained s1,
        var_explained := var_explained s1\<rparr>)
       (second_pass xs ys ks s)"
proof -
  have "t = t\<lparr>xnormlist := xnormlist s, ynormlist := ynormlist s, tot_normx := tot_normx s,
        tot_normy := tot_normy s, tot_normxy := tot_normxy s, tot_normx2 := tot_normx2 s,
        tot_normy2 := tot_normy2 s, var_unexplained := var_unexplained s,
        var_explained := var_explained s\<rparr>"
    using assms(5-13) by simp
  then show ?thesis
    using second_pass_upd[OF assms(1-4), of xs ys ks] by simp
qed

lemma crunch_tail:
  assumes v: "meanx v = meanx (crunch_clear b) \<and> meany v = meany (crunch_clear b)
      \<and> rg_R v = rg_R (crunch_clear b) \<and> slope v = slope (crunch_clear b)
      \<and> intercept v = intercept (crunch_clear b) \<and> SE v = SE (crunch_clear b)
      \<and> student_t v = student_t (crunch_clear b) \<and> sx v = sx (crunch_clear b)
      \<and> sy v = sy (crunch_clear b) \<and> sxy v = sxy (crunch_clear b)
      \<and> tot_normx v = tot_normx (crunch_clear b) \<and> tot_normy v = tot_normy (crunch_clear b)
      \<and> tot_normxy v = tot_normxy (crunch_clear b) \<and> tot_normx2 v = tot_normx2 (crunch_clear b)
      \<and> tot_normy2 v = tot_normy2 (crunch_clear b) \<and> var_total v = var_total (crunch_clear b)
      \<and> var_explained v = var_explained (crunch_clear b)
      \<and> var_unexplained v = var_unexplained (crunch_clear b)
      \<and> xnormlist v = xnormlist (crunch_clear b) \<and> ynormlist v = ynormlist (crunch_clear b)"
  shows "bnd (second_pass xs ys ks
                 (crunch_clear a
                  \<lparr>totalx := totalx v, totaly := totaly v,
                     totalxy := totalxy v, totalx2 := totalx2 v,
                     totaly2 := totaly2 v, meanx := mx,
                     meany := my, rg_R := va,
                     intercept := vb, slope := vc, SE := vd,
                     student_t := vg\<rparr>))
            (\<lambda>s4. bnd (py_sqrt (tot_normx2 s4 / real_of_int m))
                   (\<lambda>vx. bnd (py_sqrt (tot_normy2 s4 / real_of_int m))
                          (\<lambda>vy. Inr (s4\<lparr>var_total := tot_normy2 s4, sx := vx,
                                 sy := vy, sxy := tot_normxy s4 / real_of_int m\<rparr>)))) =
           bnd (second_pass xs ys ks
                 (v\<lparr>meanx := mx,
                      meany := my, rg_R := va,
                      intercept := vb, slope := vc, SE := vd,
                      student_t := vg\<rparr>))
            (\<lambda>s4. bnd (py_sqrt (tot_normx2 s4 / real_of_int m))
                   (\<lambda>vx. bnd (py_sqrt (tot_normy2 s4 / real_of_int m))
                          (\<lambda>vy. Inr (s4\<lparr>var_total := tot_normy2 s4, sx := vx,
                                 sy := vy, sxy := tot_normxy s4 / real_of_int m\<rparr>))))"
proof -
  let ?ta = "crunch_clear a
                  \<lparr>totalx := totalx v, totaly := totaly v,
                     totalxy := totalxy v, totalx2 := totalx2 v,
                     totaly2 := totaly2 v, meanx := mx,
                     meany := my, rg_R := va,
                     intercept := vb, slope := vc, SE := vd,
                     student_t := vg\<rparr>"
  let ?tb = "v\<lparr>meanx := mx, meany := my, rg_R := va,
                      intercept := vb, slope := vc, SE := vd, student_t := vg\<rparr>"
  have sp: "second_pass xs ys ks ?ta
     = map_sum id (\<lambda>s1. ?ta\<lparr>xnormlist := xnormlist s1, ynormlist := ynormlist s1, tot_normx := tot_normx s1,
        tot_normy := tot_normy s1, tot_normxy := tot_normxy s1, tot_normx2 := tot_normx2 s1,
        tot_normy2 := tot_normy2 s1, var_unexplained := var_unexplained s1,
        var_explained := var_explained s1\<rparr>) (second_pass xs ys ks ?tb)"
    by (rule second_pass_indep) (simp_all add: v crunch_clear_def clear_sums_def)
  show ?thesis
    unfolding sp bnd_map_sum
    apply (rule bnd_cong)
    apply (drule second_pass_sel)
    apply simp
    apply (intro bnd_cong)
    apply simp
    done
qed

lemma crunch_indep: "crunch xs ys m (crunch_clear a) = crunch xs ys m (crunch_clear b)"
proof -
  let ?ks = "py_range m"
  let ?ca = "crunch_clear a" and ?cb = "crunch_clear b"
  have A: "?ca = ?ca\<lparr>totalx := totalx ?cb, totaly := totaly ?cb, totalxy := totalxy ?cb,
                      totalx2 := totalx2 ?cb, totaly2 := totaly2 ?cb\<rparr>"
    by (simp add: crunch_clear_def clear_sums_def)
  have fp: "first_pass xs ys ?ks ?ca
      = map_sum id (\<lambda>s1. ?ca\<lparr>totalx := totalx s1, totaly := totaly s1, totalxy := totalxy s1,
                          totalx2 := totalx2 s1, totaly2 := totaly2 s1\<rparr>) (first_pass xs ys ?ks ?cb)"
    by (subst A) (rule first_pass_upd)
  show ?thesis
    unfolding crunch_def fp bnd_map_sum
    apply (rule bnd_cong)
    apply (drule first_pass_sel)
    apply (simp add: Let_def formula1_def line_intercept_def line_slope_def)
    apply (intro bnd_cong)
    apply (rule crunch_tail)
    apply assumption
    done
qed

lemma cache_ok_iff:
  "cache_ok st \<longleftrightarrow>
     (data_crunched st \<longrightarrow>
        rg_n st \<noteq> 0 \<and> crunch (xlist st) (ylist st) (rg_n st) (crunch_clear (g st)) = Inr (g st))"
proof (cases "data_crunched st")
  case False
  then show ?thesis by (simp add: cache_ok_def)
next
  case True
  show ?thesis
  proof (cases "rg_n st = 0")
    case z: True
    have "emit (Say ''***ERROR, no data has been entered yet'') (st\<lparr>g := crunch_clear (g st)\<rparr>) \<noteq> st"
    proof
      assume "emit (Say ''***ERROR, no data has been entered yet'') (st\<lparr>g := crunch_clear (g st)\<rparr>) = st"
      then have "out (emit (Say ''***ERROR, no data has been entered yet'') (st\<lparr>g := crunch_clear (g st)\<rparr>)) = out st"
        by simp
      then show False by (simp add: emit_def)
    qed
    with True z show ?thesis by (simp add: cache_ok_def crunch_data_def)
  next
    case nz: False
    show ?thesis
    proof (cases "crunch (xlist st) (ylist st) (rg_n st) (crunch_clear (g st))")
      case (Inl e)
      with True nz show ?thesis by (simp add: cache_ok_def crunch_data_def)
    next
      case (Inr s)
      have "st\<lparr>g := s, data_crunched := True\<rparr> = st \<longleftrightarrow> s = g st"
      proof
        assume "st\<lparr>g := s, data_crunched := True\<rparr> = st"
        then have "g (st\<lparr>g := s, data_crunched := True\<rparr>) = g st" by simp
        then show "s = g st" by simp
      next
        assume "s = g st"
        with True show "st\<lparr>g := s, data_crunched := True\<rparr> = st" by simp
      qed
      with True nz Inr show ?thesis by (simp add: cache_ok_def crunch_data_def)
    qed
  qed
qed

lemma cache_ok_kept: "rg_kept st st' \<Longrightarrow> cache_ok st \<Longrightarrow> cache_ok st'"
  by (simp add: cache_ok_iff rg_kept_def)

lemma cache_ok_off: "\<not> data_crunched st \<Longrightarrow> cache_ok st"
  by (simp add: cache_ok_def)

lemma crunch_data_ok:
  assumes "crunch_data st = Inr st'" and "rg_n st \<noteq> 0"
  shows "cache_ok st' \<and> data_crunched st' \<and> xlist st' = xlist st \<and> ylist st' = ylist st
     \<and> rg_n st' = rg_n st \<and> from_points st = Inr (g st')"
proof -
  from assms obtain s where s: "crunch (xlist st) (ylist st) (rg_n st) (crunch_clear (g st)) = Inr s"
    and st': "st' = st\<lparr>g := s, data_crunched := True\<rparr>"
    by (auto simp: crunch_data_def elim!: bnd_InrE)
  from s crunch_indep[of "xlist st" "ylist st" "rg_n st" s "g st"]
  have "crunch (xlist st) (ylist st) (rg_n st) (crunch_clear s) = Inr s" by simp
  moreover from s crunch_indep[of "xlist st" "ylist st" "rg_n st" stats0 "g st"]
  have "from_points st = Inr s" by (simp add: from_points_def)
  ultimately show ?thesis using assms(2) st' by (simp add: cache_ok_iff from_points_def)
qed

lemma cached_is_fresh:
  assumes "cache_ok st" and "data_crunched st"
  shows "rg_n st \<noteq> 0 \<and> from_points st = Inr (g st)"
  using assms crunch_indep[of "xlist st" "ylist st" "rg_n st" stats0 "g st"]
  by (simp add: cache_ok_iff from_points_def)

lemma rg_kept_refl [simp]: "rg_kept st st"
  by (simp add: rg_kept_def)

lemma rg_kept_trans: "rg_kept a b \<Longrightarrow> rg_kept b c \<Longrightarrow> rg_kept a c"
  by (simp add: rg_kept_def)

lemma rg_kept_emit [simp]: "rg_kept st (emit e st')  = rg_kept st st'"
  by (simp add: rg_kept_def)

lemma rg_kept_inp [simp]: "rg_kept st (st'\<lparr>inp := ls\<rparr>) = rg_kept st st'"
  by (simp add: rg_kept_def)

lemma rg_kept_emit1 [simp]: "rg_kept (emit e st) st'  = rg_kept st st'"
  by (simp add: rg_kept_def)

lemma rg_kept_inp1 [simp]: "rg_kept (st\<lparr>inp := ls\<rparr>) st' = rg_kept st st'"
  by (simp add: rg_kept_def)

lemma rg_prompt_kept: "rg_prompt st = Inr st' \<Longrightarrow> rg_kept st st' \<and> out st' = out st"
  by (auto simp: rg_prompt_def rg_kept_def elim!: ask_InrE)

lemma show_points_kept: "show_points ks st = Inr st' \<Longrightarrow> rg_kept st st'"
proof (induction ks arbitrary: st)
  case Nil
  then show ?case by simp
next
  case (Cons k ks)
  from Cons.prems obtain x y where
    "show_points ks (emit (Report ''X[k], Y[k]'' [real (k + 1), x, y]) st) = Inr st'"
    by (auto elim!: bnd_InrE)
  from Cons.IH[OF this] show ?case by (simp add: rg_kept_def)
qed

lemma rg_cmd2_kept:
  assumes "rg_cmd2 lib st = Inr st'"
  shows "rg_kept st st'"
  using assms unfolding rg_cmd2_def
  by (auto simp: rg_kept_def split: if_splits elim!: ask_InrE bnd_InrE
      dest!: show_points_kept rg_prompt_kept)

lemma correct_one_inv:
  "correct_one st = Inr (a, st') \<Longrightarrow>
     rg_n st' = rg_n st \<and> g st' = g st
     \<and> (data_crunched st' \<longrightarrow> data_crunched st \<and> xlist st' = xlist st \<and> ylist st' = ylist st)"
  by (auto simp: correct_one_def set_x_def set_y_def elim!: ask_InrE bnd_InrE split: if_splits)

lemma correct_loop_inv:
  "correct_loop f answer count st = Inr (c, st') \<Longrightarrow>
     rg_n st' = rg_n st \<and> g st' = g st
     \<and> (data_crunched st' \<longrightarrow> data_crunched st \<and> xlist st' = xlist st \<and> ylist st' = ylist st)"
proof (induction f arbitrary: answer count st)
  case 0
  then show ?case by (simp split: if_splits)
next
  case (Suc f)
  show ?case
  proof (cases "answer = ''Y''")
    case False
    with Suc.prems show ?thesis by simp
  next
    case True
    with Suc.prems obtain a1 s1 where one: "correct_one st = Inr (a1, s1)"
      and rest: "correct_loop f a1 (count + 1) s1 = Inr (c, st')"
      by (auto elim!: bnd_InrE)
    from correct_one_inv[OF one] Suc.IH[OF rest] show ?thesis by simp
  qed
qed

lemma rg_cmd3_inv:
  assumes "rg_cmd3 st = Inr st'"
  shows "rg_n st' = rg_n st \<and> g st' = g st
     \<and> (data_crunched st' \<longrightarrow> data_crunched st \<and> xlist st' = xlist st \<and> ylist st' = ylist st)"
proof -
  from assms obtain answer ls c s1 where
    loop: "correct_loop (length ls) answer 0 (st\<lparr>inp := ls\<rparr>) = Inr (c, s1)"
    and fin: "rg_prompt (emit (Report ''You have made changes to points'' [of_int c]) s1) = Inr st'"
    unfolding rg_cmd3_def by (auto elim!: ask_InrE bnd_InrE)
  from correct_loop_inv[OF loop] rg_prompt_kept[OF fin] show ?thesis by (simp add: rg_kept_def)
qed

lemma read_points_flag:
  "read_points ks st = Inr st' \<Longrightarrow> data_crunched st' = data_crunched st"
proof (induction ks arbitrary: st)
  case Nil
  then show ?case by simp
next
  case (Cons k ks)
  from Cons.prems obtain s where "read_points ks s = Inr st'" and "data_crunched s = data_crunched st"
    by (auto elim!: ask_InrE)
  with Cons.IH[of s] show ?case by simp
qed

lemma ask_filename_flag:
  "ask_filename f st = Inr (name, st') \<Longrightarrow> data_crunched st' = data_crunched st"
proof (induction f arbitrary: st)
  case 0
  then show ?case by simp
next
  case (Suc f)
  from Suc.prems show ?case
    by (auto elim!: ask_InrE split: if_splits dest!: Suc.IH)
qed

lemma read_csv_flag:
  "read_csv lib rows k st = Inr (k', st') \<Longrightarrow> data_crunched st' = data_crunched st"
proof (induction rows arbitrary: k st)
  case Nil
  then show ?case by simp
next
  case (Cons row rows)
  from Cons.prems show ?case
    by (auto simp: Let_def split: if_splits option.splits dest!: Cons.IH)
qed

lemma rg_cmd1_flag:
  assumes "rg_cmd1 lib st = Inr st'"
  shows "\<not> data_crunched st'"
  using assms unfolding rg_cmd1_def
  by (auto elim!: ask_InrE bnd_InrE split: if_splits option.splits
      dest!: read_points_flag ask_filename_flag read_csv_flag rg_prompt_kept simp: rg_kept_def)

lemma formula2_flag: "formula2 st = Inr st' \<Longrightarrow> \<not> data_crunched st'"
  unfolding formula2_def Let_def by (elim bnd_InrE) auto

lemma rg_cmd5_ok:
  assumes "rg_cmd5 st = Inr st'" and "cache_ok st"
  shows "cache_ok st'"
proof (cases "rg_n st = 0")
  case True
  with assms have "rg_kept st st'" by (auto simp: rg_cmd5_def rg_redirect_def rg_kept_def)
  with assms(2) show ?thesis by (auto intro: cache_ok_kept)
next
  case False
  with assms obtain s where "formula2 st = Inr s" "rg_prompt s = Inr st'"
    by (auto simp: rg_cmd5_def elim!: bnd_InrE)
  with formula2_flag rg_prompt_kept[of s st'] have "\<not> data_crunched st'" by (auto simp: rg_kept_def)
  then show ?thesis by (rule cache_ok_off)
qed

lemma rg_cmd4_ok:
  assumes run: "rg_cmd4 st = Inr st'" and ok: "cache_ok st"
  shows "cache_ok st'"
proof (cases "data_crunched st")
  case True
  with run have "rg_kept st st'"
    by (auto simp: rg_cmd4_def rg_kept_def dest!: rg_prompt_kept)
  with ok show ?thesis by (auto intro: cache_ok_kept)
next
  case False
  show ?thesis
  proof (cases "rg_n st = 0")
    case True
    with False run have "rg_kept st st'" by (auto simp: rg_cmd4_def rg_redirect_def rg_kept_def)
    with ok show ?thesis by (auto intro: cache_ok_kept)
  next
    case nz: False
    with False run obtain s0 st2 where cr: "crunch_data s0 = Inr st2" and n: "rg_n s0 = rg_n st"
      and fin: "rg_prompt (emit (Report ''The internal function gives an R value of'' [rg_R (g st2)]) st2) = Inr st'"
      unfolding rg_cmd4_def by (auto elim!: bnd_InrE)
    from crunch_data_ok[OF cr] n nz have "cache_ok st2" by simp
    moreover from rg_prompt_kept[OF fin] have "rg_kept st2 st'" by simp
    ultimately show ?thesis by (auto intro: cache_ok_kept)
  qed
qed

lemma rg_cmd6_ok:
  assumes run: "rg_cmd6 st = Inr st'" and ok: "cache_ok st"
  shows "cache_ok st'"
proof (cases "data_crunched st")
  case True
  with run have "rg_kept st st'"
    by (auto simp: rg_cmd6_def rg_redirect_def Let_def rg_kept_def split: if_splits dest!: rg_prompt_kept)
  with ok show ?thesis by (auto intro: cache_ok_kept)
next
  case False
  with run have "\<not> data_crunched st'"
    by (auto simp: rg_cmd6_def rg_redirect_def Let_def rg_kept_def split: if_splits
        elim!: bnd_InrE dest!: rg_prompt_kept)
  then show ?thesis by (rule cache_ok_off)
qed

lemma dump_stats_kept: "dump_stats st = Inr st' \<Longrightarrow> rg_kept st st'"
  unfolding dump_stats_def Let_def
  by (elim bnd_InrE) (auto simp: rg_kept_def split: if_splits)

lemma reverse_line_kept: "reverse_line st = Inr (t, st') \<Longrightarrow> rg_kept st st'"
  unfolding reverse_line_def Let_def
  by (auto simp: rg_kept_def split: if_splits elim!: bnd_InrE)

lemma rg_cmd7_ok:
  assumes run: "rg_cmd7 st = Inr st'" and ok: "cache_ok st"
  shows "cache_ok st'"
proof -
  from run obtain s1 where pre: "(if \<not> data_crunched st \<and> rg_n st \<noteq> 0 then crunch_data st else Inr st) = Inr s1"
    and rest: "(if rg_n s1 = 0 then rg_redirect s1
       else
         bnd (dump_stats s1) (\<lambda>st1.
         bnd (reverse_line st1) (\<lambda>(tot_xdev2, st2).
           ask (get_user_yes_or_no_input (Some ''N'')) (\<lambda>answer s3.
             rg_prompt
               (if answer = ''Y'' then
                  emit (Plot (xlist s3) (ylist s3)
                    ((xlist s3, map (\<lambda>x. slope (g s3) * x + intercept (g s3)) (xlist s3)) #
                     (if tot_xdev2 \<noteq> 0
                      then [(map (\<lambda>y. rev_slope (rg_n s3) (g s3) * y + rev_intercept (rg_n s3) (g s3)) (ylist s3),
                             ylist s3)]
                      else [])))
                  (emit (Say ''The usual regression line is red, the reverse line green'') s3)
                else s3)) st2))) = Inr st'"
    unfolding rg_cmd7_def by (elim bnd_InrE)
  from pre ok crunch_data_ok[of st s1] have s1: "cache_ok s1" by (auto split: if_splits)
  from rest have "rg_kept s1 st'"
    by (auto simp: rg_redirect_def rg_kept_def split: if_splits elim!: bnd_InrE ask_InrE
        dest!: dump_stats_kept reverse_line_kept rg_prompt_kept)
  with s1 show ?thesis by (auto intro: cache_ok_kept)
qed

lemma residual_loop_kept:
  "residual_loop f b m u answer st = Inr st' \<Longrightarrow> rg_kept st st'"
proof (induction f arbitrary: answer st)
  case 0
  then show ?case by (simp split: if_splits)
next
  case (Suc f)
  from Suc.prems show ?case
    by (auto simp: Let_def rg_kept_def split: if_splits elim!: bnd_InrE ask_InrE dest!: Suc.IH)
qed

lemma rg_cmd8_ok:
  assumes run: "rg_cmd8 st = Inr st'" and ok: "cache_ok st"
  shows "cache_ok st'"
proof -
  from run obtain b m u s2 s3 where
    pre: "(if rg_n st = 0 then
            ask (get_user_float_input None None None) (\<lambda>b.
            ask (get_user_float_input None None None) (\<lambda>m s. Inr (b, m, False, s))) st
          else
            ask (get_user_yes_or_no_input (Some ''Y'')) (\<lambda>answer s.
              if answer = ''Y'' then
                bnd (if \<not> data_crunched s then crunch_data s else Inr s) (\<lambda>s1.
                  Inr (intercept (g s1), slope (g s1), True, s1))
              else
                ask (get_user_float_input None None None) (\<lambda>b.
                ask (get_user_float_input None None None) (\<lambda>m s1. Inr (b, m, False, s1))) s) st)
          = Inr (b, m, u, s2)"
    and loop: "residual_loop (length (inp s2)) b m u ''Y'' s2 = Inr s3"
    and fin: "rg_prompt s3 = Inr st'"
    unfolding rg_cmd8_def by (auto elim!: bnd_InrE)
  have s2: "cache_ok s2"
  proof (cases "rg_n st = 0")
    case True
    with pre have "rg_kept st s2" by (auto elim!: ask_InrE)
    with ok show ?thesis by (auto intro: cache_ok_kept)
  next
    case False
    with pre obtain answer ls where
      br: "(if answer = ''Y'' then
                bnd (if \<not> data_crunched (st\<lparr>inp := ls\<rparr>) then crunch_data (st\<lparr>inp := ls\<rparr>)
                     else Inr (st\<lparr>inp := ls\<rparr>)) (\<lambda>s1.
                  Inr (intercept (g s1), slope (g s1), True, s1))
              else
                ask (get_user_float_input None None None) (\<lambda>b.
                ask (get_user_float_input None None None) (\<lambda>m s1. Inr (b, m, False, s1))) (st\<lparr>inp := ls\<rparr>))
          = Inr (b, m, u, s2)"
      by (auto elim!: ask_InrE)
    have ok1: "cache_ok (st\<lparr>inp := ls\<rparr>)" using ok cache_ok_kept[of st "st\<lparr>inp := ls\<rparr>"] by simp
    show ?thesis
    proof (cases "answer = ''Y'' \<and> \<not> data_crunched st")
      case True
      with br have "crunch_data (st\<lparr>inp := ls\<rparr>) = Inr s2" by (auto elim!: bnd_InrE)
      from crunch_data_ok[OF this] False show ?thesis by simp
    next
      case False
      with br have "rg_kept (st\<lparr>inp := ls\<rparr>) s2"
        by (auto elim!: ask_InrE bnd_InrE split: if_splits)
      with ok show ?thesis by (auto intro: cache_ok_kept)
    qed
  qed
  from residual_loop_kept[OF loop] rg_prompt_kept[OF fin] have "rg_kept s2 st'"
    by (auto intro: rg_kept_trans)
  with s2 show ?thesis by (auto intro: cache_ok_kept)
qed

lemma rg_cmd9_ok:
  assumes run: "rg_cmd9 st = Inr st'" and ok: "cache_ok st"
  shows "cache_ok st'"
proof (cases "rg_n st = 0")
  case True
  with run have "rg_kept st st'" by (auto simp: rg_cmd9_def rg_redirect_def rg_kept_def)
  with ok show ?thesis by (auto intro: cache_ok_kept)
next
  case False
  let ?s = "emit (Say ''We will call the SciPy library'') st"
  from False run obtain s1 where
    pre: "(if \<not> data_crunched st then crunch_data ?s else Inr ?s) = Inr s1"
    and fin: "rg_prompt
            (emit (Say ''SciPy says: ...'')
            (emit (Report ''Our function calculated slope, intercept, R, SE''
                     [slope (g s1), intercept (g s1), rg_R (g s1), SE (g s1)]) s1)) = Inr st'"
    unfolding rg_cmd9_def by (auto elim!: bnd_InrE)
  have "cache_ok s1"
  proof (cases "data_crunched st")
    case True
    with pre have "rg_kept st s1" by auto
    with ok show ?thesis by (auto intro: cache_ok_kept)
  next
    case nc: False
    with pre have "crunch_data ?s = Inr s1" by simp
    from crunch_data_ok[OF this] False show ?thesis by simp
  qed
  moreover from rg_prompt_kept[OF fin] have "rg_kept s1 st'" by simp
  ultimately show ?thesis by (auto intro: cache_ok_kept)
qed

lemma body_keeps_cache_ok:
  assumes ok: "cache_ok st" and run: "regression_body lib st = Inr st'"
  shows "cache_ok st'"
proof -
  consider "rg_code st = 1" | "rg_code st = 2" | "rg_code st = 3" | "rg_code st = 4" | "rg_code st = 5"
    | "rg_code st = 6" | "rg_code st = 7" | "rg_code st = 8" | "rg_code st = 9"
    | "rg_code st \<notin> {1, 2, 3, 4, 5, 6, 7, 8, 9}" by auto
  then show ?thesis
  proof cases
    case 1
    with run have "rg_cmd1 lib st = Inr st'" by (simp add: regression_body_def)
    from rg_cmd1_flag[OF this] show ?thesis by (rule cache_ok_off)
  next
    case 2
    with run have "rg_cmd2 lib st = Inr st'" by (simp add: regression_body_def)
    from rg_cmd2_kept[OF this] ok show ?thesis by (auto intro: cache_ok_kept)
  next
    case 3
    with run have "rg_cmd3 st = Inr st'" by (simp add: regression_body_def)
    from rg_cmd3_inv[OF this] ok show ?thesis by (auto simp: cache_ok_iff)
  next
    case 4
    with run have "rg_cmd4 st = Inr st'" by (simp add: regression_body_def)
    from rg_cmd4_ok[OF this ok] show ?thesis .
  next
    case 5
    with run have "rg_cmd5 st = Inr st'" by (simp add: regression_body_def)
    from rg_cmd5_ok[OF this ok] show ?thesis .
  next
    case 6
    with run have "rg_cmd6 st = Inr st'" by (simp add: regression_body_def)
    from rg_cmd6_ok[OF this ok] show ?thesis .
  next
    case 7
    with run have "rg_cmd7 st = Inr st'" by (simp add: regression_body_def)
    from rg_cmd7_ok[OF this ok] show ?thesis .
  next
    case 8
    with run have "rg_cmd8 st = Inr st'" by (simp add: regression_body_def)
    from rg_cmd8_ok[OF this ok] show ?thesis .
  next
    case 9
    with run have "rg_cmd9 st = Inr st'" by (simp add: regression_body_def)
    from rg_cmd9_ok[OF this ok] show ?thesis .
  next
    case 10
    with run have "rg_kept st st'"
      by (auto simp: regression_body_def Let_def rg_kept_def split: if_splits
          elim!: ask_InrE dest!: rg_prompt_kept)
    with ok show ?thesis by (auto intro: cache_ok_kept)
  qed
qed

lemma first_pass_start:
  assumes "totalx a = totalx b" "totaly a = totaly b" "totalxy a = totalxy b"
    "totalx2 a = totalx2 b" "totaly2 a = totaly2 b"
  shows "first_pass xs ys ks a
     = map_sum id (\<lambda>s1. a\<lparr>totalx := totalx s1, totaly := totaly s1, totalxy := totalxy s1,
                          totalx2 := totalx2 s1, totaly2 := totaly2 s1\<rparr>) (first_pass xs ys ks b)"
proof -
  have A: "a = a\<lparr>totalx := totalx b, totaly := totaly b, totalxy := totalxy b,
                      totalx2 := totalx2 b, totaly2 := totaly2 b\<rparr>"
    using assms by simp
  show ?thesis by (subst A) (rule first_pass_upd)
qed

lemma crunch_reads:
  assumes "crunch xs ys m s0 = Inr s"
  shows "\<exists>s1. first_pass xs ys (py_range m) s0 = Inr s1 \<and> formula1 m s1 = Inr (rg_R s)
           \<and> line_intercept m s1 = Inr (intercept s) \<and> line_slope m s1 = Inr (slope s)"
  using assms unfolding crunch_def Let_def
  apply (elim bnd_InrE)
  apply (drule second_pass_sel)
  apply (auto simp: formula1_def line_intercept_def line_slope_def)
  done

lemma rg_cmd4_reads:
  assumes ok: "cache_ok st" and nz: "rg_n st \<noteq> 0" and run: "rg_cmd4 st = Inr st'"
  shows "from_points st = Inr (g st') \<and>
     (if data_crunched st
      then reports_of ''For the current data the R value is'' (out st')
             = reports_of ''For the current data the R value is'' (out st) @ [[rg_R (g st')]]
      else reports_of ''The first formula gives an R value of'' (out st')
             = reports_of ''The first formula gives an R value of'' (out st) @ [[rg_R (g st')]]
         \<and> reports_of ''The internal function gives an R value of'' (out st')
             = reports_of ''The internal function gives an R value of'' (out st) @ [[rg_R (g st')]])"
proof (cases "data_crunched st")
  case True
  with run have "rg_prompt (emit (Report ''For the current data the R value is'' [rg_R (g st)]) st) = Inr st'"
    by (simp add: rg_cmd4_def)
  from rg_prompt_kept[OF this] True cached_is_fresh[OF ok True] show ?thesis
    by (simp add: rg_kept_def)
next
  case False
  let ?ks = "py_range (rg_n st)"
  from False nz run obtain s1 R st2 where
    fp: "first_pass (xlist st) (ylist st) ?ks (clear_sums (g st)) = Inr s1"
    and f1: "formula1 (rg_n st) s1 = Inr R"
    and cr: "crunch_data (emit (Report ''The first formula gives an R value of'' [R])
                            (st\<lparr>g := s1\<lparr>rg_R := R\<rparr>\<rparr>)) = Inr st2"
    and fin: "rg_prompt (emit (Report ''The internal function gives an R value of'' [rg_R (g st2)]) st2) = Inr st'"
    unfolding rg_cmd4_def by (auto elim!: bnd_InrE)
  let ?s0 = "emit (Report ''The first formula gives an R value of'' [R]) (st\<lparr>g := s1\<lparr>rg_R := R\<rparr>\<rparr>)"
  from crunch_data_ok[OF cr] nz have fr: "from_points ?s0 = Inr (g st2)" by simp
  then have fr': "from_points st = Inr (g st2)" by (simp add: from_points_def)
  from cr nz have "crunch (xlist st) (ylist st) (rg_n st) (crunch_clear (s1\<lparr>rg_R := R\<rparr>)) = Inr (g st2)"
    and out2: "out st2 = out st @ [Report ''The first formula gives an R value of'' [R]]"
    by (auto simp: crunch_data_def elim!: bnd_InrE)
  from crunch_reads[OF this(1)] obtain s1' where
    fp': "first_pass (xlist st) (ylist st) ?ks (crunch_clear (s1\<lparr>rg_R := R\<rparr>)) = Inr s1'"
    and f1': "formula1 (rg_n st) s1' = Inr (rg_R (g st2))" by blast
  have "first_pass (xlist st) (ylist st) ?ks (crunch_clear (s1\<lparr>rg_R := R\<rparr>))
     = map_sum id (\<lambda>s. (crunch_clear (s1\<lparr>rg_R := R\<rparr>))\<lparr>totalx := totalx s, totaly := totaly s,
           totalxy := totalxy s, totalx2 := totalx2 s, totaly2 := totaly2 s\<rparr>)
        (first_pass (xlist st) (ylist st) ?ks (clear_sums (g st)))"
    by (rule first_pass_start) (simp_all add: crunch_clear_def clear_sums_def)
  with fp fp' have "s1' = (crunch_clear (s1\<lparr>rg_R := R\<rparr>))\<lparr>totalx := totalx s1, totaly := totaly s1,
           totalxy := totalxy s1, totalx2 := totalx2 s1, totaly2 := totaly2 s1\<rparr>" by simp
  then have "formula1 (rg_n st) s1' = formula1 (rg_n st) s1" by (simp add: formula1_def)
  with f1 f1' have R: "R = rg_R (g st2)" by simp
  from rg_prompt_kept[OF fin] fr' out2 R False show ?thesis by (simp add: rg_kept_def)
qed

lemma rg_cmd6_reads:
  assumes ok: "cache_ok st" and nz: "rg_n st \<noteq> 0" and run: "rg_cmd6 st = Inr st'"
  shows "\<exists>s1 b m. first_pass (xlist st) (ylist st) (py_range (rg_n st)) stats0 = Inr s1
     \<and> line_intercept (rg_n st) s1 = Inr b \<and> line_slope (rg_n st) s1 = Inr m
     \<and> reports_of ''The best least-squares line has the intercept and slope'' (out st')
         = reports_of ''The best least-squares line has the intercept and slope'' (out st) @ [[b, m]]"
proof -
  let ?ks = "py_range (rg_n st)"
  let ?L = "''The best least-squares line has the intercept and slope''"
  have "\<exists>s0 s1. totalx s0 = 0 \<and> totaly s0 = 0 \<and> totalxy s0 = 0 \<and> totalx2 s0 = 0 \<and> totaly2 s0 = 0
      \<and> first_pass (xlist st) (ylist st) ?ks s0 = Inr s1
      \<and> (\<exists>b m. line_intercept (rg_n st) s1 = Inr b \<and> line_slope (rg_n st) s1 = Inr m
          \<and> reports_of ?L (out st') = reports_of ?L (out st) @ [[b, m]])"
  proof (cases "data_crunched st")
    case True
    from ok True have cr: "crunch (xlist st) (ylist st) (rg_n st) (crunch_clear (g st)) = Inr (g st)"
      by (simp add: cache_ok_iff)
    from crunch_reads[OF cr] obtain s1 where
      "first_pass (xlist st) (ylist st) ?ks (crunch_clear (g st)) = Inr s1"
      "line_intercept (rg_n st) s1 = Inr (intercept (g st))" "line_slope (rg_n st) s1 = Inr (slope (g st))"
      by blast
    moreover from run True nz have "reports_of ?L (out st') = reports_of ?L (out st) @ [[intercept (g st), slope (g st)]]"
      by (auto simp: rg_cmd6_def Let_def dest!: rg_prompt_kept split: if_splits)
    ultimately show ?thesis
      by (intro exI[of _ "crunch_clear (g st)"] exI[of _ s1]) (simp add: crunch_clear_def clear_sums_def)
  next
    case False
    with run nz obtain s1 b m where
      "first_pass (xlist st) (ylist st) ?ks (clear_sums (g st)) = Inr s1"
      "line_intercept (rg_n st) s1 = Inr b" "line_slope (rg_n st) s1 = Inr m"
      "reports_of ?L (out st') = reports_of ?L (out st) @ [[b, m]]"
      by (auto simp: rg_cmd6_def Let_def dest!: rg_prompt_kept split: if_splits elim!: bnd_InrE)
    then show ?thesis
      by (intro exI[of _ "clear_sums (g st)"] exI[of _ s1]) (simp add: clear_sums_def)
  qed
  then obtain s0 s1 b m where z: "totalx s0 = 0" "totaly s0 = 0" "totalxy s0 = 0" "totalx2 s0 = 0" "totaly2 s0 = 0"
    and fp: "first_pass (xlist st) (ylist st) ?ks s0 = Inr s1"
    and l: "line_intercept (rg_n st) s1 = Inr b" "line_slope (rg_n st) s1 = Inr m"
    and r: "reports_of ?L (out st') = reports_of ?L (out st) @ [[b, m]]" by blast
  let ?s = "stats0\<lparr>totalx := totalx s1, totaly := totaly s1,
           totalxy := totalxy s1, totalx2 := totalx2 s1, totaly2 := totaly2 s1\<rparr>"
  have "first_pass (xlist st) (ylist st) ?ks stats0
     = map_sum id (\<lambda>s. stats0\<lparr>totalx := totalx s, totaly := totaly s,
           totalxy := totalxy s, totalx2 := totalx2 s, totaly2 := totaly2 s\<rparr>)
        (first_pass (xlist st) (ylist st) ?ks s0)"
    by (rule first_pass_start) (simp_all add: z stats0_def)
  with fp have "first_pass (xlist st) (ylist st) ?ks stats0 = Inr ?s" by simp
  moreover from l have "line_intercept (rg_n st) ?s = Inr b" "line_slope (rg_n st) ?s = Inr m"
    by (simp_all add: line_intercept_def line_slope_def)
  ultimately show ?thesis using r by blast
qed

lemma start_cache_ok: "regression_start lines fs = Inr st \<Longrightarrow> cache_ok st"
  by (auto simp: regression_start_def cache_ok_def elim!: ask_InrE)


lemma crunch_data_io:
  "crunch_data st = Inr st' \<Longrightarrow> rg_n st \<noteq> 0 \<Longrightarrow> out st' = out st \<and> inp st' = inp st"
  by (auto simp: crunch_data_def elim!: bnd_InrE)

lemma sqrt_InrD: "py_sqrt a = Inr v \<Longrightarrow> v = sqrt a"
  by (simp add: py_sqrt_def split: if_splits)

lemma div_InrD: "py_div a b = Inr v \<Longrightarrow> v = a / b"
  by (simp add: py_div_def split: if_splits)

lemma log_InrD: "py_log a = Inr v \<Longrightarrow> v = ln a"
  by (simp add: py_log_def split: if_splits)

lemma dump_stats_out:
  assumes "dump_stats st = Inr st'"
  shows "g st' = g st \<and> rg_n st' = rg_n st \<and> xlist st' = xlist st \<and> ylist st' = ylist st
    \<and> (\<exists>evs. out st' = out st @ evs
        \<and> reports_of ''We have a total of points'' evs = [[of_int (rg_n st)]]
        \<and> reports_of ''The coefficient of linear correlation, R is'' evs = [[rg_R (g st)]]
        \<and> reports_of ''The best fitting line has intercept and slope'' evs
            = [[intercept (g st), slope (g st)]]
        \<and> reports_of ''The t value and degrees of freedom'' evs
            = [[student_t (g st), of_int (rg_n st - 2)]]
        \<and> reports_of ''The standard error of estimation SE is'' evs = [[SE (g st)]]
        \<and> reports_of ''the alternate formula gives an SE of'' evs
            = [[sqrt (var_unexplained (g st) / of_int (rg_n st))]]
        \<and> reports_of ''The modified SE is'' evs
            = [[SE (g st) * sqrt (of_int (rg_n st) / of_int (rg_n st - 2))]]
        \<and> reports_of ''meanX, sx, meanY, sy'' evs
            = [[meanx (g st), sx (g st), meany (g st), sy (g st)]]
        \<and> reports_of ''The coefficient of covariance, Sxy'' evs = [[sxy (g st)]]
        \<and> reports_of ''total, unexplained, explained variation'' evs
            = [[var_total (g st), var_unexplained (g st), var_explained (g st)]]
        \<and> reports_of ''Fishers Z statistic'' evs
            = [[0.5 * ln ((1 + rg_R (g st)) / (1 - rg_R (g st)))]])"
  using assms unfolding dump_stats_def Let_def
  apply (elim bnd_InrE)
  apply (drule sqrt_InrD div_InrD log_InrD)+
  apply (auto simp: emit_def)
  done

lemma fresh_state:
  assumes ok: "cache_ok st" and nz: "rg_n st \<noteq> 0"
    and pre: "(if \<not> data_crunched st then crunch_data st else Inr st) = Inr s1"
  shows "from_points st = Inr (g s1) \<and> out s1 = out st \<and> inp s1 = inp st \<and> rg_n s1 = rg_n st
     \<and> xlist s1 = xlist st \<and> ylist s1 = ylist st"
proof (cases "data_crunched st")
  case True
  with pre cached_is_fresh[OF ok True] show ?thesis by simp
next
  case False
  with pre have "crunch_data st = Inr s1" by simp
  from crunch_data_ok[OF this nz] crunch_data_io[OF this nz] show ?thesis by simp
qed

lemma from_points_cong:
  "xlist s = xlist st \<Longrightarrow> ylist s = ylist st \<Longrightarrow> rg_n s = rg_n st \<Longrightarrow> from_points s = from_points st"
  by (simp add: from_points_def)

lemma rg_cmd9_reads:
  assumes ok: "cache_ok st" and nz: "rg_n st \<noteq> 0" and run: "rg_cmd9 st = Inr st'"
  shows "from_points st = Inr (g st')
     \<and> reports_of ''Our function calculated slope, intercept, R, SE'' (out st')
         = reports_of ''Our function calculated slope, intercept, R, SE'' (out st)
           @ [[slope (g st'), intercept (g st'), rg_R (g st'), SE (g st')]]"
proof -
  let ?s = "emit (Say ''We will call the SciPy library'') st"
  from nz run obtain s1 where
    pre: "(if \<not> data_crunched ?s then crunch_data ?s else Inr ?s) = Inr s1"
    and fin: "rg_prompt
            (emit (Say ''SciPy says: ...'')
            (emit (Report ''Our function calculated slope, intercept, R, SE''
                     [slope (g s1), intercept (g s1), rg_R (g s1), SE (g s1)]) s1)) = Inr st'"
    unfolding rg_cmd9_def by (auto elim!: bnd_InrE)
  have "cache_ok ?s" using ok cache_ok_kept[of st ?s] by simp
  from fresh_state[OF this _ pre] nz
  have "from_points ?s = Inr (g s1)" "out s1 = out ?s" by simp_all
  moreover have "from_points ?s = from_points st" by (rule from_points_cong) simp_all
  moreover from rg_prompt_kept[OF fin] have "g st' = g s1"
    "out st' = out s1 @ [Report ''Our function calculated slope, intercept, R, SE''
                     [slope (g s1), intercept (g s1), rg_R (g s1), SE (g s1)], Say ''SciPy says: ...'']"
    by (simp_all add: rg_kept_def emit_def)
  ultimately show ?thesis by (simp add: emit_def)
qed

lemma reverse_line_reports:
  assumes "reverse_line st = Inr (t, st')"
    and "l \<notin> {''The denominator is 0, can not compute values'',
               ''The best fitting X on Y line has intercept and slope'',
               ''X_hat = ri + rs*Y'', ''X_hat = ri - abs(rs)*Y'', ''The reverse SE''}"
  shows "reports_of l (out st') = reports_of l (out st) \<and> g st' = g st"
  using assms unfolding reverse_line_def Let_def
  by (auto simp: emit_def split: if_splits elim!: bnd_InrE)

lemma rg_cmd7_tail:
  assumes run: "(bnd (dump_stats s1) (\<lambda>st1.
         bnd (reverse_line st1) (\<lambda>(tot_xdev2, st2).
           ask (get_user_yes_or_no_input (Some ''N'')) (\<lambda>answer s3.
             rg_prompt
               (if answer = ''Y'' then
                  emit (Plot (xlist s3) (ylist s3)
                    ((xlist s3, map (\<lambda>x. slope (g s3) * x + intercept (g s3)) (xlist s3)) #
                     (if tot_xdev2 \<noteq> 0
                      then [(map (\<lambda>y. rev_slope (rg_n s3) (g s3) * y + rev_intercept (rg_n s3) (g s3)) (ylist s3),
                             ylist s3)]
                      else [])))
                  (emit (Say ''The usual regression line is red, the reverse line green'') s3)
                else s3)) st2))) = Inr st'"
  shows "\<exists>st1. dump_stats s1 = Inr st1 \<and> g st' = g s1
     \<and> (\<forall>l. l \<notin> {''The denominator is 0, can not compute values'',
               ''The best fitting X on Y line has intercept and slope'',
               ''X_hat = ri + rs*Y'', ''X_hat = ri - abs(rs)*Y'', ''The reverse SE''}
          \<longrightarrow> reports_of l (out st') = reports_of l (out st1))"
proof -
  from run obtain st1 t st2 answer ls where d: "dump_stats s1 = Inr st1"
    and r: "reverse_line st1 = Inr (t, st2)"
    and fin: "rg_prompt
               (if answer = ''Y'' then
                  emit (Plot (xlist (st2\<lparr>inp := ls\<rparr>)) (ylist (st2\<lparr>inp := ls\<rparr>))
                    ((xlist (st2\<lparr>inp := ls\<rparr>), map (\<lambda>x. slope (g (st2\<lparr>inp := ls\<rparr>)) * x + intercept (g (st2\<lparr>inp := ls\<rparr>))) (xlist (st2\<lparr>inp := ls\<rparr>))) #
                     (if t \<noteq> 0
                      then [(map (\<lambda>y. rev_slope (rg_n (st2\<lparr>inp := ls\<rparr>)) (g (st2\<lparr>inp := ls\<rparr>)) * y + rev_intercept (rg_n (st2\<lparr>inp := ls\<rparr>)) (g (st2\<lparr>inp := ls\<rparr>))) (ylist (st2\<lparr>inp := ls\<rparr>)),
                             ylist (st2\<lparr>inp := ls\<rparr>))]
                      else [])))
                  (emit (Say ''The usual regression line is red, the reverse line green'') (st2\<lparr>inp := ls\<rparr>))
                else st2\<lparr>inp := ls\<rparr>) = Inr st'"
    by (auto elim!: bnd_InrE ask_InrE)
  from rg_prompt_kept[OF fin] have "\<And>l. reports_of l (out st') = reports_of l (out st2)" "g st' = g st2"
    by (auto simp: rg_kept_def emit_def split: if_splits)
  with reverse_line_reports[OF r] dump_stats_out[OF d] d show ?thesis by auto
qed

lemma rg_cmd7_reads:
  assumes ok: "cache_ok st" and nz: "rg_n st \<noteq> 0" and run: "rg_cmd7 st = Inr st'"
  shows "from_points st = Inr (g st')
    \<and> reports_of ''We have a total of points'' (out st')
        = reports_of ''We have a total of points'' (out st) @ [[of_int (rg_n st)]]
    \<and> reports_of ''The coefficient of linear correlation, R is'' (out st')
        = reports_of ''The coefficient of linear correlation, R is'' (out st) @ [[rg_R (g st')]]
    \<and> reports_of ''The best fitting line has intercept and slope'' (out st')
        = reports_of ''The best fitting line has intercept and slope'' (out st)
          @ [[intercept (g st'), slope (g st')]]
    \<and> reports_of ''The t value and degrees of freedom'' (out st')
        = reports_of ''The t value and degrees of freedom'' (out st)
          @ [[student_t (g st'), of_int (rg_n st - 2)]]
    \<and> reports_of ''The standard error of estimation SE is'' (out st')
        = reports_of ''The standard error of estimation SE is'' (out st) @ [[SE (g st')]]
    \<and> reports_of ''the alternate formula gives an SE of'' (out st')
        = reports_of ''the alternate formula gives an SE of'' (out st)
          @ [[sqrt (var_unexplained (g st') / of_int (rg_n st))]]
    \<and> reports_of ''The modified SE is'' (out st')
        = reports_of ''The modified SE is'' (out st)
          @ [[SE (g st') * sqrt (of_int (rg_n st) / of_int (rg_n st - 2))]]
    \<and> reports_of ''meanX, sx, meanY, sy'' (out st')
        = reports_of ''meanX, sx, meanY, sy'' (out st)
          @ [[meanx (g st'), sx (g st'), meany (g st'), sy (g st')]]
    \<and> reports_of ''The coefficient of covariance, Sxy'' (out st')
        = reports_of ''The coefficient of covariance, Sxy'' (out st) @ [[sxy (g st')]]
    \<and> reports_of ''total, unexplained, explained variation'' (out st')
        = reports_of ''total, unexplained, explained variation'' (out st)
          @ [[var_total (g st'), var_unexplained (g st'), var_explained (g st')]]
    \<and> reports_of ''Fishers Z statistic'' (out st')
        = reports_of ''Fishers Z statistic'' (out st)
          @ [[0.5 * ln ((1 + rg_R (g st')) / (1 - rg_R (g st')))]]"
proof -
  from run nz obtain s1 where pre: "(if \<not> data_crunched st then crunch_data st else Inr st) = Inr s1"
    and rest: "(if rg_n s1 = 0 then rg_redirect s1
       else
         bnd (dump_stats s1) (\<lambda>st1.
         bnd (reverse_line st1) (\<lambda>(tot_xdev2, st2).
           ask (get_user_yes_or_no_input (Some ''N'')) (\<lambda>answer s3.
             rg_prompt
               (if answer = ''Y'' then
                  emit (Plot (xlist s3) (ylist s3)
                    ((xlist s3, map (\<lambda>x. slope (g s3) * x + intercept (g s3)) (xlist s3)) #
                     (if tot_xdev2 \<noteq> 0
                      then [(map (\<lambda>y. rev_slope (rg_n s3) (g s3) * y + rev_intercept (rg_n s3) (g s3)) (ylist s3),
                             ylist s3)]
                      else [])))
                  (emit (Say ''The usual regression line is red, the reverse line green'') s3)
                else s3)) st2))) = Inr st'"
    unfolding rg_cmd7_def by (auto elim!: bnd_InrE)
  from fresh_state[OF ok nz pre] have s1: "from_points st = Inr (g s1)" "out s1 = out st" "rg_n s1 = rg_n st"
    by simp_all
  with rest nz rg_cmd7_tail[of s1 st'] obtain st1 where d: "dump_stats s1 = Inr st1" and gg: "g st' = g s1"
    and keep: "\<forall>l. l \<notin> {''The denominator is 0, can not compute values'',
               ''The best fitting X on Y line has intercept and slope'',
               ''X_hat = ri + rs*Y'', ''X_hat = ri - abs(rs)*Y'', ''The reverse SE''}
          \<longrightarrow> reports_of l (out st') = reports_of l (out st1)"
    by auto
  from dump_stats_out[OF d] obtain evs where "out st1 = out s1 @ evs"
        "reports_of ''We have a total of points'' evs = [[of_int (rg_n s1)]]"
        "reports_of ''The coefficient of linear correlation, R is'' evs = [[rg_R (g s1)]]"
        "reports_of ''The best fitting line has intercept and slope'' evs
            = [[intercept (g s1), slope (g s1)]]"
        "reports_of ''The t value and degrees of freedom'' evs
            = [[student_t (g s1), of_int (rg_n s1 - 2)]]"
        "reports_of ''The standard error of estimation SE is'' evs = [[SE (g s1)]]"
        "reports_of ''the alternate formula gives an SE of'' evs
            = [[sqrt (var_unexplained (g s1) / of_int (rg_n s1))]]"
        "reports_of ''The modified SE is'' evs
            = [[SE (g s1) * sqrt (of_int (rg_n s1) / of_int (rg_n s1 - 2))]]"
        "reports_of ''meanX, sx, meanY, sy'' evs
            = [[meanx (g s1), sx (g s1), meany (g s1), sy (g s1)]]"
        "reports_of ''The coefficient of covariance, Sxy'' evs = [[sxy (g s1)]]"
        "reports_of ''total, unexplained, explained variation'' evs
            = [[var_total (g s1), var_unexplained (g s1), var_explained (g s1)]]"
        "reports_of ''Fishers Z statistic'' evs
            = [[0.5 * ln ((1 + rg_R (g s1)) / (1 - rg_R (g s1)))]]"
    by blast
  with s1 gg keep show ?thesis by simp
qed

lemma residual_loop_more:
  "residual_loop f b m u a s = Inr s' \<Longrightarrow> g s' = g s \<and> (\<exists>evs. out s' = out s @ evs)"
proof (induction f arbitrary: a s)
  case 0
  then show ?case by (simp split: if_splits)
next
  case (Suc f)
  from Suc.prems show ?case
    by (auto simp: Let_def emit_def split: if_splits elim!: bnd_InrE ask_InrE dest!: Suc.IH)
qed

lemma rg_cmd8_reads:
  assumes ok: "cache_ok st" and nz: "rg_n st \<noteq> 0"
    and yn: "get_user_yes_or_no_input (Some ''Y'') (inp st) = Inr (''Y'', l1)"
    and fy: "get_user_float_input None None None l1 = Inr (y, l2)"
    and fx: "get_user_float_input None None None l2 = Inr (x, l3)"
    and run: "rg_cmd8 st = Inr st'"
  shows "from_points st = Inr (g st')
    \<and> (\<exists>more. reports_of ''The predicted y-hat and the residual'' (out st')
          = reports_of ''The predicted y-hat and the residual'' (out st)
            @ [intercept (g st') + slope (g st') * x, intercept (g st') + slope (g st') * x - y] # more)
    \<and> (\<exists>more. reports_of ''standard errors away from the predicted y-hat'' (out st')
          = reports_of ''standard errors away from the predicted y-hat'' (out st)
            @ [\<bar>y - (intercept (g st') + slope (g st') * x)\<bar> / SE (g st')] # more)"
proof -
  let ?s = "st\<lparr>inp := l1\<rparr>"
  from run nz yn obtain s1 s3 where
    pre: "(if \<not> data_crunched ?s then crunch_data ?s else Inr ?s) = Inr s1"
    and loop: "residual_loop (length (inp s1)) (intercept (g s1)) (slope (g s1)) True ''Y'' s1 = Inr s3"
    and fin: "rg_prompt s3 = Inr st'"
    unfolding rg_cmd8_def by (auto simp: ask_def elim!: bnd_InrE)
  have "cache_ok ?s" using ok cache_ok_kept[of st ?s] by simp
  from fresh_state[OF this _ pre] nz
  have s1: "from_points ?s = Inr (g s1)" "out s1 = out st" "inp s1 = l1" by simp_all
  have fp: "from_points ?s = from_points st" by (rule from_points_cong) simp_all
  from fy obtain f where f: "length l1 = Suc f" by (cases l1) auto
  let ?b = "intercept (g s1)" and ?m = "slope (g s1)"
  let ?yhat = "?b + ?m * x"
  from loop s1(3) f have "residual_loop (Suc f) ?b ?m True ''Y'' s1 = Inr s3" by simp
  with fy fx s1(3) have "\<exists>a s2 d. residual_loop f ?b ?m True a s2 = Inr s3
      \<and> py_div \<bar>y - ?yhat\<bar> (SE (g s1)) = Inr d
      \<and> out s2 = out s1 @ [Report ''The predicted y-hat and the residual'' [?yhat, ?yhat - y],
                            Report ''standard errors away from the predicted y-hat'' [d]]
      \<and> g s2 = g s1"
    apply (auto simp: ask_def Let_def emit_def elim!: bnd_InrE split: sum.splits)
    apply (rule exI, rule exI, rule conjI, assumption, simp)
    done
  then obtain d s2 a where
    d: "py_div \<bar>y - ?yhat\<bar> (SE (g s1)) = Inr d"
    and s2: "out s2 = out s1 @ [Report ''The predicted y-hat and the residual'' [?yhat, ?yhat - y],
                            Report ''standard errors away from the predicted y-hat'' [d]]"
       "g s2 = g s1"
    and rest: "residual_loop f ?b ?m True a s2 = Inr s3"
    by blast
  from residual_loop_more[OF rest] obtain evs where s3: "g s3 = g s2" "out s3 = out s2 @ evs" by blast
  from rg_prompt_kept[OF fin] have st': "g st' = g s3" "out st' = out s3" by (simp_all add: rg_kept_def)
  from div_InrD[OF d] s1 fp s2 s3 st' show ?thesis by simp
qed

text \<open>
  C8. In the regression helper the cached statistics are never stale. Call a session
  \<open>cache_ok\<close> when, if \<^verbatim>\<open>data_crunched\<close> is set, running \<^verbatim>\<open>crunch_data\<close> again would
  change nothing. The helper starts \<open>cache_ok\<close> and every command keeps it so, whatever
  is typed; with the flag set the statistics are exactly those that \<^verbatim>\<open>crunch_data\<close>
  computes from the current points in a fresh process (\<open>from_points\<close>). A correction
  (code 3) that changes a point, and code 1, leave the flag cleared. Every reader that
  returns prints the statistics of the current points, with or without a cache: code 4
  prints the R of \<open>from_points\<close>; code 6 the intercept and the slope that the sums over
  the current points give; code 7 prints the number of points and, from \<open>from_points\<close>,
  R, the line, t, SE and its two variants, the means and standard deviations, the
  covariance, the three variations and Fisher's Z; code 8, when the user takes the
  calculated line, predicts with the intercept and the slope of \<open>from_points\<close> and divides
  by its SE; code 9 prints the slope, the intercept, R and SE of \<open>from_points\<close>. After
  each of the codes 4, 7, 8 (with the calculated line) and 9 the session holds the
  statistics of \<open>from_points\<close>.
\<close>

theorem cached_statistics_follow_points:
  "(regression_start lines fs = Inr st \<longrightarrow> cache_ok st)
   \<and> (cache_ok st \<longrightarrow>
        (case regression_body lib st of Inr st' \<Rightarrow> cache_ok st' | Inl e \<Rightarrow> True))
   \<and> (cache_ok st \<and> data_crunched st \<longrightarrow> rg_n st \<noteq> 0 \<and> from_points st = Inr (g st))
   \<and> (rg_code st = 3 \<longrightarrow>
        (case regression_body lib st of
           Inr st' \<Rightarrow> xlist st' \<noteq> xlist st \<or> ylist st' \<noteq> ylist st \<longrightarrow> \<not> data_crunched st'
         | Inl e \<Rightarrow> True))
   \<and> (rg_code st = 1 \<longrightarrow>
        (case regression_body lib st of Inr st' \<Rightarrow> \<not> data_crunched st' | Inl e \<Rightarrow> True))
   \<and> (cache_ok st \<and> rg_code st = 4 \<and> rg_n st \<noteq> 0 \<longrightarrow>
        (case regression_body lib st of
           Inr st' \<Rightarrow>
             from_points st = Inr (g st') \<and>
             (if data_crunched st
              then reports_of ''For the current data the R value is'' (out st')
                     = reports_of ''For the current data the R value is'' (out st) @ [[rg_R (g st')]]
              else reports_of ''The first formula gives an R value of'' (out st')
                     = reports_of ''The first formula gives an R value of'' (out st) @ [[rg_R (g st')]]
                 \<and> reports_of ''The internal function gives an R value of'' (out st')
                     = reports_of ''The internal function gives an R value of'' (out st) @ [[rg_R (g st')]])
         | Inl e \<Rightarrow> True))
   \<and> (cache_ok st \<and> rg_code st = 6 \<and> rg_n st \<noteq> 0 \<longrightarrow>
        (case regression_body lib st of
           Inr st' \<Rightarrow>
             (\<exists>s1 b m. first_pass (xlist st) (ylist st) (py_range (rg_n st)) stats0 = Inr s1
                \<and> line_intercept (rg_n st) s1 = Inr b \<and> line_slope (rg_n st) s1 = Inr m
                \<and> reports_of ''The best least-squares line has the intercept and slope'' (out st')
                    = reports_of ''The best least-squares line has the intercept and slope'' (out st)
                      @ [[b, m]])
         | Inl e \<Rightarrow> True))
   \<and> (cache_ok st \<and> rg_code st = 7 \<and> rg_n st \<noteq> 0 \<longrightarrow>
        (case regression_body lib st of
           Inr st' \<Rightarrow>
             from_points st = Inr (g st')
             \<and> reports_of ''We have a total of points'' (out st')
                 = reports_of ''We have a total of points'' (out st) @ [[of_int (rg_n st)]]
             \<and> reports_of ''The coefficient of linear correlation, R is'' (out st')
                 = reports_of ''The coefficient of linear correlation, R is'' (out st) @ [[rg_R (g st')]]
             \<and> reports_of ''The best fitting line has intercept and slope'' (out st')
                 = reports_of ''The best fitting line has intercept and slope'' (out st)
                   @ [[intercept (g st'), slope (g st')]]
             \<and> reports_of ''The t value and degrees of freedom'' (out st')
                 = reports_of ''The t value and degrees of freedom'' (out st)
                   @ [[student_t (g st'), of_int (rg_n st - 2)]]
             \<and> reports_of ''The standard error of estimation SE is'' (out st')
                 = reports_of ''The standard error of estimation SE is'' (out st) @ [[SE (g st')]]
             \<and> reports_of ''the alternate formula gives an SE of'' (out st')
                 = reports_of ''the alternate formula gives an SE of'' (out st)
                   @ [[sqrt (var_unexplained (g st') / of_int (rg_n st))]]
             \<and> reports_of ''The modified SE is'' (out st')
                 = reports_of ''The modified SE is'' (out st)
                   @ [[SE (g st') * sqrt (of_int (rg_n st) / of_int (rg_n st - 2))]]
             \<and> reports_of ''meanX, sx, meanY, sy'' (out st')
                 = reports_of ''meanX, sx, meanY, sy'' (out st)
                   @ [[meanx (g st'), sx (g st'), meany (g st'), sy (g st')]]
             \<and> reports_of ''The coefficient of covariance, Sxy'' (out st')
                 = reports_of ''The coefficient of covariance, Sxy'' (out st) @ [[sxy (g st')]]
             \<and> reports_of ''total, unexplained, explained variation'' (out st')
                 = reports_of ''total, unexplained, explained variation'' (out st)
                   @ [[var_total (g st'), var_unexplained (g st'), var_explained (g st')]]
             \<and> reports_of ''Fishers Z statistic'' (out st')
                 = reports_of ''Fishers Z statistic'' (out st)
                   @ [[0.5 * ln ((1 + rg_R (g st')) / (1 - rg_R (g st')))]]
         | Inl e \<Rightarrow> True))
   \<and> (cache_ok st \<and> rg_code st = 8 \<and> rg_n st \<noteq> 0
        \<and> get_user_yes_or_no_input (Some ''Y'') (inp st) = Inr (''Y'', l1)
        \<and> get_user_float_input None None None l1 = Inr (y, l2)
        \<and> get_user_float_input None None None l2 = Inr (x, l3) \<longrightarrow>
        (case regression_body lib st of
           Inr st' \<Rightarrow>
             from_points st = Inr (g st')
             \<and> (\<exists>more. reports_of ''The predicted y-hat and the residual'' (out st')
                   = reports_of ''The predicted y-hat and the residual'' (out st)
                     @ [intercept (g st') + slope (g st') * x,
                        intercept (g st') + slope (g st') * x - y] # more)
             \<and> (\<exists>more. reports_of ''standard errors away from the predicted y-hat'' (out st')
                   = reports_of ''standard errors away from the predicted y-hat'' (out st)
                     @ [\<bar>y - (intercept (g st') + slope (g st') * x)\<bar> / SE (g st')] # more)
         | Inl e \<Rightarrow> True))
   \<and> (cache_ok st \<and> rg_code st = 9 \<and> rg_n st \<noteq> 0 \<longrightarrow>
        (case regression_body lib st of
           Inr st' \<Rightarrow>
             from_points st = Inr (g st')
             \<and> reports_of ''Our function calculated slope, intercept, R, SE'' (out st')
                 = reports_of ''Our function calculated slope, intercept, R, SE'' (out st)
                   @ [[slope (g st'), intercept (g st'), rg_R (g st'), SE (g st')]]
         | Inl e \<Rightarrow> True))"
proof -
  have c1: "regression_start lines fs = Inr st \<longrightarrow> cache_ok st"
    by (auto intro: start_cache_ok)
  have c2: "cache_ok st \<longrightarrow>
        (case regression_body lib st of Inr st' \<Rightarrow> cache_ok st' | Inl e \<Rightarrow> True)"
    by (auto split: sum.splits intro: body_keeps_cache_ok)
  have c3: "cache_ok st \<and> data_crunched st \<longrightarrow> rg_n st \<noteq> 0 \<and> from_points st = Inr (g st)"
    using cached_is_fresh[of st] by simp
  have c4: "rg_code st = 3 \<longrightarrow>
        (case regression_body lib st of
           Inr st' \<Rightarrow> xlist st' \<noteq> xlist st \<or> ylist st' \<noteq> ylist st \<longrightarrow> \<not> data_crunched st'
         | Inl e \<Rightarrow> True)"
    by (auto split: sum.splits simp: regression_body_def dest!: rg_cmd3_inv)
  have c5: "rg_code st = 1 \<longrightarrow>
        (case regression_body lib st of Inr st' \<Rightarrow> \<not> data_crunched st' | Inl e \<Rightarrow> True)"
    by (auto split: sum.splits simp: regression_body_def dest!: rg_cmd1_flag)
  have r4: "regression_body lib st = rg_cmd4 st" if "rg_code st = 4" using that by (simp add: regression_body_def)
  have r6: "regression_body lib st = rg_cmd6 st" if "rg_code st = 6" using that by (simp add: regression_body_def)
  have r7: "regression_body lib st = rg_cmd7 st" if "rg_code st = 7" using that by (simp add: regression_body_def)
  have r8: "regression_body lib st = rg_cmd8 st" if "rg_code st = 8" using that by (simp add: regression_body_def)
  have r9: "regression_body lib st = rg_cmd9 st" if "rg_code st = 9" using that by (simp add: regression_body_def)
  show ?thesis
    apply (intro conjI)
    subgoal by (rule c1)
    subgoal by (rule c2)
    subgoal by (rule c3)
    subgoal by (rule c4)
    subgoal by (rule c5)
    subgoal using rg_cmd4_reads[of st] by (auto simp: r4 split: sum.splits)
    subgoal using rg_cmd6_reads[of st] by (auto simp: r6 split: sum.splits)
    subgoal using rg_cmd7_reads[of st] by (auto simp: r7 split: sum.splits)
    subgoal using rg_cmd8_reads[of st l1 y l2 x l3] by (auto simp: r8 split: sum.splits)
    subgoal using rg_cmd9_reads[of st] by (auto simp: r9 split: sum.splits)
    done
qed

theorem cached_statistics_follow_points_witness:
  "(case regression_start [enter, enter] Map.empty of Inr st \<Rightarrow> cache_ok st | Inl e \<Rightarrow> False)
   \<and> (case regression_body small_lib
         (pts3\<lparr>rg_code := 4,
               inp := [int_line ''3'' 3, word ''y'', int_line ''2'' 2, int_line ''2'' 2, int_line ''3'' 3,
                       word ''y'', int_line ''3'' 3, int_line ''3'' 3, int_line ''1'' 1, enter,
                       int_line ''9'' 9, int_line ''0'' 0]\<rparr>) of
        Inr a \<Rightarrow>
          cache_ok a \<and> data_crunched a \<and> from_points a = Inr (g a)
          \<and> slope (g a) = 1 / 2 \<and> intercept (g a) = 1 \<and> rg_R (g a) = 1 / 2
          \<and> reports_of ''The internal function gives an R value of'' (out a) = [[1 / 2]]
          \<and> (case regression_body small_lib a of
               Inr b \<Rightarrow>
                 xlist b = [1, 2, 3] \<and> ylist b = [2, 3, 1] \<and> \<not> data_crunched b \<and> g b = g a
                 \<and> (case regression_body small_lib b of
                      Inr c \<Rightarrow>
                        cache_ok c \<and> from_points b = Inr (g c)
                        \<and> slope (g c) = - 1 / 2 \<and> intercept (g c) = 3 \<and> rg_R (g c) = - 1 / 2
                        \<and> reports_of ''Our function calculated slope, intercept, R, SE'' (out c)
                            = [[- 1 / 2, 3, - 1 / 2, SE (g c)]]
                    | Inl e \<Rightarrow> False)
                 \<and> (case regression_body small_lib (b\<lparr>rg_code := 7, inp := [enter, int_line ''0'' 0]\<rparr>) of
                      Inr c \<Rightarrow>
                        from_points b = Inr (g c)
                        \<and> reports_of ''The coefficient of linear correlation, R is'' (out c) = [[- 1 / 2]]
                        \<and> reports_of ''The best fitting line has intercept and slope'' (out c) = [[3, - 1 / 2]]
                        \<and> reports_of ''The standard error of estimation SE is'' (out c) = [[SE (g c)]]
                    | Inl e \<Rightarrow> False)
                 \<and> (case regression_body small_lib
                           (b\<lparr>rg_code := 8,
                              inp := [enter, int_line ''1'' 1, int_line ''1'' 1, word ''n'', int_line ''0'' 0]\<rparr>) of
                      Inr c \<Rightarrow>
                        from_points b = Inr (g c)
                        \<and> reports_of ''The predicted y-hat and the residual'' (out c) = [[5 / 2, 3 / 2]]
                    | Inl e \<Rightarrow> False)
                 \<and> (case regression_body small_lib (b\<lparr>rg_code := 6, inp := [int_line ''0'' 0]\<rparr>) of
                      Inr c \<Rightarrow>
                        reports_of ''The best least-squares line has the intercept and slope'' (out c)
                          = [[3, - 1 / 2]]
                    | Inl e \<Rightarrow> False)
             | Inl e \<Rightarrow> False)
      | Inl e \<Rightarrow> False)
   \<and> (case regression_body small_lib
        (pts3\<lparr>data_crunched := True, rg_code := 1,
              inp := [enter, int_line ''2'' 2, int_line ''1'' 1, int_line ''1'' 1, int_line ''2'' 2,
                      int_line ''3'' 3, int_line ''0'' 0]\<rparr>) of
        Inr st' \<Rightarrow> xlist st' = [1, 2] \<and> \<not> data_crunched st'
      | Inl e \<Rightarrow> False)"
proof -
  let ?P = "pts3\<lparr>rg_code := 4,
               inp := [int_line ''3'' 3, word ''y'', int_line ''2'' 2, int_line ''2'' 2, int_line ''3'' 3,
                       word ''y'', int_line ''3'' 3, int_line ''3'' 3, int_line ''1'' 1, enter,
                       int_line ''9'' 9, int_line ''0'' 0]\<rparr>"
  let ?K1 = "pts3\<lparr>data_crunched := True, rg_code := 1,
              inp := [enter, int_line ''2'' 2, int_line ''1'' 1, int_line ''1'' 1, int_line ''2'' 2,
                      int_line ''3'' 3, int_line ''0'' 0]\<rparr>"
  note T = cached_statistics_follow_points
  have "case regression_start [enter, enter] Map.empty of Inr st \<Rightarrow> True | Inl e \<Rightarrow> False"
    by (simp add: rg_defs)
  then obtain s0 where s0: "regression_start [enter, enter] Map.empty = Inr s0"
    by (auto split: sum.splits)
  with T[of "[enter, enter]" Map.empty s0] have w0: "cache_ok s0" by simp
  have p: "cache_ok ?P" "rg_code ?P = 4" "rg_n ?P \<noteq> 0" "\<not> data_crunched ?P"
    by (simp_all add: cache_ok_def pts3_def)
  have "case regression_body small_lib ?P of
          Inr a \<Rightarrow> data_crunched a \<and> rg_R (g a) = 1 / 2 \<and> slope (g a) = 1 / 2 \<and> intercept (g a) = 1
            \<and> rg_code a = 3 \<and> xlist a = [1, 2, 3] \<and> ylist a = [2, 1, 3] \<and> rg_n a = 3
            \<and> inp a = [word ''y'', int_line ''2'' 2, int_line ''2'' 2, int_line ''3'' 3,
                       word ''y'', int_line ''3'' 3, int_line ''3'' 3, int_line ''1'' 1, enter,
                       int_line ''9'' 9, int_line ''0'' 0]
            \<and> out a = [Report ''The first formula gives an R value of'' [1 / 2],
                       Report ''The internal function gives an R value of'' [1 / 2]]
        | Inl e \<Rightarrow> False"
    by (simp add: pts3_def rg_defs arith_defs emit_def crunch_data_def crunch_def Let_def
        power2_eq_square)
  then obtain a where a: "regression_body small_lib ?P = Inr a" "data_crunched a"
      "rg_R (g a) = 1 / 2" "slope (g a) = 1 / 2" "intercept (g a) = 1"
      "rg_code a = 3" "xlist a = [1, 2, 3]" "ylist a = [2, 1, 3]" "rg_n a = 3"
      "inp a = [word ''y'', int_line ''2'' 2, int_line ''2'' 2, int_line ''3'' 3,
                       word ''y'', int_line ''3'' 3, int_line ''3'' 3, int_line ''1'' 1, enter,
                       int_line ''9'' 9, int_line ''0'' 0]"
      "out a = [Report ''The first formula gives an R value of'' [1 / 2],
                       Report ''The internal function gives an R value of'' [1 / 2]]"
    by (auto split: sum.splits)
  from T[of _ _ ?P small_lib] p a(1) have wa: "cache_ok a" by simp
  from T[of _ _ a small_lib] wa a(2) have wa3: "from_points a = Inr (g a)" by simp
  have "case regression_body small_lib a of
          Inr b \<Rightarrow> xlist b = [1, 2, 3] \<and> ylist b = [2, 3, 1] \<and> rg_n b = 3 \<and> g b = g a
            \<and> rg_code b = 9 \<and> inp b = [int_line ''0'' 0] \<and> \<not> data_from_file b
            \<and> reports_of ''Our function calculated slope, intercept, R, SE'' (out b) = []
            \<and> reports_of ''The coefficient of linear correlation, R is'' (out b) = []
            \<and> reports_of ''The best fitting line has intercept and slope'' (out b) = []
            \<and> reports_of ''The standard error of estimation SE is'' (out b) = []
            \<and> reports_of ''The predicted y-hat and the residual'' (out b) = []
            \<and> reports_of ''The best least-squares line has the intercept and slope'' (out b) = []
        | Inl e \<Rightarrow> False"
    by (simp add: a rg_defs correct_one_def set_x_def set_y_def emit_def)
  then obtain b where b: "regression_body small_lib a = Inr b"
      "xlist b = [1, 2, 3]" "ylist b = [2, 3, 1]" "rg_n b = 3" "g b = g a"
      "rg_code b = 9" "inp b = [int_line ''0'' 0]" "\<not> data_from_file b"
      "reports_of ''Our function calculated slope, intercept, R, SE'' (out b) = []"
      "reports_of ''The coefficient of linear correlation, R is'' (out b) = []"
      "reports_of ''The best fitting line has intercept and slope'' (out b) = []"
      "reports_of ''The standard error of estimation SE is'' (out b) = []"
      "reports_of ''The predicted y-hat and the residual'' (out b) = []"
      "reports_of ''The best least-squares line has the intercept and slope'' (out b) = []"
    by (auto split: sum.splits)
  from T[of _ _ a small_lib] a(6,8) b(1,3) have nb: "\<not> data_crunched b" by simp
  then have okb: "cache_ok b" by (simp add: cache_ok_def)
  have "case from_points b of
          Inr s \<Rightarrow> slope s = - 1 / 2 \<and> intercept s = 3 \<and> rg_R s = - 1 / 2
            \<and> totalx s = 6 \<and> totaly s = 6 \<and> totalxy s = 11 \<and> totalx2 s = 14 \<and> totaly2 s = 14
            \<and> var_unexplained s = 3 / 2 \<and> SE s \<noteq> 0
        | Inl e \<Rightarrow> False"
    by (simp add: b from_points_def crunch_def arith_defs py_range_num py_index_def Let_def
        power2_eq_square)
  then obtain s where s: "from_points b = Inr s" "slope s = - 1 / 2" "intercept s = 3" "rg_R s = - 1 / 2"
      "totalx s = 6" "totaly s = 6" "totalxy s = 11" "totalx2 s = 14" "totaly2 s = 14"
      "var_unexplained s = 3 / 2" "SE s \<noteq> 0"
    by (auto split: sum.splits)
  have cr: "crunch_data s' = Inr (s'\<lparr>g := s, data_crunched := True\<rparr>)"
    if "xlist s' = xlist b" "ylist s' = ylist b" "rg_n s' = rg_n b" for s'
    using that s(1) crunch_indep[of "xlist b" "ylist b" "rg_n b" "g s'" stats0] b(4)
    by (simp add: crunch_data_def from_points_def)
  have fpb: "from_points (b\<lparr>rg_code := k, inp := ls\<rparr>) = Inr s" for k ls
    using s(1) by (simp add: from_points_def)
  have "case regression_body small_lib b of Inr c \<Rightarrow> True | Inl e \<Rightarrow> False"
    by (simp add: b nb rg_defs cr emit_def)
  then obtain c9 where c9: "regression_body small_lib b = Inr c9" by (auto split: sum.splits)
  from T[of _ _ b small_lib] okb b(4,6,9) c9 s
  have w9: "cache_ok c9" "g c9 = s"
    "reports_of ''Our function calculated slope, intercept, R, SE'' (out c9)
       = [[- 1 / 2, 3, - 1 / 2, SE (g c9)]]"
    by auto
  let ?b7 = "b\<lparr>rg_code := 7, inp := [enter, int_line ''0'' 0]\<rparr>"
  have "case regression_body small_lib ?b7 of Inr c \<Rightarrow> True | Inl e \<Rightarrow> False"
    by (simp add: b nb s rg_defs cr emit_def dump_stats_def reverse_line_def rev_denom_def
        rev_intercept_def rev_slope_def py_div_def py_sqrt_def py_log_def Let_def power2_eq_square)
  then obtain c7 where c7: "regression_body small_lib ?b7 = Inr c7" by (auto split: sum.splits)
  have "cache_ok ?b7" using nb by (simp add: cache_ok_def)
  with T[of _ _ ?b7 small_lib] b(4,10,11,12) c7 fpb[where k = 7 and ls = "[enter, int_line ''0'' 0]"] s
  have w7: "g c7 = s"
    "reports_of ''The coefficient of linear correlation, R is'' (out c7) = [[- 1 / 2]]"
    "reports_of ''The best fitting line has intercept and slope'' (out c7) = [[3, - 1 / 2]]"
    "reports_of ''The standard error of estimation SE is'' (out c7) = [[SE (g c7)]]"
    by auto
  let ?b8 = "b\<lparr>rg_code := 8,
                inp := [enter, int_line ''1'' 1, int_line ''1'' 1, word ''n'', int_line ''0'' 0]\<rparr>"
  have "case regression_body small_lib ?b8 of
          Inr c \<Rightarrow> reports_of ''The predicted y-hat and the residual'' (out c) = [[5 / 2, 3 / 2]]
        | Inl e \<Rightarrow> False"
    by (simp add: b nb s rg_defs cr emit_def py_div_def Let_def)
  then obtain c8 where c8: "regression_body small_lib ?b8 = Inr c8"
    "reports_of ''The predicted y-hat and the residual'' (out c8) = [[5 / 2, 3 / 2]]"
    by (auto split: sum.splits)
  have "cache_ok ?b8" using nb by (simp add: cache_ok_def)
  moreover have "get_user_yes_or_no_input (Some ''Y'') (inp ?b8)
       = Inr (''Y'', [int_line ''1'' 1, int_line ''1'' 1, word ''n'', int_line ''0'' 0])"
    "get_user_float_input None None None [int_line ''1'' 1, int_line ''1'' 1, word ''n'', int_line ''0'' 0]
       = Inr (1, [int_line ''1'' 1, word ''n'', int_line ''0'' 0])"
    "get_user_float_input None None None [int_line ''1'' 1, word ''n'', int_line ''0'' 0]
       = Inr (1, [word ''n'', int_line ''0'' 0])"
    by (simp_all add: lines_defs text_defs)
  ultimately have w8: "from_points ?b8 = Inr (g c8)"
    using T[where st = ?b8 and lib = small_lib and y = 1 and x = 1
        and ?l1.0 = "[int_line ''1'' 1, int_line ''1'' 1, word ''n'', int_line ''0'' 0]"
        and ?l2.0 = "[int_line ''1'' 1, word ''n'', int_line ''0'' 0]"
        and ?l3.0 = "[word ''n'', int_line ''0'' 0]"] b(4) c8(1)
    by simp
  let ?b6 = "b\<lparr>rg_code := 6, inp := [int_line ''0'' 0]\<rparr>"
  have "case regression_body small_lib ?b6 of Inr c \<Rightarrow> True | Inl e \<Rightarrow> False"
    by (simp add: b nb rg_defs arith_defs emit_def Let_def power2_eq_square)
  then obtain c6 where c6: "regression_body small_lib ?b6 = Inr c6" by (auto split: sum.splits)
  have fp: "first_pass [1, 2, 3] [2, 3, 1] (py_range 3) stats0
      = Inr (stats0\<lparr>totalx := 6, totaly := 6, totalxy := 11, totalx2 := 14, totaly2 := 14\<rparr>)"
    by (simp add: py_range_num py_index_def stats0_def)
  have "cache_ok ?b6" using nb by (simp add: cache_ok_def)
  with T[of _ _ ?b6 small_lib] b(2,3,4,14) c6
  have w6: "reports_of ''The best least-squares line has the intercept and slope'' (out c6) = [[3, - 1 / 2]]"
    by (auto simp: fp line_intercept_def line_slope_def py_div_def)
  have "case regression_body small_lib ?K1 of Inr st' \<Rightarrow> xlist st' = [1, 2] | Inl e \<Rightarrow> False"
    by (simp add: pts3_def rg_defs emit_def)
  then obtain s1 where s1: "regression_body small_lib ?K1 = Inr s1" "xlist s1 = [1, 2]"
    by (auto split: sum.splits)
  from T[of _ _ ?K1 small_lib] s1 have w1: "\<not> data_crunched s1" by (simp add: pts3_def)
  from s0 w0 a wa wa3 b nb c9 w9 s c7 w7 c8 w8
    fpb[where k = 8 and ls = "[enter, int_line ''1'' 1, int_line ''1'' 1, word ''n'', int_line ''0'' 0]"]
    c6 w6 s1 w1 show ?thesis
    by simp
qed

end
